(* ===== verification/Prelude.thy ===== *)
theory Prelude
  imports Complex_Main
begin

text \<open>
  Shared vocabulary of the ETL development.
  \<^item> Actions: a Python statement that may raise is a function from the state to the
    exception it raised (if any) and the state it left behind.  The state is returned
    also when an exception is raised, because the Postgres connection of
    \<open>RDMS_Data_Modelling/etl.py\<close> runs in autocommit mode: what was written before
    the exception stays written.  \<open>then_act\<close> is Python's sequencing, \<open>for_each\<close>
    its \<open>for\<close> loop.
  \<^item> Tables: a database table is the list of its rows in insertion order.
    \<open>ins_absent\<close> is an insert guarded by the natural key (\<open>ON CONFLICT DO NOTHING\<close>),
    \<open>upsert\<close> an insert that overwrites the row with the same key
    (\<open>ON CONFLICT DO UPDATE\<close>).  Their lemmas (keys, distinctness, idempotence of a
    batch, last write wins) carry the component proofs.
\<close>

named_theorems table_simps "facts about keyed table operations"

section \<open>Actions that may raise\<close>

type_synonym ('e, 's) act = "'s \<Rightarrow> 'e option \<times> 's"

definition then_act :: "('e, 's) act \<Rightarrow> ('e, 's) act \<Rightarrow> ('e, 's) act" where
  "then_act a b s = (case a s of (None, s') \<Rightarrow> b s' | (Some e, s') \<Rightarrow> (Some e, s'))"

definition raise :: "'e \<Rightarrow> ('e, 's) act" where
  "raise e s = (Some e, s)"

fun for_each :: "('a \<Rightarrow> ('e, 's) act) \<Rightarrow> 'a list \<Rightarrow> ('e, 's) act" where
  "for_each f [] s = (None, s)"
| "for_each f (x # xs) s = then_act (f x) (for_each f xs) s"

lemma then_act_None [simp]: "a s = (None, s') \<Longrightarrow> then_act a b s = b s'"
  by (simp add: then_act_def)

lemma then_act_Some [simp]: "a s = (Some e, s') \<Longrightarrow> then_act a b s = (Some e, s')"
  by (simp add: then_act_def)

lemma raise_then [simp]: "then_act (raise e) b s = (Some e, s)"
  by (simp add: then_act_def raise_def)

lemma then_act_assoc: "then_act (then_act a b) c s = then_act a (then_act b c) s"
  by (simp add: then_act_def split: prod.splits option.splits)

lemma for_each_append:
  "for_each f (xs @ ys) s = then_act (for_each f xs) (for_each f ys) s"
  by (induction xs arbitrary: s) (simp_all add: then_act_def split: prod.splits option.splits)

lemma then_act_ok [simp]: "then_act a (\<lambda>s. (None, s)) s = a s"
  by (simp add: then_act_def split: prod.splits option.splits)

lemma then_act_Nil [simp]: "then_act a (for_each f []) s = a s"
  by (simp add: then_act_def split: prod.splits option.splits)

lemma for_each_map: "for_each f (map g xs) s = for_each (f \<circ> g) xs s"
  by (induction xs arbitrary: s) (simp_all add: then_act_def split: prod.splits option.splits)

text \<open>A loop over atomic statements: a failing statement changes nothing.\<close>

lemma for_each_atomic:
  assumes "\<And>x s. f x s = (case g x s of Inl e \<Rightarrow> (Some e, s) | Inr s' \<Rightarrow> (None, s'))"
  shows "for_each f (x # xs) s = (case g x s of Inl e \<Rightarrow> (Some e, s) | Inr s' \<Rightarrow> for_each f xs s')"
  by (simp add: assms then_act_def split: sum.splits)

text \<open>The statement at which such a loop stops is the first that fails.\<close>

lemma for_each_atomic_Some:
  assumes f: "\<And>x s. f x s = (case g x s of Inl e \<Rightarrow> (Some e, s) | Inr s' \<Rightarrow> (None, s'))"
    and "for_each f xs s = (Some e, s')"
  shows "\<exists>pre x post. xs = pre @ x # post \<and> for_each f pre s = (None, s') \<and> g x s' = Inl e"
  using assms(2)
proof (induction xs arbitrary: s)
  case Nil
  then show ?case by simp
next
  case (Cons x xs)
  show ?case
  proof (cases "g x s")
    case (Inl e')
    with Cons.prems have "e' = e" "s' = s" by (simp_all add: f then_act_def)
    with Inl show ?thesis by (intro exI [of _ "[]"] exI [of _ x] exI [of _ xs]) simp
  next
    case (Inr s1)
    with Cons.prems have "for_each f xs s1 = (Some e, s')" by (simp add: f [of x s] then_act_def)
    from Cons.IH [OF this] obtain pre y post
      where "xs = pre @ y # post" "for_each f pre s1 = (None, s')" "g y s' = Inl e" by blast
    with Inr show ?thesis
      by (intro exI [of _ "x # pre"] exI [of _ y] exI [of _ post]) (simp add: f [of x s] then_act_def)
  qed
qed

text \<open>A loop whose body runs a list of smaller steps runs their concatenation.\<close>

lemma for_each_concat:
  assumes "\<And>x s. f x s = for_each h (g x) s"
  shows "for_each f xs s = for_each h (concat (map g xs)) s"
proof (induction xs arbitrary: s)
  case Nil
  then show ?case by simp
next
  case (Cons x xs)
  then show ?case by (simp add: assms for_each_append then_act_def split: prod.splits option.splits)
qed

text \<open>An invariant every step keeps holds after the loop, raised or not.\<close>

lemma for_each_invariant:
  assumes "\<And>x s. P s \<Longrightarrow> P (snd (f x s))" and "P s"
  shows "P (snd (for_each f xs s))"
  using assms(2)
proof (induction xs arbitrary: s)
  case Nil
  then show ?case by simp
next
  case (Cons x xs)
  from assms(1) [OF Cons.prems] have "P (snd (f x s))" .
  then show ?case using Cons.IH
    by (cases "f x s") (auto simp: then_act_def split: option.splits)
qed

section \<open>Keyed tables\<close>

definition keys :: "('r \<Rightarrow> 'k) \<Rightarrow> 'r list \<Rightarrow> 'k set" where
  "keys key t = set (map key t)"

definition ins_absent :: "('r \<Rightarrow> 'k) \<Rightarrow> 'r \<Rightarrow> 'r list \<Rightarrow> 'r list" where
  "ins_absent key r t = (if key r \<in> set (map key t) then t else t @ [r])"

definition upsert :: "('r \<Rightarrow> 'k) \<Rightarrow> 'r \<Rightarrow> 'r list \<Rightarrow> 'r list" where
  "upsert key r t =
     (if key r \<in> set (map key t) then map (\<lambda>x. if key x = key r then r else x) t
      else t @ [r])"

text \<open>The row a batch leaves for a key under last-write-wins: its last row with that key.\<close>

definition last_by :: "('r \<Rightarrow> 'k) \<Rightarrow> 'r list \<Rightarrow> 'k \<Rightarrow> 'r option" where
  "last_by key rs k = find (\<lambda>r. key r = k) (rev rs)"

lemma keys_Nil [simp, table_simps]: "keys key [] = {}"
  by (simp add: keys_def)

lemma keys_append [simp, table_simps]: "keys key (xs @ ys) = keys key xs \<union> keys key ys"
  by (simp add: keys_def)

lemma keys_Cons [simp, table_simps]: "keys key (x # xs) = insert (key x) (keys key xs)"
  by (simp add: keys_def)

lemma keys_ins_absent [simp, table_simps]:
  "keys key (ins_absent key r t) = insert (key r) (keys key t)"
  by (auto simp: ins_absent_def keys_def)

lemma distinct_ins_absent [table_simps]:
  "distinct (map key t) \<Longrightarrow> distinct (map key (ins_absent key r t))"
  by (simp add: ins_absent_def)

lemma ins_absent_present [table_simps]: "key r \<in> keys key t \<Longrightarrow> ins_absent key r t = t"
  by (simp add: ins_absent_def keys_def)

lemma ins_absent_prefix: "\<exists>s. ins_absent key r t = t @ s"
  by (auto simp: ins_absent_def)

lemma keys_fold_ins_absent [simp, table_simps]:
  "keys key (fold (ins_absent key) rs t) = keys key t \<union> keys key rs"
  by (induction rs arbitrary: t) auto

lemma fold_ins_absent_present:
  "keys key rs \<subseteq> keys key t \<Longrightarrow> fold (ins_absent key) rs t = t"
  by (induction rs) (auto simp: ins_absent_present)

lemma fold_ins_absent_idem [table_simps]:
  "fold (ins_absent key) rs (fold (ins_absent key) rs t) = fold (ins_absent key) rs t"
  by (rule fold_ins_absent_present) simp

lemma fold_ins_absent_prefix: "\<exists>s. fold (ins_absent key) rs t = t @ s"
proof (induction rs arbitrary: t)
  case Nil
  then show ?case by simp
next
  case (Cons r rs)
  from ins_absent_prefix [of key r t] obtain s1 where "ins_absent key r t = t @ s1" ..
  moreover obtain s2 where "fold (ins_absent key) rs (t @ s1) = t @ s1 @ s2"
    using Cons.IH [of "t @ s1"] by auto
  ultimately show ?case by auto
qed

lemma distinct_fold_ins_absent [table_simps]:
  "distinct (map key t) \<Longrightarrow> distinct (map key (fold (ins_absent key) rs t))"
  by (induction rs arbitrary: t) (simp_all add: distinct_ins_absent)

lemma map_key_upsert_present:
  "map (key \<circ> (\<lambda>x. if key x = key r then r else x)) t = map key t"
  by (induction t) auto

lemma keys_upsert [simp, table_simps]:
  "keys key (upsert key r t) = insert (key r) (keys key t)"
  by (auto simp: upsert_def keys_def map_key_upsert_present [THEN arg_cong [where f = set], simplified])

lemma distinct_upsert [table_simps]:
  "distinct (map key t) \<Longrightarrow> distinct (map key (upsert key r t))"
  by (simp add: upsert_def map_key_upsert_present)

lemma keys_fold_upsert [simp, table_simps]:
  "keys key (fold (upsert key) rs t) = keys key t \<union> keys key rs"
  by (induction rs arbitrary: t) auto

lemma distinct_fold_upsert [table_simps]:
  "distinct (map key t) \<Longrightarrow> distinct (map key (fold (upsert key) rs t))"
  by (induction rs arbitrary: t) (simp_all add: distinct_upsert)

lemma last_by_snoc [simp]:
  "last_by key (rs @ [r]) k = (if key r = k then Some r else last_by key rs k)"
  by (simp add: last_by_def)

lemma last_by_key: "last_by key rs k = Some r \<Longrightarrow> key r = k"
  by (auto simp: last_by_def dest: find_Some_iff [THEN iffD1])

lemma last_by_Nil [simp]: "last_by key [] k = None"
  by (simp add: last_by_def)

lemma last_by_Some_iff_keys: "(\<exists>r. last_by key rs k = Some r) \<longleftrightarrow> k \<in> keys key rs"
  by (induction rs rule: rev_induct) auto

text \<open>Last write wins: every row of the table whose key a batch wrote holds the last row
  of the batch with that key.\<close>

lemma fold_upsert_last:
  "x \<in> set (fold (upsert key) rs t) \<Longrightarrow> key x \<in> keys key rs \<Longrightarrow> last_by key rs (key x) = Some x"
proof (induction rs arbitrary: x rule: rev_induct)
  case Nil
  then show ?case by simp
next
  case (snoc r rs)
  let ?T = "fold (upsert key) rs t"
  from snoc.prems(1) have x: "x \<in> set (upsert key r ?T)" by simp
  show ?case
  proof (cases "key x = key r")
    case True
    have "x = r"
      using x True by (auto simp: upsert_def image_iff split: if_splits)
    then show ?thesis by simp
  next
    case False
    then have "x \<in> set ?T"
      using x by (auto simp: upsert_def split: if_splits)
    moreover have "key x \<in> keys key rs" using False snoc.prems(2) by simp
    ultimately show ?thesis using False snoc.IH by simp
  qed
qed

lemma fold_upsert_present:
  "keys key rs \<subseteq> keys key t \<Longrightarrow>
   fold (upsert key) rs t = map (\<lambda>x. case last_by key rs (key x) of None \<Rightarrow> x | Some r \<Rightarrow> r) t"
proof (induction rs rule: rev_induct)
  case Nil
  then show ?case by (simp add: last_by_def)
next
  case (snoc r rs)
  let ?f = "\<lambda>x. case last_by key rs (key x) of None \<Rightarrow> x | Some r \<Rightarrow> r"
  have keyf: "key (?f x) = key x" for x
    by (auto split: option.splits dest: last_by_key)
  have IH: "fold (upsert key) rs t = map ?f t" using snoc by simp
  have "key r \<in> keys key (map ?f t)"
    using snoc.prems by (simp add: keys_def keyf comp_def)
  then have "upsert key r (map ?f t) = map (\<lambda>x. if key x = key r then r else x) (map ?f t)"
    by (simp add: upsert_def keys_def)
  then show ?case using IH by (simp add: keyf comp_def)
qed

lemma fold_upsert_idem [table_simps]:
  "fold (upsert key) rs (fold (upsert key) rs t) = fold (upsert key) rs t"
proof -
  let ?T = "fold (upsert key) rs t"
  have "fold (upsert key) rs ?T =
        map (\<lambda>x. case last_by key rs (key x) of None \<Rightarrow> x | Some r \<Rightarrow> r) ?T"
    by (rule fold_upsert_present) simp
  also have "\<dots> = ?T"
  proof (rule map_idI)
    fix x assume x: "x \<in> set ?T"
    show "(case last_by key rs (key x) of None \<Rightarrow> x | Some r \<Rightarrow> r) = x"
    proof (cases "key x \<in> keys key rs")
      case True
      then show ?thesis using fold_upsert_last [OF x True] by simp
    next
      case False
      then have "last_by key rs (key x) = None"
        using last_by_Some_iff_keys [of key rs "key x"] by auto
      then show ?thesis by simp
    qed
  qed
  finally show ?thesis .
qed

text \<open>With distinct keys, the rows of a key after a batch of upserts are exactly its last row.\<close>

lemma filter_key_distinct:
  "distinct (map key t) \<Longrightarrow> x \<in> set t \<Longrightarrow> key x = k \<Longrightarrow> filter (\<lambda>y. key y = k) t = [x]"
proof (induction t)
  case Nil
  then show ?case by simp
next
  case (Cons y t)
  show ?case
  proof (cases "y = x")
    case True
    with Cons.prems have "filter (\<lambda>y. key y = k) t = []"
      by (auto simp: filter_empty_conv image_iff)
    with True Cons.prems show ?thesis by simp
  next
    case False
    with Cons.prems have "x \<in> set t" "key y \<noteq> k" by auto
    with Cons show ?thesis by simp
  qed
qed

lemma fold_upsert_rows_of_key:
  assumes "distinct (map key t)" and "last_by key rs k = Some r"
  shows "filter (\<lambda>x. key x = k) (fold (upsert key) rs t) = [r]"
proof -
  let ?T = "fold (upsert key) rs t"
  have d: "distinct (map key ?T)" using assms(1) by (rule distinct_fold_upsert)
  have kin: "k \<in> keys key rs" using last_by_Some_iff_keys [of key rs k] assms(2) by auto
  then have "k \<in> keys key ?T" by simp
  then obtain x where x: "x \<in> set ?T" "key x = k" by (auto simp: keys_def)
  then have "x = r" using fold_upsert_last [OF x(1)] kin assms(2) by simp
  have "filter (\<lambda>y. key y = k) ?T = [x]"
    using d x by (rule filter_key_distinct)
  then show ?thesis using \<open>x = r\<close> by simp
qed

section \<open>Projections of folds\<close>

text \<open>When every step acts on one component of the state as a fold over the rows it
  contributes, the whole run acts on that component as a fold over all contributions.\<close>

lemma fold_proj:
  assumes "\<And>x s. p (f x s) = fold g (c x) (p s)"
  shows "p (fold f xs s) = fold g (concat (map c xs)) (p s)"
  using assms by (induction xs arbitrary: s) simp_all

end
