(* ===== verification/Records.thy ===== *)
theory Records
  imports Prelude
begin

text \<open>
  The record parser: how the scripts turn a JSON-lines file into rows they read fields of.
  \<open>RDMS_Data_Modelling/etl.py\<close> calls \<open>pd.read_json(filepath, lines=True)\<close>; the
  resulting frame has one column for every key that occurs in some line, and a line that
  lacks a key reads NaN there.  Selecting columns a frame does not have raises
  \<open>KeyError\<close>; reading a missing attribute of a row raises \<open>AttributeError\<close>.
  The JSON values are kept as they are (\<open>jval\<close>): the scripts never check types, they
  hand the values to the database.  \<open>sql_eq\<close> is SQL's equality on the values passed as
  query parameters, where NULL equals nothing.
\<close>

datatype jval = JNull | JBool bool | JInt int | JFloat rat | JStr string

type_synonym jobj = "(string \<times> jval) list"

text \<open>The exceptions the scripts can raise (pandas, psycopg2, PySpark), as values;
  \<open>LoadError\<close> is a failed Redshift \<open>COPY\<close> (psycopg2's \<open>InternalError\<close>),
  \<open>AnalysisException\<close> a Spark plan naming a column the frame lacks, \<open>PythonException\<close> an
  exception raised inside a Python UDF, \<open>DataError\<close> a value out of its column's range,
  \<open>OSError\<close> a file that cannot be opened (\<open>IsADirectoryError\<close>, \<open>FileNotFoundError\<close>),
  \<open>ProgrammingError\<close> a statement naming a table that does not exist, \<open>ConfigError\<close> an
  exception of \<open>configparser\<close> (named by its class).\<close>

datatype error =
    KeyError "string list"
  | IndexError
  | AttributeError string
  | ValueError
  | IntegrityError string
  | LoadError string
  | AnalysisException string
  | PythonException string
  | DataError string
  | OSError string
  | ProgrammingError string
  | ConfigError string
  | OutOfBoundsDatetime

record frame =
  fcols :: "string list"
  frows :: "jobj list"

definition frame_of_lines :: "jobj list \<Rightarrow> frame" where
  "frame_of_lines ls = \<lparr>fcols = remdups (concat (map (map fst) ls)), frows = ls\<rparr>"

definition cell :: "jobj \<Rightarrow> string \<Rightarrow> jval" where
  "cell r k = (case map_of r k of None \<Rightarrow> JNull | Some v \<Rightarrow> v)"

definition missing_cols :: "frame \<Rightarrow> string list \<Rightarrow> string list" where
  "missing_cols df cs = filter (\<lambda>c. c \<notin> set (fcols df)) cs"

text \<open>\<open>df[cols]\<close>: a \<open>KeyError\<close> naming the missing columns, or nothing.\<close>

definition require_cols :: "frame \<Rightarrow> string list \<Rightarrow> error option" where
  "require_cols df cs = (if missing_cols df cs = [] then None else Some (KeyError (missing_cols df cs)))"

text \<open>Reading \<open>row.k1\<close>, \<open>row.k2\<close>, \<dots> in turn on a row of the frame (a pandas Series
  indexed by the frame's columns): the first attribute the frame lacks raises.\<close>

definition attr_error :: "frame \<Rightarrow> string list \<Rightarrow> error option" where
  "attr_error df ks =
     (case filter (\<lambda>k. k \<notin> set (fcols df)) ks of [] \<Rightarrow> None | k # _ \<Rightarrow> Some (AttributeError k))"

text \<open>\<open>df.set_index(k)\<close>: the column becomes the index, the other columns are kept.\<close>

definition set_index :: "string \<Rightarrow> frame \<Rightarrow> error + frame" where
  "set_index k df = (if k \<in> set (fcols df) then Inr (df\<lparr>fcols := removeAll k (fcols df)\<rparr>)
                     else Inl (KeyError [k]))"

text \<open>\<open>df[mask]\<close>: row filtering keeps the columns of the frame.\<close>

definition filter_rows :: "(jobj \<Rightarrow> bool) \<Rightarrow> frame \<Rightarrow> frame" where
  "filter_rows p df = df\<lparr>frows := filter p (frows df)\<rparr>"

fun sql_eq :: "jval \<Rightarrow> jval \<Rightarrow> bool" where
  "sql_eq (JStr a) (JStr b) = (a = b)"
| "sql_eq (JInt a) (JInt b) = (a = b)"
| "sql_eq (JInt a) (JFloat b) = (of_int a = b)"
| "sql_eq (JFloat a) (JInt b) = (a = of_int b)"
| "sql_eq (JFloat a) (JFloat b) = (a = b)"
| "sql_eq (JBool a) (JBool b) = (a = b)"
| "sql_eq _ _ = False"

text \<open>pandas keeps a timestamp as signed 64-bit nanoseconds: the milliseconds whose
  nanoseconds fit, from 1677-09-21 to 2262-04-11.\<close>

definition ms_in_bounds :: "int \<Rightarrow> bool" where
  "ms_in_bounds i \<longleftrightarrow> - 9223372036854 \<le> i \<and> i \<le> 9223372036854"

text \<open>\<open>pd.to_datetime(v, unit='ms')\<close> on one value: milliseconds since the epoch, NaT
  (\<open>None\<close>) for a missing value, \<open>OutOfBoundsDatetime\<close> for a number outside the
  nanosecond range, and \<open>ValueError\<close> for a value that is no number.\<close>

fun to_datetime_ms :: "jval \<Rightarrow> error + int option" where
  "to_datetime_ms (JInt i) = (if ms_in_bounds i then Inr (Some i) else Inl OutOfBoundsDatetime)"
| "to_datetime_ms (JFloat q) = (if ms_in_bounds \<lfloor>q\<rfloor> then Inr (Some \<lfloor>q\<rfloor>) else Inl OutOfBoundsDatetime)"
| "to_datetime_ms JNull = Inr None"
| "to_datetime_ms _ = Inl ValueError"

text \<open>The same on a whole column: the first bad value raises before anything is returned.\<close>

fun to_datetime_col :: "jval list \<Rightarrow> error + int option list" where
  "to_datetime_col [] = Inr []"
| "to_datetime_col (v # vs) =
     (case to_datetime_ms v of
        Inl e \<Rightarrow> Inl e
      | Inr t \<Rightarrow> (case to_datetime_col vs of Inl e \<Rightarrow> Inl e | Inr ts \<Rightarrow> Inr (t # ts)))"

section \<open>Lemmas\<close>

lemma cols_frame_of_lines [simp]:
  "set (fcols (frame_of_lines ls)) = (\<Union>r \<in> set ls. set (map fst r))"
  by (auto simp: frame_of_lines_def)

lemma frows_frame_of_lines [simp]: "frows (frame_of_lines ls) = ls"
  by (simp add: frame_of_lines_def)

lemma require_cols_None_iff: "require_cols df cs = None \<longleftrightarrow> set cs \<subseteq> set (fcols df)"
  by (auto simp: require_cols_def missing_cols_def filter_empty_conv)

lemma attr_error_None_iff: "attr_error df ks = None \<longleftrightarrow> set ks \<subseteq> set (fcols df)"
proof -
  have "attr_error df ks = None \<longleftrightarrow> filter (\<lambda>k. k \<notin> set (fcols df)) ks = []"
    by (simp add: attr_error_def split: list.splits)
  then show ?thesis by (auto simp: filter_empty_conv)
qed

text \<open>Which columns a frame has matters, not their order.\<close>

lemma require_cols_cong:
  "set (fcols df1) = set (fcols df2) \<Longrightarrow> require_cols df1 cs = require_cols df2 cs"
  by (simp add: require_cols_def missing_cols_def)

lemma attr_error_cong:
  "set (fcols df1) = set (fcols df2) \<Longrightarrow> attr_error df1 ks = attr_error df2 ks"
  by (simp add: attr_error_def)

lemma fcols_filter_rows [simp]: "fcols (filter_rows p df) = fcols df"
  by (simp add: filter_rows_def)

lemma frows_filter_rows [simp]: "frows (filter_rows p df) = filter p (frows df)"
  by (simp add: filter_rows_def)

lemma sql_eq_JNull [simp]: "\<not> sql_eq JNull v" "\<not> sql_eq v JNull"
  by (cases v; simp)+

lemma sql_eq_sym: "sql_eq a b = sql_eq b a"
  by (cases a; cases b) auto

lemma to_datetime_col_append:
  "to_datetime_col (xs @ ys) =
     (case to_datetime_col xs of Inl e \<Rightarrow> Inl e
      | Inr ts \<Rightarrow> (case to_datetime_col ys of Inl e \<Rightarrow> Inl e | Inr us \<Rightarrow> Inr (ts @ us)))"
  by (induction xs) (auto split: sum.splits)

end
