(* ===== verification/TimeConv.thy ===== *)
theory TimeConv
  imports Records
begin

text \<open>
  Time derivation: the calendar fields of an event's \<open>ts\<close>, milliseconds since
  1970-01-01 00:00 UTC.  \<open>RDMS_Data_Modelling/etl.py\<close> (\<open>insert_time_data\<close>) converts
  with \<open>pd.to_datetime(df['ts'], unit='ms')\<close> and reads \<open>dt.hour\<close>, \<open>dt.day\<close>,
  \<open>dt.weekofyear\<close> (the ISO week), \<open>dt.month\<close>, \<open>dt.year\<close> and \<open>dt.weekday\<close>
  (Monday = 0).  The Redshift script reads the same fields with SQL \<open>extract\<close>, where the
  day of the week counts from Sunday = 0; Spark's \<open>dayofweek\<close> counts from Sunday = 1.
  Days are split off with floor division, as numpy does for instants before 1970; the
  year is found by walking year lengths from 1970 (\<open>days_fwd\<close>, \<open>days_back\<close>, each a
  terminating \<^theory_text>\<open>function\<close>), the month by walking month lengths.
\<close>

section \<open>Calendar\<close>

definition is_leap :: "int \<Rightarrow> bool" where
  "is_leap y \<longleftrightarrow> (if 100 dvd y then 400 dvd y else 4 dvd y)"

definition year_len :: "int \<Rightarrow> int" where
  "year_len y = (if is_leap y then 366 else 365)"

function days_fwd :: "int \<Rightarrow> int \<Rightarrow> int \<times> int" where
  "days_fwd y d = (if year_len y \<le> d then days_fwd (y + 1) (d - year_len y) else (y, d))"
  by pat_completeness auto
termination
  by (relation "measure (\<lambda>(y, d). nat d)") (auto simp: year_len_def split: if_splits)

function days_back :: "int \<Rightarrow> int \<Rightarrow> int \<times> int" where
  "days_back y d = (if d < 0 then days_back (y - 1) (d + year_len (y - 1)) else (y, d))"
  by pat_completeness auto
termination
  by (relation "measure (\<lambda>(y, d). nat (- d))") (auto simp: year_len_def split: if_splits)

declare days_fwd.simps [simp del] days_back.simps [simp del]

text \<open>Year and 0-based day of the year of a day number (days since 1970-01-01).\<close>

definition year_and_day :: "int \<Rightarrow> int \<times> int" where
  "year_and_day days = (if days < 0 then days_back 1970 days else days_fwd 1970 days)"

definition month_lengths :: "int \<Rightarrow> int list" where
  "month_lengths y = [31, if is_leap y then 29 else 28, 31, 30, 31, 30, 31, 31, 30, 31, 30, 31]"

text \<open>Month (counted from \<open>m\<close>) and 1-based day of the month of a 0-based day of the year.\<close>

fun month_and_day :: "int list \<Rightarrow> int \<Rightarrow> int \<Rightarrow> int \<times> int" where
  "month_and_day [] m d = (m, d + 1)"
| "month_and_day (l # ls) m d = (if d < l then (m, d + 1) else month_and_day ls (m + 1) (d - l))"

text \<open>ISO 8601 week numbers: a year has 53 weeks when it starts on a Thursday, or is a
  leap year starting on a Wednesday.\<close>

definition iso_p :: "int \<Rightarrow> int" where
  "iso_p y = (y + y div 4 - y div 100 + y div 400) mod 7"

definition weeks_in_year :: "int \<Rightarrow> int" where
  "weeks_in_year y = (if iso_p y = 4 \<or> iso_p (y - 1) = 3 then 53 else 52)"

definition iso_week :: "int \<Rightarrow> int \<Rightarrow> int \<Rightarrow> int" where
  "iso_week y doy wd =
     (let w = (doy - wd + 10) div 7
      in if w < 1 then weeks_in_year (y - 1) else if weeks_in_year y < w then 1 else w)"

section \<open>Timestamps\<close>

record timestamp =
  t_epoch_day :: int
  t_year :: int
  t_doy :: int
  t_month :: int
  t_day :: int
  t_hour :: int
  t_minute :: int
  t_second :: int
  t_milli :: int

definition timestamp_of_ms :: "int \<Rightarrow> timestamp" where
  "timestamp_of_ms ms =
     (let days = ms div 86400000; r = ms mod 86400000;
          (y, doy) = year_and_day days;
          (m, d) = month_and_day (month_lengths y) 1 doy
      in \<lparr>t_epoch_day = days, t_year = y, t_doy = doy, t_month = m, t_day = d,
          t_hour = r div 3600000, t_minute = r mod 3600000 div 60000,
          t_second = r mod 60000 div 1000, t_milli = r mod 1000\<rparr>)"

text \<open>pandas \<open>dt.weekday\<close>: Monday = 0 (1970-01-01 was a Thursday).\<close>

definition dt_weekday :: "timestamp \<Rightarrow> int" where
  "dt_weekday t = (t_epoch_day t + 3) mod 7"

text \<open>pandas \<open>dt.weekofyear\<close>, SQL \<open>extract(week)\<close>, Spark \<open>weekofyear\<close>: the ISO week.\<close>

definition dt_week :: "timestamp \<Rightarrow> int" where
  "dt_week t = iso_week (t_year t) (t_doy t) (dt_weekday t)"

text \<open>SQL \<open>extract(dow)\<close>: Sunday = 0.  Spark \<open>dayofweek\<close>: Sunday = 1.\<close>

definition sql_dow :: "timestamp \<Rightarrow> int" where
  "sql_dow t = (t_epoch_day t + 4) mod 7"

definition spark_dayofweek :: "timestamp \<Rightarrow> int" where
  "spark_dayofweek t = (t_epoch_day t + 4) mod 7 + 1"

text \<open>The inverse direction, used to state the round trip: the day number of a date and
  the milliseconds of a timestamp.\<close>

function days_to_year :: "int \<Rightarrow> int" where
  "days_to_year y =
     (if y = 1970 then 0
      else if 1970 < y then days_to_year (y - 1) + year_len (y - 1)
      else days_to_year (y + 1) - year_len y)"
  by pat_completeness auto
termination
  by (relation "measure (\<lambda>y. nat \<bar>y - 1970\<bar>)") auto

declare days_to_year.simps [simp del]

definition days_of_date :: "int \<Rightarrow> int \<Rightarrow> int \<Rightarrow> int" where
  "days_of_date y m d = days_to_year y + sum_list (take (nat (m - 1)) (month_lengths y)) + d - 1"

definition ms_of_timestamp :: "timestamp \<Rightarrow> int" where
  "ms_of_timestamp t =
     days_of_date (t_year t) (t_month t) (t_day t) * 86400000 + t_hour t * 3600000
     + t_minute t * 60000 + t_second t * 1000 + t_milli t"

text \<open>A calendar date is valid when its month is 1 to 12 and its day lies in the month.\<close>

definition valid_date :: "int \<Rightarrow> int \<Rightarrow> int \<Rightarrow> bool" where
  "valid_date y m d \<longleftrightarrow> 1 \<le> m \<and> m \<le> 12 \<and> 1 \<le> d \<and> d \<le> month_lengths y ! nat (m - 1)"

section \<open>Lemmas\<close>

lemma year_len_range: "365 \<le> year_len y" "year_len y \<le> 366"
  by (simp_all add: year_len_def)

lemma year_len_pos [simp]: "0 < year_len y"
  by (simp add: year_len_def)

lemma days_to_year_1970 [simp]: "days_to_year 1970 = 0"
  by (simp add: days_to_year.simps)

lemma days_to_year_succ: "days_to_year (y + 1) = days_to_year y + year_len y"
proof (cases "1970 \<le> y")
  case True
  then show ?thesis by (subst days_to_year.simps [of "y + 1"]) simp
next
  case False
  then show ?thesis by (subst days_to_year.simps [of y]) simp
qed

lemma days_fwd_spec:
  "0 \<le> d \<Longrightarrow> days_fwd y d = (y', d') \<Longrightarrow>
   days_to_year y' + d' = days_to_year y + d \<and> 0 \<le> d' \<and> d' < year_len y'"
proof (induction y d rule: days_fwd.induct)
  case (1 y d)
  show ?case
  proof (cases "year_len y \<le> d")
    case True
    with "1.prems" have rec: "days_fwd (y + 1) (d - year_len y) = (y', d')"
      by (simp add: days_fwd.simps [of y d])
    from True have "0 \<le> d - year_len y" by simp
    from "1.IH" [OF True this rec] show ?thesis by (simp add: days_to_year_succ)
  next
    case False
    with "1.prems" show ?thesis by (simp add: days_fwd.simps [of y d])
  qed
qed

lemma days_back_spec:
  "d < year_len y \<Longrightarrow> days_back y d = (y', d') \<Longrightarrow>
   days_to_year y' + d' = days_to_year y + d \<and> 0 \<le> d' \<and> d' < year_len y'"
proof (induction y d rule: days_back.induct)
  case (1 y d)
  show ?case
  proof (cases "d < 0")
    case True
    with "1.prems" have rec: "days_back (y - 1) (d + year_len (y - 1)) = (y', d')"
      by (simp add: days_back.simps [of y d])
    from True have "d + year_len (y - 1) < year_len (y - 1)" by simp
    from "1.IH" [OF True this rec] have
      "days_to_year y' + d' = days_to_year (y - 1) + (d + year_len (y - 1))"
      "0 \<le> d'" "d' < year_len y'" by simp_all
    moreover have "days_to_year y = days_to_year (y - 1) + year_len (y - 1)"
      using days_to_year_succ [of "y - 1"] by simp
    ultimately show ?thesis by simp
  next
    case False
    with "1.prems" show ?thesis by (simp add: days_back.simps [of y d])
  qed
qed

lemma year_and_day_spec:
  assumes "year_and_day days = (y, doy)"
  shows "days_to_year y + doy = days \<and> 0 \<le> doy \<and> doy < year_len y"
proof (cases "days < 0")
  case True
  moreover have "days < year_len 1970" using True year_len_pos [of 1970] by linarith
  ultimately show ?thesis
    using assms days_back_spec [of days 1970 y doy] by (simp add: year_and_day_def)
next
  case False
  then show ?thesis
    using assms days_fwd_spec [of days 1970 y doy] by (simp add: year_and_day_def)
qed

lemma month_and_day_spec:
  "0 \<le> d \<Longrightarrow> d < sum_list ls \<Longrightarrow> month_and_day ls m d = (m', dd) \<Longrightarrow>
   m \<le> m' \<and> m' < m + int (length ls) \<and> 1 \<le> dd \<and> dd \<le> ls ! nat (m' - m) \<and>
   sum_list (take (nat (m' - m)) ls) + dd - 1 = d"
proof (induction ls arbitrary: m d)
  case Nil
  then show ?case by simp
next
  case (Cons l ls)
  show ?case
  proof (cases "d < l")
    case True
    with Cons.prems show ?thesis by auto
  next
    case False
    with Cons.prems have rec: "month_and_day ls (m + 1) (d - l) = (m', dd)" by simp
    from False Cons.prems have "0 \<le> d - l" "d - l < sum_list ls" by auto
    from Cons.IH [OF this rec] have IH:
      "m + 1 \<le> m'" "m' < m + 1 + int (length ls)" "1 \<le> dd" "dd \<le> ls ! nat (m' - (m + 1))"
      "sum_list (take (nat (m' - (m + 1))) ls) + dd - 1 = d - l" by simp_all
    have n: "nat (m' - m) = Suc (nat (m' - (m + 1)))" using IH(1) by simp
    show ?thesis using IH by (simp add: n)
  qed
qed

lemma sum_month_lengths [simp]: "sum_list (month_lengths y) = year_len y"
  by (simp add: month_lengths_def year_len_def)

lemma length_month_lengths [simp]: "length (month_lengths y) = 12"
  by (simp add: month_lengths_def)

lemma month_lengths_le_31: "x \<in> set (month_lengths y) \<Longrightarrow> x \<le> 31"
  by (auto simp: month_lengths_def)

lemma weeks_in_year_range: "52 \<le> weeks_in_year y" "weeks_in_year y \<le> 53"
  by (simp_all add: weeks_in_year_def)

lemma iso_week_range: "1 \<le> iso_week y doy wd \<and> iso_week y doy wd \<le> 53"
  using weeks_in_year_range [of y] weeks_in_year_range [of "y - 1"]
  by (auto simp: iso_week_def Let_def)

lemma timestamp_of_ms_date:
  assumes "year_and_day (ms div 86400000) = (y, doy)"
    and "month_and_day (month_lengths y) 1 doy = (m, d)"
  shows "valid_date y m d \<and> days_of_date y m d = ms div 86400000"
proof -
  from year_and_day_spec [OF assms(1)] have yd:
    "days_to_year y + doy = ms div 86400000" "0 \<le> doy" "doy < year_len y" by simp_all
  from month_and_day_spec [of doy "month_lengths y" 1 m d] yd(2,3) assms(2) have md:
    "1 \<le> m" "m < 13" "1 \<le> d" "d \<le> month_lengths y ! nat (m - 1)"
    "sum_list (take (nat (m - 1)) (month_lengths y)) + d - 1 = doy" by simp_all
  then show ?thesis using yd(1) by (simp add: valid_date_def days_of_date_def)
qed

text \<open>The fields of a timestamp, from the year walk and the month walk of its day number.\<close>

lemma timestamp_of_ms_eq:
  assumes "year_and_day (ms div 86400000) = (y, doy)" and "month_and_day (month_lengths y) 1 doy = (m, d)"
  shows "timestamp_of_ms ms = \<lparr>t_epoch_day = ms div 86400000, t_year = y, t_doy = doy,
      t_month = m, t_day = d, t_hour = ms mod 86400000 div 3600000,
      t_minute = ms mod 86400000 mod 3600000 div 60000,
      t_second = ms mod 86400000 mod 60000 div 1000, t_milli = ms mod 86400000 mod 1000\<rparr>"
  using assms by (simp add: timestamp_of_ms_def Let_def)

text \<open>Days and years: \<open>days_to_year\<close> grows by at least 365 a year, so a day number at
  or after the epoch lies in a year from 1970 on, no more than its 365ths past 1970.\<close>

lemma days_to_year_mono_nat: "days_to_year a \<le> days_to_year (a + int n)"
proof (induction n)
  case 0
  then show ?case by simp
next
  case (Suc n)
  have "days_to_year (a + int (Suc n)) = days_to_year (a + int n) + year_len (a + int n)"
    using days_to_year_succ [of "a + int n"] by (simp add: ac_simps)
  with Suc year_len_pos [of "a + int n"] show ?case by linarith
qed

lemma days_to_year_mono: "a \<le> b \<Longrightarrow> days_to_year a \<le> days_to_year b"
  using days_to_year_mono_nat [of a "nat (b - a)"] by simp

lemma days_to_year_linear: "365 * int n \<le> days_to_year (1970 + int n)"
proof (induction n)
  case 0
  then show ?case by simp
next
  case (Suc n)
  have "365 * int (Suc n) = 365 * int n + 365" by simp
  also have "\<dots> \<le> days_to_year (1970 + int n) + year_len (1970 + int n)"
    using Suc year_len_range(1) [of "1970 + int n"] by (rule add_mono)
  also have "\<dots> = days_to_year (1970 + int (Suc n))"
    using days_to_year_succ [of "1970 + int n"] by (simp add: ac_simps)
  finally show ?case .
qed

lemma year_and_day_range:
  assumes "year_and_day days = (y, doy)" and "0 \<le> days"
  shows "1970 \<le> y \<and> 365 * (y - 1970) \<le> days"
proof -
  from year_and_day_spec [OF assms(1)] have s: "days_to_year y + doy = days" "0 \<le> doy" "doy < year_len y"
    by simp_all
  have "1970 \<le> y"
  proof (rule ccontr)
    assume "\<not> 1970 \<le> y"
    then have "days_to_year (y + 1) \<le> days_to_year 1970" by (intro days_to_year_mono) simp
    with s days_to_year_succ [of y] assms(2) show False by simp
  qed
  moreover have "365 * (y - 1970) \<le> days_to_year y"
    using days_to_year_linear [of "nat (y - 1970)"] \<open>1970 \<le> y\<close> by simp
  ultimately show ?thesis using s by linarith
qed

lemma ms_of_day_bounds:
  "0 \<le> (x::int) mod 86400000 div 3600000 \<and> x mod 86400000 div 3600000 \<le> 23"
  "0 \<le> (x::int) mod 3600000 div 60000 \<and> x mod 3600000 div 60000 \<le> 59"
  "0 \<le> (x::int) mod 60000 div 1000 \<and> x mod 60000 div 1000 \<le> 59"
  by linarith+

text \<open>C6: The fields derived from any millisecond timestamp are in range: a valid calendar date, hour 0-23, minute and second 0-59, weekday 0-6 and ISO week 1-53.\<close>

theorem timestamp_of_ms_bounds:
  "valid_date (t_year (timestamp_of_ms ms)) (t_month (timestamp_of_ms ms)) (t_day (timestamp_of_ms ms)) \<and>
   0 \<le> t_hour (timestamp_of_ms ms) \<and> t_hour (timestamp_of_ms ms) \<le> 23 \<and>
   0 \<le> t_minute (timestamp_of_ms ms) \<and> t_minute (timestamp_of_ms ms) \<le> 59 \<and>
   0 \<le> t_second (timestamp_of_ms ms) \<and> t_second (timestamp_of_ms ms) \<le> 59 \<and>
   0 \<le> dt_weekday (timestamp_of_ms ms) \<and> dt_weekday (timestamp_of_ms ms) \<le> 6 \<and>
   1 \<le> dt_week (timestamp_of_ms ms) \<and> dt_week (timestamp_of_ms ms) \<le> 53"
proof -
  obtain y doy where yd: "year_and_day (ms div 86400000) = (y, doy)" by fastforce
  obtain m d where md: "month_and_day (month_lengths y) 1 doy = (m, d)" by fastforce
  let ?r = "ms mod 86400000"
  note t = timestamp_of_ms_eq [OF yd md]
  have "valid_date y m d" using timestamp_of_ms_date [OF yd md] by simp
  moreover have "0 \<le> (ms div 86400000 + 3) mod 7" "(ms div 86400000 + 3) mod 7 \<le> 6" by simp_all
  moreover have "1 \<le> iso_week y doy ((ms div 86400000 + 3) mod 7)"
    "iso_week y doy ((ms div 86400000 + 3) mod 7) \<le> 53" using iso_week_range by simp_all
  moreover note ms_of_day_bounds [of ms] ms_of_day_bounds(2-3) [of ?r]
  ultimately show ?thesis unfolding t dt_weekday_def dt_week_def by simp
qed

text \<open>C7: Decoding a millisecond timestamp into calendar fields loses nothing: the fields encode back to the same milliseconds.\<close>

theorem timestamp_of_ms_roundtrip: "ms_of_timestamp (timestamp_of_ms ms) = ms"
proof -
  obtain y doy where yd: "year_and_day (ms div 86400000) = (y, doy)" by fastforce
  obtain m d where md: "month_and_day (month_lengths y) 1 doy = (m, d)" by fastforce
  have days: "days_of_date y m d = ms div 86400000" using timestamp_of_ms_date [OF yd md] by simp
  let ?r = "ms mod 86400000"
  have e: "ms_of_timestamp (timestamp_of_ms ms) = days_of_date y m d * 86400000
     + ?r div 3600000 * 3600000 + ?r mod 3600000 div 60000 * 60000
     + ?r mod 60000 div 1000 * 1000 + ?r mod 1000"
    by (simp add: timestamp_of_ms_eq [OF yd md] ms_of_timestamp_def)
  have r1: "?r mod 3600000 = ?r mod 3600000 div 60000 * 60000 + ?r mod 60000"
    using div_mult_mod_eq [of "?r mod 3600000" 60000] by (simp add: mod_mod_cancel)
  have r2: "?r mod 60000 = ?r mod 60000 div 1000 * 1000 + ?r mod 1000"
    using div_mult_mod_eq [of "?r mod 60000" 1000] by (simp add: mod_mod_cancel)
  have r0: "?r = ?r div 3600000 * 3600000 + ?r mod 3600000"
    using div_mult_mod_eq [of ?r 3600000] by simp
  have r: "ms = ms div 86400000 * 86400000 + ?r"
    using div_mult_mod_eq [of ms 86400000] by simp
  show ?thesis using e days r0 r1 r2 r by linarith
qed

end
