(* ===== verification/Store.thy ===== *)
theory Store
  imports TimeConv
begin

text \<open>
  The Postgres target of \<open>RDMS_Data_Modelling/etl.py\<close>: the five star-schema tables and
  the statements the script executes on them.  The script imports its SQL text from a
  \<open>sql_queries.py\<close> next to it that is not part of the sources, so the statements follow
  the loading policy of the design (its section 4.4): songs, artists and time rows are
  inserted when their natural key is absent and never updated; a user row overwrites the
  row with the same \<open>user_id\<close> (last write wins); a songplay is inserted when its natural
  key \<open>(user_id, session_id, start_time)\<close> is absent, with a serial \<open>songplay_id\<close>.
  Key columns are NOT NULL: a statement whose key is NULL raises \<open>IntegrityError\<close> and
  changes nothing.  Each statement commits on its own (the connection is in autocommit
  mode).  \<open>song_select\<close> is the catalog lookup of the fact resolver: songs joined with
  artists, matched on title, artist name and duration with SQL equality.
\<close>

section \<open>Rows and tables\<close>

record song_row =
  s_song_id :: jval
  s_title :: jval
  s_artist_id :: jval
  s_year :: jval
  s_duration :: jval

record artist_row =
  a_artist_id :: jval
  a_name :: jval
  a_location :: jval
  a_latitude :: jval
  a_longitude :: jval

record user_row =
  u_user_id :: jval
  u_first_name :: jval
  u_last_name :: jval
  u_gender :: jval
  u_level :: jval

record time_row =
  tm_start_time :: int
  tm_hour :: int
  tm_day :: int
  tm_week :: int
  tm_month :: int
  tm_year :: int
  tm_weekday :: int

text \<open>The values the script inserts into \<open>songplays\<close>; the table adds the serial id.\<close>

record songplay =
  sp_start_time :: "int option"
  sp_user_id :: jval
  sp_level :: jval
  sp_song_id :: jval
  sp_artist_id :: jval
  sp_session_id :: jval
  sp_location :: jval
  sp_user_agent :: jval

definition sp_key :: "songplay \<Rightarrow> jval \<times> jval \<times> int option" where
  "sp_key p = (sp_user_id p, sp_session_id p, sp_start_time p)"

definition sp_row_key :: "nat \<times> songplay \<Rightarrow> jval \<times> jval \<times> int option" where
  "sp_row_key r = sp_key (snd r)"

record db =
  songs :: "song_row list"
  artists :: "artist_row list"
  time_tbl :: "time_row list"
  users :: "user_row list"
  songplays :: "(nat \<times> songplay) list"
  sp_seq :: nat

definition empty_db :: db where
  "empty_db = \<lparr>songs = [], artists = [], time_tbl = [], users = [], songplays = [], sp_seq = 0\<rparr>"

section \<open>Statements\<close>

text \<open>A time row of NaT is \<open>None\<close>: all its columns are NULL.\<close>

datatype stmt =
    InsSong song_row
  | InsArtist artist_row
  | InsTime "time_row option"
  | InsUser user_row
  | InsSongplay songplay

text \<open>The NOT NULL constraint on the key columns, checked before the row is written.\<close>

fun stmt_error :: "stmt \<Rightarrow> error option" where
  "stmt_error (InsSong r) = (if s_song_id r = JNull then Some (IntegrityError ''songs.song_id'') else None)"
| "stmt_error (InsArtist r) =
     (if a_artist_id r = JNull then Some (IntegrityError ''artists.artist_id'') else None)"
| "stmt_error (InsTime None) = Some (IntegrityError ''time.start_time'')"
| "stmt_error (InsTime (Some r)) = None"
| "stmt_error (InsUser r) = (if u_user_id r = JNull then Some (IntegrityError ''users.user_id'') else None)"
| "stmt_error (InsSongplay p) =
     (if sp_start_time p = None \<or> sp_user_id p = JNull \<or> sp_session_id p = JNull
      then Some (IntegrityError ''songplays'') else None)"

text \<open>The write a statement performs when the constraint holds.  The songplay insert is
  \<open>INSERT \<dots> ON CONFLICT DO NOTHING\<close> on the natural key: the \<open>SERIAL\<close> default
  draws the next value of the sequence before the conflict is detected, so a skipped
  row still uses up an id and the ids of the table can have gaps.\<close>

fun apply_stmt :: "stmt \<Rightarrow> db \<Rightarrow> db" where
  "apply_stmt (InsSong r) d = d\<lparr>songs := ins_absent s_song_id r (songs d)\<rparr>"
| "apply_stmt (InsArtist r) d = d\<lparr>artists := ins_absent a_artist_id r (artists d)\<rparr>"
| "apply_stmt (InsTime None) d = d"
| "apply_stmt (InsTime (Some r)) d = d\<lparr>time_tbl := ins_absent tm_start_time r (time_tbl d)\<rparr>"
| "apply_stmt (InsUser r) d = d\<lparr>users := upsert u_user_id r (users d)\<rparr>"
| "apply_stmt (InsSongplay p) d =
     d\<lparr>songplays := ins_absent sp_row_key (Suc (sp_seq d), p) (songplays d), sp_seq := Suc (sp_seq d)\<rparr>"

definition execute :: "stmt \<Rightarrow> db \<Rightarrow> error + db" where
  "execute s d = (case stmt_error s of Some e \<Rightarrow> Inl e | None \<Rightarrow> Inr (apply_stmt s d))"

text \<open>\<open>cur.execute(stmt)\<close> as an action: a failed statement leaves the database as it was.\<close>

definition exec_stmt :: "stmt \<Rightarrow> (error, db) act" where
  "exec_stmt s d = (case execute s d of Inl e \<Rightarrow> (Some e, d) | Inr d' \<Rightarrow> (None, d'))"

section \<open>The catalog query\<close>

definition song_select :: "db \<Rightarrow> jval \<Rightarrow> jval \<Rightarrow> jval \<Rightarrow> (jval \<times> jval) list" where
  "song_select d t a l =
     [(s_song_id s, a_artist_id ar). s \<leftarrow> songs d, ar \<leftarrow> artists d,
        sql_eq (s_artist_id s) (a_artist_id ar) \<and> sql_eq (s_title s) t \<and>
        sql_eq (a_name ar) a \<and> sql_eq (s_duration s) l]"

text \<open>\<open>cur.fetchone()\<close>: the first result row, if any.\<close>

definition fetchone :: "'a list \<Rightarrow> 'a option" where
  "fetchone xs = (case xs of [] \<Rightarrow> None | x # _ \<Rightarrow> Some x)"

section \<open>Well-formedness\<close>

text \<open>No table holds two rows with one natural key, no key is NULL, and the songplay ids
  are distinct values the sequence has already handed out.\<close>

definition db_wf :: "db \<Rightarrow> bool" where
  "db_wf d \<longleftrightarrow>
     distinct (map s_song_id (songs d)) \<and> JNull \<notin> keys s_song_id (songs d) \<and>
     distinct (map a_artist_id (artists d)) \<and> JNull \<notin> keys a_artist_id (artists d) \<and>
     distinct (map tm_start_time (time_tbl d)) \<and>
     distinct (map u_user_id (users d)) \<and> JNull \<notin> keys u_user_id (users d) \<and>
     distinct (map sp_row_key (songplays d)) \<and>
     distinct (map fst (songplays d)) \<and> list_all (\<lambda>r. fst r \<le> sp_seq d) (songplays d)"

section \<open>Lemmas\<close>

lemma sp_row_key_Pair [simp]: "sp_row_key (n, p) = sp_key p"
  by (simp add: sp_row_key_def)

text \<open>Whether a statement fails depends on the statement only, never on the database.\<close>

lemma execute_Inl_iff: "execute s d = Inl e \<longleftrightarrow> stmt_error s = Some e"
  by (simp add: execute_def split: option.splits)

lemma exec_stmt_eq:
  "exec_stmt s d = (case stmt_error s of Some e \<Rightarrow> (Some e, d) | None \<Rightarrow> (None, apply_stmt s d))"
  by (simp add: exec_stmt_def execute_def split: option.splits)

lemma db_wf_empty [simp]: "db_wf empty_db"
  by (simp add: db_wf_def empty_db_def)

lemma songplay_ids_ins_absent:
  assumes "distinct (map fst t)" and "list_all (\<lambda>r. fst r \<le> n) t"
  shows "distinct (map fst (ins_absent sp_row_key (Suc n, p) t)) \<and>
    list_all (\<lambda>r. fst r \<le> Suc n) (ins_absent sp_row_key (Suc n, p) t)"
  using assms by (auto simp: ins_absent_def list_all_iff)

lemma db_wf_apply_stmt:
  assumes "db_wf d" and "stmt_error s = None"
  shows "db_wf (apply_stmt s d)"
proof (cases s)
  case (InsTime r)
  then show ?thesis using assms by (cases r) (auto simp: db_wf_def table_simps)
next
  case (InsSongplay p)
  then show ?thesis using assms songplay_ids_ins_absent [of "songplays d" "sp_seq d" p]
    by (simp add: db_wf_def distinct_ins_absent)
qed (use assms in \<open>auto simp: db_wf_def table_simps\<close>)

lemma db_wf_exec_stmt: "db_wf d \<Longrightarrow> db_wf (snd (exec_stmt s d))"
  by (simp add: exec_stmt_eq db_wf_apply_stmt split: option.splits)

end
