(* ===== verification/Rdbms.thy ===== *)
theory Rdbms
  imports Store
begin

text \<open>
  \<open>RDMS_Data_Modelling/etl.py\<close>, function by function.  \<open>process_song_file\<close> reads
  one song file, indexes it by \<open>num_songs\<close> and inserts the first row's song and artist
  (\<open>insert_song_data\<close>, \<open>insert_artist_data\<close>).  \<open>process_log_file\<close> keeps the
  \<open>NextSong\<close> events of a log file and inserts their time rows, user rows and songplays
  (\<open>insert_time_data\<close>, \<open>insert_user_data\<close>, \<open>insert_songplays_data\<close>); each songplay
  first looks its song up in the catalog (\<open>song_select\<close>, \<open>fetchone\<close>) and gets NULL
  ids when nothing matches.  \<open>process_data\<close> runs one of the two on every discovered
  file, printing progress; \<open>main\<close> (\<open>etl_main\<close>) loads the song files, then the log
  files.  A raised exception ends the run where it is raised; the statements already
  executed stay in the database (autocommit).  Here a run is given the parsed lines of each discovered
  file, in discovery order; the file discovery of \<open>process_data\<close> (\<open>os.walk\<close>,
  \<open>glob\<close>) and the run over a file tree are in \<open>Discovery\<close>; the connection set-up is
  not modelled.
\<close>

section \<open>Dimension rows\<close>

definition song_cols :: "string list" where
  "song_cols = [''song_id'', ''title'', ''artist_id'', ''year'', ''duration'']"

definition artist_cols :: "string list" where
  "artist_cols = [''artist_id'', ''artist_name'', ''artist_location'', ''artist_latitude'', ''artist_longitude'']"

definition user_cols :: "string list" where
  "user_cols = [''userId'', ''firstName'', ''lastName'', ''gender'', ''level'']"

definition song_row_of :: "jobj \<Rightarrow> song_row" where
  "song_row_of r =
     \<lparr>s_song_id = cell r ''song_id'', s_title = cell r ''title'', s_artist_id = cell r ''artist_id'',
      s_year = cell r ''year'', s_duration = cell r ''duration''\<rparr>"

definition artist_row_of :: "jobj \<Rightarrow> artist_row" where
  "artist_row_of r =
     \<lparr>a_artist_id = cell r ''artist_id'', a_name = cell r ''artist_name'',
      a_location = cell r ''artist_location'', a_latitude = cell r ''artist_latitude'',
      a_longitude = cell r ''artist_longitude''\<rparr>"

definition user_row_of :: "jobj \<Rightarrow> user_row" where
  "user_row_of r =
     \<lparr>u_user_id = cell r ''userId'', u_first_name = cell r ''firstName'',
      u_last_name = cell r ''lastName'', u_gender = cell r ''gender'', u_level = cell r ''level''\<rparr>"

text \<open>The time row of one converted timestamp (\<open>t, t.dt.hour, \<dots>, t.dt.weekday\<close>).\<close>

definition time_row_of_ms :: "int \<Rightarrow> time_row" where
  "time_row_of_ms ms =
     (let t = timestamp_of_ms ms
      in \<lparr>tm_start_time = ms, tm_hour = t_hour t, tm_day = t_day t, tm_week = dt_week t,
          tm_month = t_month t, tm_year = t_year t, tm_weekday = dt_weekday t\<rparr>)"

section \<open>Song files\<close>

definition insert_song_data :: "frame \<Rightarrow> (error, db) act" where
  "insert_song_data df =
     (case require_cols df song_cols of
        Some e \<Rightarrow> raise e
      | None \<Rightarrow> (case frows df of [] \<Rightarrow> raise IndexError | r # _ \<Rightarrow> exec_stmt (InsSong (song_row_of r))))"

definition insert_artist_data :: "frame \<Rightarrow> (error, db) act" where
  "insert_artist_data df =
     (case require_cols df artist_cols of
        Some e \<Rightarrow> raise e
      | None \<Rightarrow> (case frows df of [] \<Rightarrow> raise IndexError | r # _ \<Rightarrow> exec_stmt (InsArtist (artist_row_of r))))"

definition process_song_file :: "jobj list \<Rightarrow> (error, db) act" where
  "process_song_file ls =
     (case set_index ''num_songs'' (frame_of_lines ls) of
        Inl e \<Rightarrow> raise e
      | Inr df \<Rightarrow> then_act (insert_song_data df) (insert_artist_data df))"

section \<open>Log files\<close>

definition is_next_song :: "jobj \<Rightarrow> bool" where
  "is_next_song r \<longleftrightarrow> cell r ''page'' = JStr ''NextSong''"

definition insert_time_data :: "frame \<Rightarrow> (error, db) act" where
  "insert_time_data df =
     (case require_cols df [''ts''] of
        Some e \<Rightarrow> raise e
      | None \<Rightarrow>
          (case to_datetime_col (map (\<lambda>r. cell r ''ts'') (frows df)) of
             Inl e \<Rightarrow> raise e
           | Inr ts \<Rightarrow> for_each (\<lambda>t. exec_stmt (InsTime (map_option time_row_of_ms t))) ts))"

definition insert_user_data :: "frame \<Rightarrow> (error, db) act" where
  "insert_user_data df =
     (case require_cols df user_cols of
        Some e \<Rightarrow> raise e
      | None \<Rightarrow> for_each (\<lambda>r. exec_stmt (InsUser (user_row_of r))) (frows df))"

text \<open>The fact resolver: the catalog's first match, or NULL ids when nothing matches.\<close>

definition resolve_ids :: "db \<Rightarrow> jval \<Rightarrow> jval \<Rightarrow> jval \<Rightarrow> jval \<times> jval" where
  "resolve_ids d song artist len =
     (case fetchone (song_select d song artist len) of Some (s, a) \<Rightarrow> (s, a) | None \<Rightarrow> (JNull, JNull))"

definition play_cols :: "string list" where
  "play_cols = [''userId'', ''level'', ''sessionId'', ''location'', ''userAgent'']"

definition songplay_of_row :: "jobj \<Rightarrow> int option \<Rightarrow> jval \<times> jval \<Rightarrow> songplay" where
  "songplay_of_row r start ids =
     \<lparr>sp_start_time = start, sp_user_id = cell r ''userId'', sp_level = cell r ''level'',
      sp_song_id = fst ids, sp_artist_id = snd ids, sp_session_id = cell r ''sessionId'',
      sp_location = cell r ''location'', sp_user_agent = cell r ''userAgent''\<rparr>"

text \<open>One iteration of the loop of \<open>insert_songplays_data\<close>.\<close>

definition insert_songplay_row :: "frame \<Rightarrow> jobj \<Rightarrow> (error, db) act" where
  "insert_songplay_row df r d =
     (case attr_error df [''song'', ''artist'', ''length''] of
        Some e \<Rightarrow> (Some e, d)
      | None \<Rightarrow>
          (let ids = resolve_ids d (cell r ''song'') (cell r ''artist'') (cell r ''length'')
           in case attr_error df [''ts''] of
                Some e \<Rightarrow> (Some e, d)
              | None \<Rightarrow>
                  (case to_datetime_ms (cell r ''ts'') of
                     Inl e \<Rightarrow> (Some e, d)
                   | Inr start \<Rightarrow>
                       (case attr_error df play_cols of
                          Some e \<Rightarrow> (Some e, d)
                        | None \<Rightarrow> exec_stmt (InsSongplay (songplay_of_row r start ids)) d))))"

definition insert_songplays_data :: "frame \<Rightarrow> (error, db) act" where
  "insert_songplays_data df = for_each (insert_songplay_row df) (frows df)"

definition process_log_file :: "jobj list \<Rightarrow> (error, db) act" where
  "process_log_file ls =
     (let df = frame_of_lines ls
      in case require_cols df [''page''] of
           Some e \<Rightarrow> raise e
         | None \<Rightarrow>
             (let df' = filter_rows is_next_song df
              in then_act (insert_time_data df')
                   (then_act (insert_user_data df') (insert_songplays_data df'))))"

section \<open>The driver\<close>

text \<open>What \<open>process_data\<close> prints.\<close>

datatype msg = FilesFound nat | FilesProcessed nat nat

record run_state =
  rdb :: db
  printed :: "msg list"

text \<open>The loop \<open>for i, datafile in enumerate(all_files, 1)\<close>; \<open>conn.commit()\<close> has
  nothing to commit in autocommit mode.\<close>

fun process_files :: "('f \<Rightarrow> (error, db) act) \<Rightarrow> nat \<Rightarrow> nat \<Rightarrow> 'f list \<Rightarrow>
    (error, run_state) act" where
  "process_files func n i [] s = (None, s)"
| "process_files func n i (f # fs) s =
     (case func f (rdb s) of
        (Some e, d) \<Rightarrow> (Some e, s\<lparr>rdb := d\<rparr>)
      | (None, d) \<Rightarrow>
          process_files func n (Suc i) fs (s\<lparr>rdb := d, printed := printed s @ [FilesProcessed i n]\<rparr>))"

definition process_data :: "('f \<Rightarrow> (error, db) act) \<Rightarrow> 'f list \<Rightarrow> (error, run_state) act" where
  "process_data func files s =
     process_files func (length files) 1 files (s\<lparr>printed := printed s @ [FilesFound (length files)]\<rparr>)"

definition etl_main :: "jobj list list \<Rightarrow> jobj list list \<Rightarrow> (error, run_state) act" where
  "etl_main song_files log_files =
     then_act (process_data process_song_file song_files) (process_data process_log_file log_files)"

end
