(* ===== verification/RdbmsPlan.thy ===== *)
theory RdbmsPlan
  imports Rdbms
begin

text \<open>
  The statements a run of \<open>RDMS_Data_Modelling/etl.py\<close> issues, as a plan: a list of
  items that raise, execute a statement, or resolve a songplay against the catalog and
  insert it.  Each function of the script runs the plan of its input
  (\<open>process_song_file_plan\<close>, \<open>process_log_file_plan\<close>, \<open>etl_main_plan\<close>): this is the
  refinement that lets the idempotence and last-write-wins theorems be proved once, on
  plans.  Whether an item fails depends on the item alone, so a plan runs its longest
  prefix of failure-free items and stops at the first failing one (\<open>run_plan_split\<close>).
\<close>

section \<open>Plans\<close>

datatype item =
    Raise error
  | Exec stmt
  | Play "jval \<times> jval \<times> jval" songplay

definition fill_ids :: "jval \<times> jval \<Rightarrow> songplay \<Rightarrow> songplay" where
  "fill_ids ids p = p\<lparr>sp_song_id := fst ids, sp_artist_id := snd ids\<rparr>"

fun run_item :: "item \<Rightarrow> (error, db) act" where
  "run_item (Raise e) = raise e"
| "run_item (Exec s) = exec_stmt s"
| "run_item (Play (t, a, l) p) = (\<lambda>d. exec_stmt (InsSongplay (fill_ids (resolve_ids d t a l) p)) d)"

definition run_plan :: "item list \<Rightarrow> (error, db) act" where
  "run_plan p = for_each run_item p"

definition song_data_plan :: "frame \<Rightarrow> item list" where
  "song_data_plan df =
     (case require_cols df song_cols of
        Some e \<Rightarrow> [Raise e]
      | None \<Rightarrow> (case frows df of [] \<Rightarrow> [Raise IndexError] | r # _ \<Rightarrow> [Exec (InsSong (song_row_of r))]))"

definition artist_data_plan :: "frame \<Rightarrow> item list" where
  "artist_data_plan df =
     (case require_cols df artist_cols of
        Some e \<Rightarrow> [Raise e]
      | None \<Rightarrow> (case frows df of [] \<Rightarrow> [Raise IndexError] | r # _ \<Rightarrow> [Exec (InsArtist (artist_row_of r))]))"

definition song_file_plan :: "jobj list \<Rightarrow> item list" where
  "song_file_plan ls =
     (case set_index ''num_songs'' (frame_of_lines ls) of
        Inl e \<Rightarrow> [Raise e]
      | Inr df \<Rightarrow> song_data_plan df @ artist_data_plan df)"

definition time_plan :: "frame \<Rightarrow> item list" where
  "time_plan df =
     (case require_cols df [''ts''] of
        Some e \<Rightarrow> [Raise e]
      | None \<Rightarrow>
          (case to_datetime_col (map (\<lambda>r. cell r ''ts'') (frows df)) of
             Inl e \<Rightarrow> [Raise e]
           | Inr ts \<Rightarrow> map (\<lambda>t. Exec (InsTime (map_option time_row_of_ms t))) ts))"

definition user_plan :: "frame \<Rightarrow> item list" where
  "user_plan df =
     (case require_cols df user_cols of
        Some e \<Rightarrow> [Raise e]
      | None \<Rightarrow> map (\<lambda>r. Exec (InsUser (user_row_of r))) (frows df))"

definition songplay_row_plan :: "frame \<Rightarrow> jobj \<Rightarrow> item list" where
  "songplay_row_plan df r =
     (case attr_error df [''song'', ''artist'', ''length''] of
        Some e \<Rightarrow> [Raise e]
      | None \<Rightarrow>
          (case attr_error df [''ts''] of
             Some e \<Rightarrow> [Raise e]
           | None \<Rightarrow>
               (case to_datetime_ms (cell r ''ts'') of
                  Inl e \<Rightarrow> [Raise e]
                | Inr start \<Rightarrow>
                    (case attr_error df play_cols of
                       Some e \<Rightarrow> [Raise e]
                     | None \<Rightarrow> [Play (cell r ''song'', cell r ''artist'', cell r ''length'')
                                 (songplay_of_row r start (JNull, JNull))]))))"

definition log_frame_plan :: "frame \<Rightarrow> item list" where
  "log_frame_plan df =
     time_plan df @ user_plan df @ concat (map (songplay_row_plan df) (frows df))"

definition log_file_plan :: "jobj list \<Rightarrow> item list" where
  "log_file_plan ls =
     (case require_cols (frame_of_lines ls) [''page''] of
        Some e \<Rightarrow> [Raise e]
      | None \<Rightarrow> log_frame_plan (filter_rows is_next_song (frame_of_lines ls)))"

definition etl_plan :: "jobj list list \<Rightarrow> jobj list list \<Rightarrow> item list" where
  "etl_plan sf lf = concat (map song_file_plan sf) @ concat (map log_file_plan lf)"

section \<open>Failure and effect of an item\<close>

fun item_err :: "item \<Rightarrow> error option" where
  "item_err (Raise e) = Some e"
| "item_err (Exec s) = stmt_error s"
| "item_err (Play q p) = stmt_error (InsSongplay p)"

fun apply_item :: "item \<Rightarrow> db \<Rightarrow> db" where
  "apply_item (Raise e) d = d"
| "apply_item (Exec s) d = apply_stmt s d"
| "apply_item (Play (t, a, l) p) d = apply_stmt (InsSongplay (fill_ids (resolve_ids d t a l) p)) d"

definition ok_prefix :: "item list \<Rightarrow> item list" where
  "ok_prefix p = takeWhile (\<lambda>it. item_err it = None) p"

definition plan_err :: "item list \<Rightarrow> error option" where
  "plan_err p = (case dropWhile (\<lambda>it. item_err it = None) p of [] \<Rightarrow> None | it # _ \<Rightarrow> item_err it)"

text \<open>The rows an item contributes to each table.\<close>

fun song_rows :: "item \<Rightarrow> song_row list" where
  "song_rows (Exec (InsSong r)) = [r]"
| "song_rows _ = []"

fun artist_rows :: "item \<Rightarrow> artist_row list" where
  "artist_rows (Exec (InsArtist r)) = [r]"
| "artist_rows _ = []"

fun time_rows :: "item \<Rightarrow> time_row list" where
  "time_rows (Exec (InsTime (Some r))) = [r]"
| "time_rows _ = []"

fun user_rows :: "item \<Rightarrow> user_row list" where
  "user_rows (Exec (InsUser r)) = [r]"
| "user_rows _ = []"

fun songplay_keys :: "item \<Rightarrow> (jval \<times> jval \<times> int option) list" where
  "songplay_keys (Exec (InsSongplay p)) = [sp_key p]"
| "songplay_keys (Play q p) = [sp_key p]"
| "songplay_keys _ = []"

section \<open>Refinement: the script runs its plan\<close>

lemma run_plan_Nil [simp]: "run_plan [] d = (None, d)"
  by (simp add: run_plan_def)

lemma run_plan_Cons: "run_plan (it # p) d = then_act (run_item it) (run_plan p) d"
  by (simp add: run_plan_def)

lemma run_plan_append: "run_plan (p @ q) d = then_act (run_plan p) (run_plan q) d"
  by (simp add: run_plan_def for_each_append)

lemma run_plan_single [simp]: "run_plan [it] d = run_item it d"
  by (simp add: run_plan_def)

lemma insert_song_data_plan: "insert_song_data df = run_plan (song_data_plan df)"
  by (rule ext) (simp add: insert_song_data_def song_data_plan_def raise_def split: option.splits list.splits)

lemma insert_artist_data_plan: "insert_artist_data df = run_plan (artist_data_plan df)"
  by (rule ext) (simp add: insert_artist_data_def artist_data_plan_def raise_def split: option.splits list.splits)

theorem process_song_file_plan: "process_song_file ls = run_plan (song_file_plan ls)"
  by (rule ext) (simp add: process_song_file_def song_file_plan_def raise_def run_plan_append
      insert_song_data_plan insert_artist_data_plan split: sum.splits)

lemma insert_time_data_plan: "insert_time_data df = run_plan (time_plan df)"
  by (rule ext) (simp add: insert_time_data_def time_plan_def raise_def run_plan_def for_each_map comp_def
      split: option.splits sum.splits)

lemma insert_user_data_plan: "insert_user_data df = run_plan (user_plan df)"
  by (rule ext) (simp add: insert_user_data_def user_plan_def raise_def run_plan_def for_each_map comp_def
      split: option.splits)

lemma fill_songplay_of_row [simp]:
  "fill_ids ids (songplay_of_row r start (JNull, JNull)) = songplay_of_row r start ids"
  by (simp add: fill_ids_def songplay_of_row_def)

lemma insert_songplay_row_plan: "insert_songplay_row df r = run_plan (songplay_row_plan df r)"
  by (rule ext) (simp add: insert_songplay_row_def songplay_row_plan_def raise_def Let_def
      split: option.splits sum.splits prod.splits)

lemma insert_songplays_data_plan:
  "insert_songplays_data df = run_plan (concat (map (songplay_row_plan df) (frows df)))"
  unfolding insert_songplays_data_def run_plan_def
  by (rule ext, rule for_each_concat) (simp add: insert_songplay_row_plan run_plan_def)

theorem process_log_file_plan: "process_log_file ls = run_plan (log_file_plan ls)"
  by (rule ext) (simp add: process_log_file_def log_file_plan_def log_frame_plan_def raise_def Let_def
      run_plan_append insert_time_data_plan insert_user_data_plan insert_songplays_data_plan
      then_act_def split: option.splits prod.splits)

lemma process_files_plan:
  assumes "\<And>f. func f = run_plan (plan f)"
  shows "(fst (process_files func n i fs s), rdb (snd (process_files func n i fs s))) =
         run_plan (concat (map plan fs)) (rdb s)"
proof (induction fs arbitrary: i s)
  case Nil
  then show ?case by simp
next
  case (Cons f fs)
  show ?case
  proof (cases "func f (rdb s)")
    case (Pair r d)
    then show ?thesis using Cons.IH
      by (cases r) (simp_all add: run_plan_append assms [symmetric])
  qed
qed

theorem etl_main_plan:
  "(fst (etl_main sf lf s), rdb (snd (etl_main sf lf s))) = run_plan (etl_plan sf lf) (rdb s)"
proof -
  obtain r1 s1 where ps: "process_data process_song_file sf s = (r1, s1)" by fastforce
  have song: "run_plan (concat (map song_file_plan sf)) (rdb s) = (r1, rdb s1)"
    using process_files_plan [where func = process_song_file and plan = song_file_plan, OF process_song_file_plan,
      of "length sf" 1 sf "s\<lparr>printed := printed s @ [FilesFound (length sf)]\<rparr>"] ps
    by (simp add: process_data_def)
  have log: "run_plan (concat (map log_file_plan lf)) (rdb s1) =
      (fst (process_data process_log_file lf s1), rdb (snd (process_data process_log_file lf s1)))"
    using process_files_plan [where func = process_log_file and plan = log_file_plan, OF process_log_file_plan,
      of "length lf" 1 lf "s1\<lparr>printed := printed s1 @ [FilesFound (length lf)]\<rparr>"] by (simp add: process_data_def)
  show ?thesis
  proof (cases r1)
    case None
    then show ?thesis using ps song log by (simp add: etl_main_def etl_plan_def run_plan_append)
  next
    case (Some e)
    then show ?thesis using ps song by (simp add: etl_main_def etl_plan_def run_plan_append)
  qed
qed

section \<open>Failure independence\<close>

lemma item_cases [case_names Raise Song Artist TimeNaT Time User Songplay Play]:
  obtains (Raise) e where "it = Raise e"
  | (Song) r where "it = Exec (InsSong r)"
  | (Artist) r where "it = Exec (InsArtist r)"
  | (TimeNaT) "it = Exec (InsTime None)"
  | (Time) r where "it = Exec (InsTime (Some r))"
  | (User) r where "it = Exec (InsUser r)"
  | (Songplay) p where "it = Exec (InsSongplay p)"
  | (Play) t a l p where "it = Play (t, a, l) p"
proof (cases it)
  case (Exec s)
  then show ?thesis
  proof (cases s)
    case (InsTime x)
    then show ?thesis using Exec that by (cases x) auto
  qed (use that in auto)
next
  case (Play q p)
  then show ?thesis using that by (cases q) auto
qed (use that in auto)

lemma fill_ids_fields [simp]:
  "sp_start_time (fill_ids ids p) = sp_start_time p"
  "sp_user_id (fill_ids ids p) = sp_user_id p"
  "sp_session_id (fill_ids ids p) = sp_session_id p"
  "sp_key (fill_ids ids p) = sp_key p"
  by (simp_all add: fill_ids_def sp_key_def)

lemma run_item_eq:
  "run_item it d = (case item_err it of Some e \<Rightarrow> (Some e, d) | None \<Rightarrow> (None, apply_item it d))"
  by (cases it rule: item_cases) (simp_all add: raise_def exec_stmt_eq split: option.splits)

theorem run_plan_split: "run_plan p d = (plan_err p, fold apply_item (ok_prefix p) d)"
proof (induction p arbitrary: d)
  case Nil
  then show ?case by (simp add: plan_err_def ok_prefix_def)
next
  case (Cons it p)
  then show ?case
    by (cases "item_err it") (simp_all add: run_plan_Cons run_item_eq plan_err_def ok_prefix_def then_act_def)
qed

lemma plan_err_None_iff: "plan_err p = None \<longleftrightarrow> (\<forall>it \<in> set p. item_err it = None)"
  by (induction p) (auto simp: plan_err_def split: list.splits)

lemma ok_prefix_all: "plan_err p = None \<Longrightarrow> ok_prefix p = p"
  by (simp add: ok_prefix_def plan_err_None_iff)

section \<open>Tables\<close>

lemma songs_apply_item: "songs (apply_item it d) = fold (ins_absent s_song_id) (song_rows it) (songs d)"
  by (cases it rule: item_cases) simp_all

lemma artists_apply_item:
  "artists (apply_item it d) = fold (ins_absent a_artist_id) (artist_rows it) (artists d)"
  by (cases it rule: item_cases) simp_all

lemma time_apply_item:
  "time_tbl (apply_item it d) = fold (ins_absent tm_start_time) (time_rows it) (time_tbl d)"
  by (cases it rule: item_cases) simp_all

lemma users_apply_item: "users (apply_item it d) = fold (upsert u_user_id) (user_rows it) (users d)"
  by (cases it rule: item_cases) simp_all

lemmas tables_fold =
  fold_proj [of songs apply_item, OF songs_apply_item]
  fold_proj [of artists apply_item, OF artists_apply_item]
  fold_proj [of time_tbl apply_item, OF time_apply_item]
  fold_proj [of users apply_item, OF users_apply_item]

lemma keys_songplays_apply_item:
  "keys sp_row_key (songplays (apply_item it d)) =
   keys sp_row_key (songplays d) \<union> set (songplay_keys it)"
  by (cases it rule: item_cases) auto

lemma songplays_apply_item_present:
  "set (songplay_keys it) \<subseteq> keys sp_row_key (songplays d) \<Longrightarrow> songplays (apply_item it d) = songplays d"
  by (cases it rule: item_cases) (simp_all add: ins_absent_present)

lemma keys_songplays_fold:
  "keys sp_row_key (songplays (fold apply_item q d)) =
   keys sp_row_key (songplays d) \<union> set (concat (map songplay_keys q))"
  by (induction q arbitrary: d) (auto simp: keys_songplays_apply_item)

lemma songplays_fold_present:
  "set (concat (map songplay_keys q)) \<subseteq> keys sp_row_key (songplays d) \<Longrightarrow>
   songplays (fold apply_item q d) = songplays d"
proof (induction q arbitrary: d)
  case Nil
  then show ?case by simp
next
  case (Cons it q)
  from Cons.prems have a: "set (songplay_keys it) \<subseteq> keys sp_row_key (songplays d)"
    and b: "set (concat (map songplay_keys q)) \<subseteq> keys sp_row_key (songplays d)"
    by simp_all
  from a have "songplays (apply_item it d) = songplays d" by (rule songplays_apply_item_present)
  then show ?case using Cons.IH [of "apply_item it d"] b by simp
qed

section \<open>Well-formedness\<close>

lemma db_wf_run_item: "db_wf d \<Longrightarrow> db_wf (snd (run_item it d))"
  by (cases it rule: item_cases) (simp_all add: raise_def db_wf_exec_stmt)

lemma db_wf_run_plan: "db_wf d \<Longrightarrow> db_wf (snd (run_plan p d))"
  unfolding run_plan_def by (rule for_each_invariant) (simp_all add: db_wf_run_item)

end
