(* ===== verification/RdbmsProps.thy ===== *)
theory RdbmsProps
  imports RdbmsPlan
begin

text \<open>
  The properties of the Postgres pipeline of \<open>RDMS_Data_Modelling/etl.py\<close>, proved on
  the plans of \<open>RdbmsPlan\<close>: users follow last write wins, events other than song
  plays write nothing, unmatched plays are kept with NULL ids and matched ones take the
  first catalog row, a song file without an artist column is loaded in part, a run
  stops at its first failing statement, and the driver reports progress per file.  The
  table invariant and the growth of the tables hold for every statement plan: they
  are properties of the load policy of the statements, whatever \<open>etl.py\<close> issues.
\<close>

section \<open>Table invariant\<close>

text \<open>From a database whose natural keys are unique and non-NULL, a run leaves such a
  database, whether it completes or raises.\<close>

theorem etl_main_db_wf: "db_wf (rdb s) \<Longrightarrow> db_wf (rdb (snd (etl_main sf lf s)))"
  using etl_main_plan [of sf lf s] db_wf_run_plan [of "rdb s" "etl_plan sf lf"]
  by (metis snd_conv)

section \<open>Last write wins\<close>

lemma users_run_plan:
  "users (snd (run_plan p d)) = fold (upsert u_user_id) (concat (map user_rows (ok_prefix p))) (users d)"
  by (simp add: run_plan_split tables_fold)

lemma plan_err_append_None:
  "plan_err (p @ q) = None \<longleftrightarrow> plan_err p = None \<and> plan_err q = None"
  by (auto simp: plan_err_None_iff)

lemma user_rows_time_plan [simp]: "concat (map user_rows (time_plan df)) = []"
  by (simp add: time_plan_def comp_def split: option.splits sum.splits)

lemma user_rows_songplay_plan [simp]:
  "concat (map user_rows (concat (map (songplay_row_plan df) rs))) = []"
  by (simp add: songplay_row_plan_def split: option.splits sum.splits)

lemma user_rows_user_plan:
  "plan_err (user_plan df) = None \<Longrightarrow> concat (map user_rows (user_plan df)) = map user_row_of (frows df)"
  by (simp add: user_plan_def comp_def plan_err_def split: option.splits)

lemma log_file_plan_users:
  assumes "plan_err (log_file_plan ls) = None"
  shows "concat (map user_rows (log_file_plan ls)) = map user_row_of (filter is_next_song ls)"
proof (cases "require_cols (frame_of_lines ls) [''page'']")
  case None
  let ?df = "filter_rows is_next_song (frame_of_lines ls)"
  from None assms have "plan_err (user_plan ?df) = None"
    by (simp add: log_file_plan_def log_frame_plan_def plan_err_append_None)
  then show ?thesis using None by (simp add: log_file_plan_def log_frame_plan_def user_rows_user_plan)
next
  case (Some e)
  then show ?thesis using assms by (simp add: log_file_plan_def plan_err_def)
qed

text \<open>C1: When a log file loads without error, the users table holds exactly one row for a user id, and it is the user row of the last NextSong event of that user in the file (last write wins).\<close>

theorem process_log_file_last_write_wins:
  assumes "db_wf d" and "process_log_file ls d = (None, d')"
    and "last_by u_user_id (map user_row_of (filter is_next_song ls)) k = Some u"
  shows "filter (\<lambda>x. u_user_id x = k) (users d') = [u]"
proof -
  have run: "run_plan (log_file_plan ls) d = (None, d')"
    using assms(2) by (simp add: process_log_file_plan)
  then have err: "plan_err (log_file_plan ls) = None" by (simp add: run_plan_split)
  have "users d' = fold (upsert u_user_id) (map user_row_of (filter is_next_song ls)) (users d)"
    using users_run_plan [of "log_file_plan ls" d] run err
    by (simp add: ok_prefix_all log_file_plan_users)
  moreover have "distinct (map u_user_id (users d))" using assms(1) by (simp add: db_wf_def)
  ultimately show ?thesis using fold_upsert_rows_of_key assms(3) by simp
qed

section \<open>Events other than song plays\<close>

lemma log_frame_plan_cong:
  assumes "set (fcols df1) = set (fcols df2)" and "frows df1 = frows df2"
  shows "log_frame_plan df1 = log_frame_plan df2"
proof -
  have sp: "songplay_row_plan df1 = songplay_row_plan df2"
    unfolding songplay_row_plan_def attr_error_cong [OF assms(1)] ..
  show ?thesis
    unfolding log_frame_plan_def time_plan_def user_plan_def sp assms(2) require_cols_cong [OF assms(1)] ..
qed

text \<open>C2: An event whose page is not NextSong has no influence on what loading its log file does, provided it brings no column of its own.\<close>

theorem process_log_file_ignores_other_events:
  assumes "\<not> is_next_song r" and "set (map fst r) \<subseteq> set (fcols (frame_of_lines (xs @ ys)))"
  shows "process_log_file (xs @ r # ys) = process_log_file (xs @ ys)"
proof -
  let ?f1 = "frame_of_lines (xs @ r # ys)" and ?f2 = "frame_of_lines (xs @ ys)"
  have sub: "fst ` set r \<subseteq> (\<Union>x \<in> set xs. fst ` set x) \<union> (\<Union>x \<in> set ys. fst ` set x)"
    using assms(2) by simp
  have cols: "set (fcols ?f1) = set (fcols ?f2)" using sub by auto
  have lfp: "log_frame_plan (filter_rows is_next_song ?f1) = log_frame_plan (filter_rows is_next_song ?f2)"
    by (rule log_frame_plan_cong) (simp only: fcols_filter_rows cols, simp add: assms(1))
  have "log_file_plan (xs @ r # ys) = log_file_plan (xs @ ys)"
    unfolding log_file_plan_def require_cols_cong [OF cols] lfp ..
  then show ?thesis by (simp add: process_log_file_plan)
qed

lemma run_plan_only_raise:
  "\<forall>it \<in> set p. \<exists>e. it = Raise e \<Longrightarrow> snd (run_plan p d) = d"
  by (induction p) (auto simp: run_plan_Cons raise_def)

text \<open>A log file without NextSong events writes no row at all, whatever else it contains.\<close>

theorem process_log_file_no_song_plays:
  assumes "\<forall>r \<in> set ls. \<not> is_next_song r"
  shows "snd (process_log_file ls d) = d"
proof -
  have "filter is_next_song ls = []" using assms by (simp add: filter_empty_conv)
  then have "\<forall>it \<in> set (log_file_plan ls). \<exists>e. it = Raise e"
    by (simp add: log_file_plan_def log_frame_plan_def time_plan_def user_plan_def
        split: option.splits sum.splits)
  then show ?thesis by (simp add: process_log_file_plan run_plan_only_raise)
qed

section \<open>Unmatched songplays\<close>

text \<open>C3: A play whose title, artist and length match no catalog song is still inserted, with NULL song_id and artist_id, when its natural key is new.\<close>

theorem insert_songplay_row_unmatched:
  assumes "set [''song'', ''artist'', ''length'', ''ts''] \<subseteq> set (fcols df)"
    and "set play_cols \<subseteq> set (fcols df)"
    and "to_datetime_ms (cell r ''ts'') = Inr (Some t)"
    and "cell r ''userId'' \<noteq> JNull" and "cell r ''sessionId'' \<noteq> JNull"
    and "song_select d (cell r ''song'') (cell r ''artist'') (cell r ''length'') = []"
    and "sp_key (songplay_of_row r (Some t) (JNull, JNull)) \<notin> keys sp_row_key (songplays d)"
  shows "insert_songplay_row df r d =
    (None, d\<lparr>songplays := songplays d @
              [(Suc (sp_seq d), songplay_of_row r (Some t) (JNull, JNull))], sp_seq := Suc (sp_seq d)\<rparr>)"
proof -
  have "attr_error df [''song'', ''artist'', ''length''] = None" "attr_error df [''ts''] = None"
    "attr_error df play_cols = None"
    using assms(1,2) by (simp_all add: attr_error_None_iff)
  moreover have "resolve_ids d (cell r ''song'') (cell r ''artist'') (cell r ''length'') = (JNull, JNull)"
    using assms(6) by (simp add: resolve_ids_def fetchone_def)
  ultimately show ?thesis using assms(3-5,7)
    by (simp add: insert_songplay_row_def exec_stmt_eq songplay_of_row_def ins_absent_def keys_def)
qed

section \<open>Progress reporting\<close>

lemma process_files_progress:
  assumes "process_files func n i fs s = (r, s')"
  shows "\<exists>k \<le> length fs. printed s' = printed s @ map (\<lambda>j. FilesProcessed j n) [i..<i + k] \<and>
           (r = None \<longleftrightarrow> k = length fs)"
  using assms
proof (induction fs arbitrary: i s)
  case Nil
  then show ?case by simp
next
  case (Cons f fs)
  show ?case
  proof (cases "func f (rdb s)")
    case (Pair r1 d)
    show ?thesis
    proof (cases r1)
      case None
      let ?s = "s\<lparr>rdb := d, printed := printed s @ [FilesProcessed i n]\<rparr>"
      from Cons.prems Pair None have "process_files func n (Suc i) fs ?s = (r, s')" by simp
      from Cons.IH [OF this] obtain k where k: "k \<le> length fs"
        "printed s' = printed ?s @ map (\<lambda>j. FilesProcessed j n) [Suc i..<Suc i + k]"
        "r = None \<longleftrightarrow> k = length fs" by blast
      have "[i..<i + Suc k] = i # [Suc i..<Suc i + k]" by (simp add: upt_rec)
      then show ?thesis using k by (intro exI [of _ "Suc k"]) simp
    next
      case (Some e)
      with Cons.prems Pair show ?thesis by (intro exI [of _ 0]) auto
    qed
  qed
qed

text \<open>C4: A play whose title, artist and length match catalog rows takes the song and artist ids
  of the first row the query returns (\<open>cur.fetchone()\<close>), also when several rows match,
  and is inserted with the next value of the songplay sequence.\<close>

theorem insert_songplay_row_matched:
  assumes "set [''song'', ''artist'', ''length'', ''ts''] \<subseteq> set (fcols df)"
    and "set play_cols \<subseteq> set (fcols df)"
    and "to_datetime_ms (cell r ''ts'') = Inr (Some t)"
    and "cell r ''userId'' \<noteq> JNull" and "cell r ''sessionId'' \<noteq> JNull"
    and "song_select d (cell r ''song'') (cell r ''artist'') (cell r ''length'') = (sid, aid) # others"
    and "sp_key (songplay_of_row r (Some t) (sid, aid)) \<notin> keys sp_row_key (songplays d)"
  shows "insert_songplay_row df r d =
    (None, d\<lparr>songplays := songplays d @ [(Suc (sp_seq d), songplay_of_row r (Some t) (sid, aid))],
              sp_seq := Suc (sp_seq d)\<rparr>)"
proof -
  have "attr_error df [''song'', ''artist'', ''length''] = None" "attr_error df [''ts''] = None"
    "attr_error df play_cols = None"
    using assms(1,2) by (simp_all add: attr_error_None_iff)
  moreover have "resolve_ids d (cell r ''song'') (cell r ''artist'') (cell r ''length'') = (sid, aid)"
    using assms(6) by (simp add: resolve_ids_def fetchone_def)
  ultimately show ?thesis using assms(3-5,7)
    by (simp add: insert_songplay_row_def exec_stmt_eq songplay_of_row_def ins_absent_def keys_def)
qed

section \<open>Song files\<close>

text \<open>C5: A song file whose frame has the song columns but lacks an artist column raises
  \<open>KeyError\<close> in \<open>insert_artist_data\<close> after \<open>insert_song_data\<close> has written the
  song of its first line: the connection is in autocommit mode, so the file is loaded
  in part.\<close>

theorem process_song_file_partial_write:
  assumes "set_index ''num_songs'' (frame_of_lines ls) = Inr df"
    and "require_cols df song_cols = None" and "require_cols df artist_cols = Some e"
    and "ls \<noteq> []" and "cell (hd ls) ''song_id'' \<noteq> JNull"
  shows "process_song_file ls d = (Some e, d\<lparr>songs := ins_absent s_song_id (song_row_of (hd ls)) (songs d)\<rparr>)"
proof -
  have "frows df = ls" using assms(1) by (auto simp: set_index_def split: if_splits)
  then obtain r rs where "frows df = r # rs" and "hd ls = r" using assms(4) by (cases ls) auto
  then show ?thesis using assms(1-3,5)
    by (simp add: process_song_file_def insert_song_data_def insert_artist_data_def then_act_def
        exec_stmt_eq song_row_of_def raise_def)
qed

text \<open>C9: process_data prints the number of files found and then "i/n files processed" for the files 1..k it completed; k is the number of files exactly when no exception was raised.\<close>

theorem process_data_progress:
  "\<exists>k \<le> length files.
     printed (snd (process_data func files s)) =
       printed s @ FilesFound (length files) # map (\<lambda>j. FilesProcessed j (length files)) [1..<Suc k] \<and>
     (fst (process_data func files s) = None \<longleftrightarrow> k = length files)"
proof -
  let ?s0 = "s\<lparr>printed := printed s @ [FilesFound (length files)]\<rparr>"
  obtain r s' where eq: "process_files func (length files) 1 files ?s0 = (r, s')" by fastforce
  from process_files_progress [OF eq] obtain k where "k \<le> length files"
    "printed s' = printed ?s0 @ map (\<lambda>j. FilesProcessed j (length files)) [1..<1 + k]"
    "r = None \<longleftrightarrow> k = length files" by blast
  then show ?thesis using eq by (intro exI [of _ k]) (simp add: process_data_def)
qed

section \<open>Where a run stops\<close>

text \<open>C8: A run raises the first failure of the statement plan of its files, and the database then holds exactly the effects of the statements before it (autocommit, no rollback).\<close>

theorem etl_main_stops_at_first_error:
  "fst (etl_main sf lf s) = plan_err (etl_plan sf lf) \<and>
   rdb (snd (etl_main sf lf s)) = fold apply_item (ok_prefix (etl_plan sf lf)) (rdb s)"
  using etl_main_plan [of sf lf s] run_plan_split [of "etl_plan sf lf" "rdb s"] by simp

section \<open>The catalog is append-only\<close>

lemma songplays_apply_item_prefix: "\<exists>xs. songplays (apply_item it d) = songplays d @ xs"
  by (cases it rule: item_cases) (simp_all add: ins_absent_prefix)

lemma songplays_fold_prefix: "\<exists>xs. songplays (fold apply_item q d) = songplays d @ xs"
proof (induction q arbitrary: d)
  case Nil
  then show ?case by simp
next
  case (Cons it q)
  obtain xs where "songplays (apply_item it d) = songplays d @ xs"
    using songplays_apply_item_prefix by blast
  moreover obtain ys where "songplays (fold apply_item q (apply_item it d)) = songplays (apply_item it d) @ ys"
    using Cons.IH by blast
  ultimately show ?case by auto
qed

text \<open>The songs, artists, time and songplays tables only grow: a run keeps every existing row in place and appends.\<close>

theorem etl_main_append_only:
  "(\<exists>xs. songs (rdb (snd (etl_main sf lf s))) = songs (rdb s) @ xs) \<and>
   (\<exists>xs. artists (rdb (snd (etl_main sf lf s))) = artists (rdb s) @ xs) \<and>
   (\<exists>xs. time_tbl (rdb (snd (etl_main sf lf s))) = time_tbl (rdb s) @ xs) \<and>
   (\<exists>xs. songplays (rdb (snd (etl_main sf lf s))) = songplays (rdb s) @ xs)"
  using etl_main_plan [of sf lf s] run_plan_split [of "etl_plan sf lf" "rdb s"]
  by (simp add: tables_fold fold_ins_absent_prefix songplays_fold_prefix)

end
