(* ===== verification/Warehouse.thy ===== *)
theory Warehouse
  imports Store "HOL-Library.Sublist"
begin

text \<open>
  The Redshift pipeline: \<open>DataWarehouse/etl.py\<close> runs the two \<open>COPY\<close> statements of
  \<open>sql_queries.py\<close> (\<open>copy_table_queries\<close>) and then its five \<open>INSERT \<dots> SELECT\<close>
  statements (\<open>insert_table_queries\<close>), each followed by \<open>conn.commit()\<close>.  The staging
  tables are the JSON lines of the two S3 prefixes; every \<open>INSERT\<close> reads the staging
  tables and skips the rows whose key is already in its target with an anti-join
  (\<open>NOT IN\<close>), evaluated with SQL's three-valued logic (\<open>sql_cmp\<close>, \<open>sql_not_in\<close>).
  Redshift does not enforce PRIMARY KEY uniqueness, but a primary-key column is NOT NULL
  like a column declared NOT NULL; a statement that would write a NULL there fails as a
  whole.  A failed statement raises out of \<open>main\<close>: the statements committed before it
  stay, the failed one changes nothing.  The star tables reuse the row records of the
  Postgres model (\<open>Store\<close>); songplays are kept without their \<open>IDENTITY\<close> id, and a
  time row all of whose columns are NULL is \<open>None\<close>.  The time table's calendar columns
  are \<open>smallint\<close>: a value out of that range fails the insert with \<open>DataError\<close>.
\<close>

section \<open>Staging tables\<close>

record stage_event =
  se_artist :: jval
  se_auth :: jval
  se_first_name :: jval
  se_gender :: jval
  se_item_in_session :: jval
  se_last_name :: jval
  se_length :: jval
  se_level :: jval
  se_location :: jval
  se_method :: jval
  se_page :: jval
  se_registration :: jval
  se_session_id :: jval
  se_song :: jval
  se_status :: jval
  se_ts :: jval
  se_user_agent :: jval
  se_user_id :: jval

record stage_song =
  ss_num_songs :: jval
  ss_artist_id :: jval
  ss_artist_latitude :: jval
  ss_artist_longitude :: jval
  ss_artist_location :: jval
  ss_artist_name :: jval
  ss_song_id :: jval
  ss_title :: jval
  ss_duration :: jval
  ss_year :: jval

record dw =
  staging_events :: "stage_event list"
  staging_songs :: "stage_song list"
  dw_songplays :: "songplay list"
  dw_users :: "user_row list"
  dw_songs :: "song_row list"
  dw_artists :: "artist_row list"
  dw_time :: "time_row option list"

text \<open>The JSON lines under the two S3 prefixes the \<open>COPY\<close> statements read.\<close>

record bucket =
  log_data :: "jobj list"
  song_data :: "jobj list"

section \<open>SQL values\<close>

text \<open>Three-valued comparison: \<open>None\<close> is UNKNOWN, the result of comparing with NULL.\<close>

definition sql_cmp :: "jval \<Rightarrow> jval \<Rightarrow> bool option" where
  "sql_cmp a b = (if a = JNull \<or> b = JNull then None else Some (sql_eq a b))"

definition ts_cmp :: "int option \<Rightarrow> int option \<Rightarrow> bool option" where
  "ts_cmp a b = (case (a, b) of (Some x, Some y) \<Rightarrow> Some (x = y) | _ \<Rightarrow> None)"

text \<open>\<open>x NOT IN (ys)\<close> is TRUE when \<open>x <> y\<close> is TRUE for every \<open>y\<close>; a WHERE clause keeps
  a row only when its condition is TRUE.\<close>

definition sql_not_in :: "('a \<Rightarrow> 'a \<Rightarrow> bool option) \<Rightarrow> 'a \<Rightarrow> 'a list \<Rightarrow> bool" where
  "sql_not_in cmp x ys = list_all (\<lambda>y. cmp x y = Some False) ys"

text \<open>\<open>DATEADD(MS, ts, '1970-01-01')\<close>: the timestamp \<open>ts\<close> milliseconds after the epoch.\<close>

fun dateadd_ms :: "jval \<Rightarrow> int option" where
  "dateadd_ms (JInt ms) = Some ms"
| "dateadd_ms _ = None"

definition page_is_next :: "stage_event \<Rightarrow> bool" where
  "page_is_next e \<longleftrightarrow> sql_eq (se_page e) (JStr ''NextSong'')"

text \<open>An \<open>INSERT\<close> writes all selected rows or, when one of them has NULL in a NOT NULL
  column, none.\<close>

definition insert_rows :: "('r \<Rightarrow> bool) \<Rightarrow> string \<Rightarrow> 'r list \<Rightarrow> 'r list \<Rightarrow> error + 'r list" where
  "insert_rows not_null tbl rs t = (if list_all not_null rs then Inr (t @ rs) else Inl (IntegrityError tbl))"

section \<open>Staging: the COPY statements\<close>

text \<open>\<open>staging_events_copy\<close> maps the log keys to the columns through the JSON paths file;
  a key a line lacks loads NULL.\<close>

definition event_of :: "jobj \<Rightarrow> stage_event" where
  "event_of r =
     \<lparr>se_artist = cell r ''artist'', se_auth = cell r ''auth'', se_first_name = cell r ''firstName'',
      se_gender = cell r ''gender'', se_item_in_session = cell r ''itemInSession'',
      se_last_name = cell r ''lastName'', se_length = cell r ''length'', se_level = cell r ''level'',
      se_location = cell r ''location'', se_method = cell r ''method'', se_page = cell r ''page'',
      se_registration = cell r ''registration'', se_session_id = cell r ''sessionId'',
      se_song = cell r ''song'', se_status = cell r ''status'', se_ts = cell r ''ts'',
      se_user_agent = cell r ''userAgent'', se_user_id = cell r ''userId''\<rparr>"

text \<open>\<open>staging_songs_copy\<close> uses \<open>JSON 'auto'\<close>: a column reads the key of its name.\<close>

definition song_of :: "jobj \<Rightarrow> stage_song" where
  "song_of r =
     \<lparr>ss_num_songs = cell r ''num_songs'', ss_artist_id = cell r ''artist_id'',
      ss_artist_latitude = cell r ''artist_latitude'', ss_artist_longitude = cell r ''artist_longitude'',
      ss_artist_location = cell r ''artist_location'', ss_artist_name = cell r ''artist_name'',
      ss_song_id = cell r ''song_id'', ss_title = cell r ''title'', ss_duration = cell r ''duration'',
      ss_year = cell r ''year''\<rparr>"

definition staging_events_copy :: "jobj list \<Rightarrow> dw \<Rightarrow> error + dw" where
  "staging_events_copy ls w = Inr (w\<lparr>staging_events := staging_events w @ map event_of ls\<rparr>)"

text \<open>\<open>artist_name\<close> and \<open>song_id\<close> are NOT NULL in \<open>staging_songs\<close>: a line without them
  makes the whole \<open>COPY\<close> fail.\<close>

definition staging_songs_copy :: "jobj list \<Rightarrow> dw \<Rightarrow> error + dw" where
  "staging_songs_copy ls w =
     (let rs = map song_of ls
      in if list_all (\<lambda>s. ss_artist_name s \<noteq> JNull \<and> ss_song_id s \<noteq> JNull) rs
         then Inr (w\<lparr>staging_songs := staging_songs w @ rs\<rparr>)
         else Inl (LoadError ''staging_songs''))"

section \<open>The INSERT ... SELECT statements\<close>

definition songplay_row :: "stage_song \<Rightarrow> stage_event \<Rightarrow> songplay" where
  "songplay_row ss se =
     \<lparr>sp_start_time = dateadd_ms (se_ts se), sp_user_id = se_user_id se, sp_level = se_level se,
      sp_song_id = ss_song_id ss, sp_artist_id = ss_artist_id ss, sp_session_id = se_session_id se,
      sp_location = se_location se, sp_user_agent = se_user_agent se\<rparr>"

text \<open>The anti-join's subquery.  Its condition \<open>s.start_time = start_time\<close> names no table
  for the second \<open>start_time\<close>, which SQL binds to the innermost table that has the
  column: \<open>songplays s\<close> itself.  The comparison is therefore \<open>s.start_time = s.start_time\<close>.\<close>

definition songplay_sub :: "dw \<Rightarrow> stage_event \<Rightarrow> jval list" where
  "songplay_sub w se =
     remdups [sp_user_id s. s \<leftarrow> dw_songplays w,
       sql_eq (sp_user_id s) (se_user_id se) \<and> sql_eq (sp_session_id s) (se_session_id se) \<and>
       ts_cmp (sp_start_time s) (sp_start_time s) = Some True]"

definition songplay_table_select :: "dw \<Rightarrow> songplay list" where
  "songplay_table_select w =
     remdups [songplay_row ss se. ss \<leftarrow> staging_songs w, se \<leftarrow> staging_events w,
       sql_eq (ss_artist_name ss) (se_artist se) \<and> sql_eq (ss_title ss) (se_song se) \<and>
       page_is_next se \<and> sql_not_in sql_cmp (se_user_id se) (songplay_sub w se)]"

definition songplay_not_null :: "songplay \<Rightarrow> bool" where
  "songplay_not_null p \<longleftrightarrow>
     sp_user_id p \<noteq> JNull \<and> sp_song_id p \<noteq> JNull \<and> sp_artist_id p \<noteq> JNull \<and> sp_session_id p \<noteq> JNull"

definition songplay_table_insert :: "dw \<Rightarrow> error + dw" where
  "songplay_table_insert w =
     (case insert_rows songplay_not_null ''songplays'' (songplay_table_select w) (dw_songplays w) of
        Inl e \<Rightarrow> Inl e
      | Inr t \<Rightarrow> Inr (w\<lparr>dw_songplays := t\<rparr>))"

definition user_row_of_event :: "stage_event \<Rightarrow> user_row" where
  "user_row_of_event e =
     \<lparr>u_user_id = se_user_id e, u_first_name = se_first_name e, u_last_name = se_last_name e,
      u_gender = se_gender e, u_level = se_level e\<rparr>"

definition user_table_select :: "dw \<Rightarrow> user_row list" where
  "user_table_select w =
     remdups [user_row_of_event e. e \<leftarrow> staging_events w,
       page_is_next e \<and> se_user_id e \<noteq> JNull \<and>
       sql_not_in sql_cmp (se_user_id e) (remdups (map u_user_id (dw_users w)))]"

definition user_table_insert :: "dw \<Rightarrow> error + dw" where
  "user_table_insert w =
     (case insert_rows (\<lambda>u. u_user_id u \<noteq> JNull) ''users'' (user_table_select w) (dw_users w) of
        Inl e \<Rightarrow> Inl e
      | Inr t \<Rightarrow> Inr (w\<lparr>dw_users := t\<rparr>))"

definition song_row_of_stage :: "stage_song \<Rightarrow> song_row" where
  "song_row_of_stage s =
     \<lparr>s_song_id = ss_song_id s, s_title = ss_title s, s_artist_id = ss_artist_id s,
      s_year = ss_year s, s_duration = ss_duration s\<rparr>"

definition song_table_select :: "dw \<Rightarrow> song_row list" where
  "song_table_select w =
     remdups [song_row_of_stage s. s \<leftarrow> staging_songs w,
       sql_not_in sql_cmp (ss_song_id s) (remdups (map s_song_id (dw_songs w)))]"

definition song_table_insert :: "dw \<Rightarrow> error + dw" where
  "song_table_insert w =
     (case insert_rows (\<lambda>s. s_song_id s \<noteq> JNull) ''songs'' (song_table_select w) (dw_songs w) of
        Inl e \<Rightarrow> Inl e
      | Inr t \<Rightarrow> Inr (w\<lparr>dw_songs := t\<rparr>))"

definition artist_row_of_stage :: "stage_song \<Rightarrow> artist_row" where
  "artist_row_of_stage s =
     \<lparr>a_artist_id = ss_artist_id s, a_name = ss_artist_name s, a_location = ss_artist_location s,
      a_latitude = ss_artist_latitude s, a_longitude = ss_artist_longitude s\<rparr>"

definition artist_table_select :: "dw \<Rightarrow> artist_row list" where
  "artist_table_select w =
     remdups [artist_row_of_stage s. s \<leftarrow> staging_songs w,
       sql_not_in sql_cmp (ss_artist_id s) (remdups (map a_artist_id (dw_artists w)))]"

definition artist_table_insert :: "dw \<Rightarrow> error + dw" where
  "artist_table_insert w =
     (case insert_rows (\<lambda>a. a_artist_id a \<noteq> JNull) ''artists'' (artist_table_select w) (dw_artists w) of
        Inl e \<Rightarrow> Inl e
      | Inr t \<Rightarrow> Inr (w\<lparr>dw_artists := t\<rparr>))"

text \<open>The columns of \<open>time_table_insert\<close>: \<open>extract(week)\<close> is the ISO week and
  \<open>extract(dow)\<close> counts from Sunday = 0.\<close>

definition dw_time_row_of_ms :: "int \<Rightarrow> time_row" where
  "dw_time_row_of_ms ms =
     (let t = timestamp_of_ms ms
      in \<lparr>tm_start_time = ms, tm_hour = t_hour t, tm_day = t_day t, tm_week = dt_week t,
          tm_month = t_month t, tm_year = t_year t, tm_weekday = sql_dow t\<rparr>)"

text \<open>In the WHERE clause, \<open>start_time\<close> is the select list's \<open>DATEADD\<close> (the staging table
  has no such column).\<close>

definition time_table_select :: "dw \<Rightarrow> time_row option list" where
  "time_table_select w =
     remdups [map_option dw_time_row_of_ms (dateadd_ms (se_ts e)). e \<leftarrow> staging_events w,
       page_is_next e \<and>
       sql_not_in ts_cmp (dateadd_ms (se_ts e)) (remdups (map (map_option tm_start_time) (dw_time w)))]"

text \<open>\<open>time_table_create\<close> declares hour, day, week, month, year and weekday
  \<open>smallint\<close>: a value outside \<open>-32768..32767\<close> makes the \<open>INSERT\<close> fail.\<close>

definition smallint_ok :: "int \<Rightarrow> bool" where
  "smallint_ok i \<longleftrightarrow> -32768 \<le> i \<and> i \<le> 32767"

definition time_row_fits :: "time_row option \<Rightarrow> bool" where
  "time_row_fits r =
     (case r of
        None \<Rightarrow> True
      | Some t \<Rightarrow> smallint_ok (tm_hour t) \<and> smallint_ok (tm_day t) \<and> smallint_ok (tm_week t) \<and>
                  smallint_ok (tm_month t) \<and> smallint_ok (tm_year t) \<and> smallint_ok (tm_weekday t))"

definition time_table_insert :: "dw \<Rightarrow> error + dw" where
  "time_table_insert w =
     (case insert_rows (\<lambda>r. r \<noteq> None) ''time'' (time_table_select w) (dw_time w) of
        Inl e \<Rightarrow> Inl e
      | Inr t \<Rightarrow>
          if list_all time_row_fits (time_table_select w) then Inr (w\<lparr>dw_time := t\<rparr>)
          else Inl (DataError ''smallint out of range''))"

section \<open>The driver\<close>

datatype query =
    StagingEventsCopy
  | StagingSongsCopy
  | SongplayTableInsert
  | UserTableInsert
  | SongTableInsert
  | ArtistTableInsert
  | TimeTableInsert

definition copy_table_queries :: "query list" where
  "copy_table_queries = [StagingEventsCopy, StagingSongsCopy]"

definition insert_table_queries :: "query list" where
  "insert_table_queries = [SongplayTableInsert, UserTableInsert, SongTableInsert, ArtistTableInsert, TimeTableInsert]"

fun run_query :: "bucket \<Rightarrow> query \<Rightarrow> dw \<Rightarrow> error + dw" where
  "run_query b StagingEventsCopy w = staging_events_copy (log_data b) w"
| "run_query b StagingSongsCopy w = staging_songs_copy (song_data b) w"
| "run_query b SongplayTableInsert w = songplay_table_insert w"
| "run_query b UserTableInsert w = user_table_insert w"
| "run_query b SongTableInsert w = song_table_insert w"
| "run_query b ArtistTableInsert w = artist_table_insert w"
| "run_query b TimeTableInsert w = time_table_insert w"

text \<open>\<open>cur.execute(query); conn.commit()\<close>: a failed statement rolls back alone.\<close>

definition dw_execute :: "bucket \<Rightarrow> query \<Rightarrow> (error, dw) act" where
  "dw_execute b q w = (case run_query b q w of Inl e \<Rightarrow> (Some e, w) | Inr w' \<Rightarrow> (None, w'))"

definition load_staging_tables :: "bucket \<Rightarrow> (error, dw) act" where
  "load_staging_tables b = for_each (dw_execute b) copy_table_queries"

definition insert_tables :: "bucket \<Rightarrow> (error, dw) act" where
  "insert_tables b = for_each (dw_execute b) insert_table_queries"

definition dw_main :: "bucket \<Rightarrow> (error, dw) act" where
  "dw_main b = then_act (load_staging_tables b) (insert_tables b)"

text \<open>The star tables of a warehouse (staging left out), and the state in which no
  \<open>INSERT\<close> of \<open>insert_table_queries\<close> would add a row.\<close>

definition star_tables :: "dw \<Rightarrow> songplay list \<times> user_row list \<times> song_row list \<times> artist_row list \<times> time_row option list" where
  "star_tables w = (dw_songplays w, dw_users w, dw_songs w, dw_artists w, dw_time w)"

definition settled :: "dw \<Rightarrow> bool" where
  "settled w \<longleftrightarrow> songplay_table_select w = [] \<and> user_table_select w = [] \<and>
     song_table_select w = [] \<and> artist_table_select w = [] \<and> time_table_select w = []"

text \<open>The NOT NULL and PRIMARY KEY columns hold no NULL.\<close>

definition dw_wf :: "dw \<Rightarrow> bool" where
  "dw_wf w \<longleftrightarrow>
     list_all (\<lambda>s. ss_artist_name s \<noteq> JNull \<and> ss_song_id s \<noteq> JNull) (staging_songs w) \<and>
     list_all songplay_not_null (dw_songplays w) \<and> list_all (\<lambda>u. u_user_id u \<noteq> JNull) (dw_users w) \<and>
     list_all (\<lambda>s. s_song_id s \<noteq> JNull) (dw_songs w) \<and> list_all (\<lambda>a. a_artist_id a \<noteq> JNull) (dw_artists w) \<and>
     list_all (\<lambda>r. r \<noteq> None) (dw_time w)"

text \<open>Each star table of the second state extends that of the first.\<close>

definition star_prefix :: "dw \<Rightarrow> dw \<Rightarrow> bool" where
  "star_prefix w w' \<longleftrightarrow>
     prefix (dw_songplays w) (dw_songplays w') \<and> prefix (dw_users w) (dw_users w') \<and>
     prefix (dw_songs w) (dw_songs w') \<and> prefix (dw_artists w) (dw_artists w') \<and>
     prefix (dw_time w) (dw_time w')"

section \<open>Lemmas\<close>

lemma sql_not_in_iff: "sql_not_in cmp x ys \<longleftrightarrow> (\<forall>y\<in>set ys. cmp x y = Some False)"
  by (simp add: sql_not_in_def list_all_iff)

lemma sql_not_in_remdups [simp]: "sql_not_in cmp x (remdups ys) = sql_not_in cmp x ys"
  by (simp add: sql_not_in_iff)

lemma sql_not_in_mono: "set ys \<subseteq> set zs \<Longrightarrow> sql_not_in cmp x zs \<Longrightarrow> sql_not_in cmp x ys"
  by (auto simp: sql_not_in_iff)

lemma sql_not_in_member: "x \<in> set ys \<Longrightarrow> cmp x x = Some True \<Longrightarrow> \<not> sql_not_in cmp x ys"
  unfolding sql_not_in_iff by (metis option.inject)

lemma sql_eq_refl: "v \<noteq> JNull \<Longrightarrow> sql_eq v v"
  by (cases v) auto

lemma sql_cmp_refl: "v \<noteq> JNull \<Longrightarrow> sql_cmp v v = Some True"
  by (simp add: sql_cmp_def sql_eq_refl)

lemma ts_cmp_self [simp]: "ts_cmp x x = Some True \<longleftrightarrow> x \<noteq> None"
  by (cases x) (auto simp: ts_cmp_def)

lemma insert_rows_Nil [simp]: "insert_rows nn tbl [] t = Inr t"
  by (simp add: insert_rows_def)

lemma insert_rows_Inr: "insert_rows nn tbl rs t = Inr t' \<longleftrightarrow> list_all nn rs \<and> t' = t @ rs"
  by (auto simp: insert_rows_def)

lemma tm_start_time_dw_time_row [simp]: "tm_start_time (dw_time_row_of_ms ms) = ms"
  by (simp add: dw_time_row_of_ms_def Let_def)

lemma songplay_table_select_Nil_iff:
  "songplay_table_select w = [] \<longleftrightarrow>
     (\<forall>ss\<in>set (staging_songs w). \<forall>se\<in>set (staging_events w).
        sql_eq (ss_artist_name ss) (se_artist se) \<longrightarrow> sql_eq (ss_title ss) (se_song se) \<longrightarrow>
        page_is_next se \<longrightarrow> \<not> sql_not_in sql_cmp (se_user_id se) (songplay_sub w se))"
  by (auto simp: songplay_table_select_def concat_eq_Nil_conv)

lemma user_table_select_Nil_iff:
  "user_table_select w = [] \<longleftrightarrow>
     (\<forall>e\<in>set (staging_events w). page_is_next e \<longrightarrow> se_user_id e \<noteq> JNull \<longrightarrow>
        \<not> sql_not_in sql_cmp (se_user_id e) (map u_user_id (dw_users w)))"
  by (auto simp: user_table_select_def)

lemma song_table_select_Nil_iff:
  "song_table_select w = [] \<longleftrightarrow>
     (\<forall>s\<in>set (staging_songs w). \<not> sql_not_in sql_cmp (ss_song_id s) (map s_song_id (dw_songs w)))"
  by (auto simp: song_table_select_def)

lemma artist_table_select_Nil_iff:
  "artist_table_select w = [] \<longleftrightarrow>
     (\<forall>s\<in>set (staging_songs w). \<not> sql_not_in sql_cmp (ss_artist_id s) (map a_artist_id (dw_artists w)))"
  by (auto simp: artist_table_select_def)

lemma time_table_select_Nil_iff:
  "time_table_select w = [] \<longleftrightarrow>
     (\<forall>e\<in>set (staging_events w). page_is_next e \<longrightarrow>
        \<not> sql_not_in ts_cmp (dateadd_ms (se_ts e)) (map (map_option tm_start_time) (dw_time w)))"
  by (auto simp: time_table_select_def)

lemmas dw_for_each = for_each_atomic [of "dw_execute b" "run_query b", OF dw_execute_def] for b

lemma dw_main_eq:
  "dw_main b w =
     for_each (dw_execute b) [StagingEventsCopy, StagingSongsCopy, SongplayTableInsert,
       UserTableInsert, SongTableInsert, ArtistTableInsert, TimeTableInsert] w"
  by (simp add: dw_main_def load_staging_tables_def insert_tables_def copy_table_queries_def
      insert_table_queries_def for_each_append [symmetric])

lemma dw_main_None:
  "dw_main b w = (None, w') \<longleftrightarrow>
     (\<exists>w1 w2 w3 w4 w5 w6. staging_events_copy (log_data b) w = Inr w1 \<and>
        staging_songs_copy (song_data b) w1 = Inr w2 \<and> songplay_table_insert w2 = Inr w3 \<and>
        user_table_insert w3 = Inr w4 \<and> song_table_insert w4 = Inr w5 \<and>
        artist_table_insert w5 = Inr w6 \<and> time_table_insert w6 = Inr w')"
  by (simp add: dw_main_eq dw_for_each del: for_each.simps(2) split: sum.splits)

lemma insert_rows_case_Inr:
  "(case insert_rows nn tbl rs t of Inl e \<Rightarrow> Inl e | Inr t' \<Rightarrow> Inr (f t')) = Inr w' \<longleftrightarrow>
     list_all nn rs \<and> w' = f (t @ rs)"
  by (auto simp: insert_rows_def)

lemma songplay_table_insert_Inr:
  "songplay_table_insert w = Inr w' \<longleftrightarrow> list_all songplay_not_null (songplay_table_select w) \<and>
     w' = w\<lparr>dw_songplays := dw_songplays w @ songplay_table_select w\<rparr>"
  by (simp add: songplay_table_insert_def insert_rows_case_Inr)

lemma user_table_insert_Inr:
  "user_table_insert w = Inr w' \<longleftrightarrow> list_all (\<lambda>u. u_user_id u \<noteq> JNull) (user_table_select w) \<and>
     w' = w\<lparr>dw_users := dw_users w @ user_table_select w\<rparr>"
  by (simp add: user_table_insert_def insert_rows_case_Inr)

lemma song_table_insert_Inr:
  "song_table_insert w = Inr w' \<longleftrightarrow> list_all (\<lambda>s. s_song_id s \<noteq> JNull) (song_table_select w) \<and>
     w' = w\<lparr>dw_songs := dw_songs w @ song_table_select w\<rparr>"
  by (simp add: song_table_insert_def insert_rows_case_Inr)

lemma artist_table_insert_Inr:
  "artist_table_insert w = Inr w' \<longleftrightarrow> list_all (\<lambda>a. a_artist_id a \<noteq> JNull) (artist_table_select w) \<and>
     w' = w\<lparr>dw_artists := dw_artists w @ artist_table_select w\<rparr>"
  by (simp add: artist_table_insert_def insert_rows_case_Inr)

lemma time_table_insert_Inr:
  "time_table_insert w = Inr w' \<longleftrightarrow> list_all (\<lambda>r. r \<noteq> None) (time_table_select w) \<and>
     list_all time_row_fits (time_table_select w) \<and> w' = w\<lparr>dw_time := dw_time w @ time_table_select w\<rparr>"
  by (auto simp: time_table_insert_def insert_rows_def)

text \<open>After an anti-join insert, no candidate passes the anti-join any more: the admitted
  ones now have their key in the table, the others were already blocked.\<close>

lemma anti_join_settles:
  assumes "\<forall>x\<in>set xs. P x \<longrightarrow> sql_not_in cmp (k x) ks \<longrightarrow> k x \<in> set ks' \<and> cmp (k x) (k x) = Some True"
    and "set ks \<subseteq> set ks'"
  shows "\<forall>x\<in>set xs. P x \<longrightarrow> \<not> sql_not_in cmp (k x) ks'"
  using assms by (meson sql_not_in_member sql_not_in_mono)

lemma user_table_insert_settles:
  assumes "user_table_insert w = Inr w'"
  shows "user_table_select w' = []"
proof -
  from assms have nn: "list_all (\<lambda>u. u_user_id u \<noteq> JNull) (user_table_select w)"
    and w': "w' = w\<lparr>dw_users := dw_users w @ user_table_select w\<rparr>"
    by (simp_all add: user_table_insert_Inr)
  have "\<forall>e\<in>set (staging_events w). (page_is_next e \<and> se_user_id e \<noteq> JNull) \<longrightarrow>
          \<not> sql_not_in sql_cmp (se_user_id e) (map u_user_id (dw_users w'))"
  proof (rule anti_join_settles [where ks = "map u_user_id (dw_users w)"], intro ballI impI)
    fix e assume e: "e \<in> set (staging_events w)" and p: "page_is_next e \<and> se_user_id e \<noteq> JNull"
      and n: "sql_not_in sql_cmp (se_user_id e) (map u_user_id (dw_users w))"
    then have "user_row_of_event e \<in> set (user_table_select w)"
      by (auto simp: user_table_select_def)
    then show "se_user_id e \<in> set (map u_user_id (dw_users w')) \<and>
               sql_cmp (se_user_id e) (se_user_id e) = Some True"
      using w' p by (force simp: user_row_of_event_def sql_cmp_refl)
  qed (simp add: w')
  then show ?thesis using w' by (simp add: user_table_select_Nil_iff)
qed

lemma song_table_insert_settles:
  assumes "song_table_insert w = Inr w'"
  shows "song_table_select w' = []"
proof -
  from assms have nn: "list_all (\<lambda>s. s_song_id s \<noteq> JNull) (song_table_select w)"
    and w': "w' = w\<lparr>dw_songs := dw_songs w @ song_table_select w\<rparr>"
    by (simp_all add: song_table_insert_Inr)
  have "\<forall>s\<in>set (staging_songs w). True \<longrightarrow>
          \<not> sql_not_in sql_cmp (ss_song_id s) (map s_song_id (dw_songs w'))"
  proof (rule anti_join_settles [where ks = "map s_song_id (dw_songs w)"], intro ballI impI)
    fix s assume s: "s \<in> set (staging_songs w)"
      and n: "sql_not_in sql_cmp (ss_song_id s) (map s_song_id (dw_songs w))"
    then have r: "song_row_of_stage s \<in> set (song_table_select w)"
      by (auto simp: song_table_select_def)
    with nn have "ss_song_id s \<noteq> JNull" by (auto simp: list_all_iff song_row_of_stage_def)
    with r w' show "ss_song_id s \<in> set (map s_song_id (dw_songs w')) \<and>
               sql_cmp (ss_song_id s) (ss_song_id s) = Some True"
      by (force simp: song_row_of_stage_def sql_cmp_refl)
  qed (simp add: w')
  then show ?thesis using w' by (simp add: song_table_select_Nil_iff)
qed

lemma artist_table_insert_settles:
  assumes "artist_table_insert w = Inr w'"
  shows "artist_table_select w' = []"
proof -
  from assms have nn: "list_all (\<lambda>a. a_artist_id a \<noteq> JNull) (artist_table_select w)"
    and w': "w' = w\<lparr>dw_artists := dw_artists w @ artist_table_select w\<rparr>"
    by (simp_all add: artist_table_insert_Inr)
  have "\<forall>s\<in>set (staging_songs w). True \<longrightarrow>
          \<not> sql_not_in sql_cmp (ss_artist_id s) (map a_artist_id (dw_artists w'))"
  proof (rule anti_join_settles [where ks = "map a_artist_id (dw_artists w)"], intro ballI impI)
    fix s assume s: "s \<in> set (staging_songs w)"
      and n: "sql_not_in sql_cmp (ss_artist_id s) (map a_artist_id (dw_artists w))"
    then have r: "artist_row_of_stage s \<in> set (artist_table_select w)"
      by (auto simp: artist_table_select_def)
    with nn have "ss_artist_id s \<noteq> JNull" by (auto simp: list_all_iff artist_row_of_stage_def)
    with r w' show "ss_artist_id s \<in> set (map a_artist_id (dw_artists w')) \<and>
               sql_cmp (ss_artist_id s) (ss_artist_id s) = Some True"
      by (force simp: artist_row_of_stage_def sql_cmp_refl)
  qed (simp add: w')
  then show ?thesis using w' by (simp add: artist_table_select_Nil_iff)
qed

lemma time_table_insert_settles:
  assumes "time_table_insert w = Inr w'"
  shows "time_table_select w' = []"
proof -
  from assms have nn: "list_all (\<lambda>r. r \<noteq> None) (time_table_select w)"
    and w': "w' = w\<lparr>dw_time := dw_time w @ time_table_select w\<rparr>"
    by (simp_all add: time_table_insert_Inr)
  have "\<forall>e\<in>set (staging_events w). page_is_next e \<longrightarrow>
          \<not> sql_not_in ts_cmp (dateadd_ms (se_ts e)) (map (map_option tm_start_time) (dw_time w'))"
  proof (rule anti_join_settles [where ks = "map (map_option tm_start_time) (dw_time w)"], intro ballI impI)
    fix e assume e: "e \<in> set (staging_events w)" and p: "page_is_next e"
      and n: "sql_not_in ts_cmp (dateadd_ms (se_ts e)) (map (map_option tm_start_time) (dw_time w))"
    then have r: "map_option dw_time_row_of_ms (dateadd_ms (se_ts e)) \<in> set (time_table_select w)"
      by (auto simp: time_table_select_def)
    with nn have "dateadd_ms (se_ts e) \<noteq> None" by (auto simp: list_all_iff)
    with r w' show "dateadd_ms (se_ts e) \<in> set (map (map_option tm_start_time) (dw_time w')) \<and>
               ts_cmp (dateadd_ms (se_ts e)) (dateadd_ms (se_ts e)) = Some True"
      by (force simp: option.map_comp o_def)
  qed (simp add: w')
  then show ?thesis using w' by (simp add: time_table_select_Nil_iff)
qed

lemma songplay_sub_mono:
  "set (songplay_sub w se) \<subseteq> set (songplay_sub (w\<lparr>dw_songplays := dw_songplays w @ ps\<rparr>) se)"
  by (auto simp: songplay_sub_def)

lemma songplay_table_insert_settles:
  assumes ins: "songplay_table_insert w = Inr w'"
    and ts: "list_all (\<lambda>e. page_is_next e \<longrightarrow> dateadd_ms (se_ts e) \<noteq> None) (staging_events w)"
  shows "songplay_table_select w' = []"
proof -
  from ins have nn: "list_all songplay_not_null (songplay_table_select w)"
    and w': "w' = w\<lparr>dw_songplays := dw_songplays w @ songplay_table_select w\<rparr>"
    by (simp_all add: songplay_table_insert_Inr)
  have "\<not> sql_not_in sql_cmp (se_user_id se) (songplay_sub w' se)"
    if ss: "ss \<in> set (staging_songs w)" and se: "se \<in> set (staging_events w)"
      and j: "sql_eq (ss_artist_name ss) (se_artist se)" "sql_eq (ss_title ss) (se_song se)"
        "page_is_next se"
    for ss se
  proof (cases "sql_not_in sql_cmp (se_user_id se) (songplay_sub w se)")
    case True
    with ss se j have row: "songplay_row ss se \<in> set (songplay_table_select w)"
      by (auto simp: songplay_table_select_def)
    with nn have "songplay_not_null (songplay_row ss se)" by (simp add: list_all_iff)
    moreover from ts se j(3) have "dateadd_ms (se_ts se) \<noteq> None" by (auto simp: list_all_iff)
    ultimately have "se_user_id se \<in> set (songplay_sub w' se)" using row w'
      by (force simp: songplay_sub_def songplay_row_def songplay_not_null_def sql_eq_refl)
    moreover have "se_user_id se \<noteq> JNull"
      using \<open>songplay_not_null (songplay_row ss se)\<close> by (simp add: songplay_not_null_def songplay_row_def)
    ultimately show ?thesis by (simp add: sql_not_in_member sql_cmp_refl)
  next
    case False
    then show ?thesis using sql_not_in_mono [OF songplay_sub_mono] w' by blast
  qed
  then show ?thesis using w' by (simp add: songplay_table_select_Nil_iff)
qed

lemma select_Nil_cong:
  assumes "set (staging_songs w') = set (staging_songs w)" "set (staging_events w') = set (staging_events w)"
    and "star_tables w' = star_tables w"
  shows "(songplay_table_select w' = []) = (songplay_table_select w = [])"
    and "(user_table_select w' = []) = (user_table_select w = [])"
    and "(song_table_select w' = []) = (song_table_select w = [])"
    and "(artist_table_select w' = []) = (artist_table_select w = [])"
    and "(time_table_select w' = []) = (time_table_select w = [])"
  using assms
  by (simp_all add: star_tables_def songplay_table_select_Nil_iff songplay_sub_def
      user_table_select_Nil_iff song_table_select_Nil_iff artist_table_select_Nil_iff
      time_table_select_Nil_iff)

lemma settled_cong:
  assumes "set (staging_songs w') = set (staging_songs w)" "set (staging_events w') = set (staging_events w)"
    and "star_tables w' = star_tables w"
  shows "settled w' = settled w"
  using select_Nil_cong [OF assms] by (simp add: settled_def)

lemma insert_tables_idle:
  assumes "settled w"
  shows "songplay_table_insert w = Inr w" "user_table_insert w = Inr w" "song_table_insert w = Inr w"
    "artist_table_insert w = Inr w" "time_table_insert w = Inr w"
  using assms
  by (simp_all add: settled_def songplay_table_insert_def user_table_insert_def song_table_insert_def
      artist_table_insert_def time_table_insert_def)

lemma dw_main_settles:
  assumes ok: "dw_main b w = (None, w')"
    and ts: "list_all (\<lambda>e. page_is_next e \<longrightarrow> dateadd_ms (se_ts e) \<noteq> None)
               (staging_events w @ map event_of (log_data b))"
  shows "settled w'"
    and "staging_events w' = staging_events w @ map event_of (log_data b)"
    and "staging_songs w' = staging_songs w @ map song_of (song_data b)"
    and "list_all (\<lambda>s. ss_artist_name s \<noteq> JNull \<and> ss_song_id s \<noteq> JNull) (map song_of (song_data b))"
proof -
  from ok obtain w1 w2 w3 w4 w5 w6 where
    c1: "staging_events_copy (log_data b) w = Inr w1" and c2: "staging_songs_copy (song_data b) w1 = Inr w2"
    and i3: "songplay_table_insert w2 = Inr w3" and i4: "user_table_insert w3 = Inr w4"
    and i5: "song_table_insert w4 = Inr w5" and i6: "artist_table_insert w5 = Inr w6"
    and i7: "time_table_insert w6 = Inr w'"
    unfolding dw_main_None by blast
  from c2 show copy_ok: "list_all (\<lambda>s. ss_artist_name s \<noteq> JNull \<and> ss_song_id s \<noteq> JNull) (map song_of (song_data b))"
    by (simp add: staging_songs_copy_def Let_def split: if_splits)
  from c1 c2 have w2: "staging_events w2 = staging_events w @ map event_of (log_data b)"
      "staging_songs w2 = staging_songs w @ map song_of (song_data b)"
    by (auto simp: staging_events_copy_def staging_songs_copy_def Let_def split: if_splits)
  have sp: "songplay_table_select w3 = []" using songplay_table_insert_settles [OF i3] w2 ts by simp
  have u: "user_table_select w4 = []" by (rule user_table_insert_settles [OF i4])
  have s: "song_table_select w5 = []" by (rule song_table_insert_settles [OF i5])
  have a: "artist_table_select w6 = []" by (rule artist_table_insert_settles [OF i6])
  have t: "time_table_select w' = []" by (rule time_table_insert_settles [OF i7])
  from i3 i4 i5 i6 i7 have u3: "w3 = w2\<lparr>dw_songplays := dw_songplays w2 @ songplay_table_select w2\<rparr>"
      and u4: "w4 = w3\<lparr>dw_users := dw_users w3 @ user_table_select w3\<rparr>"
      and u5: "w5 = w4\<lparr>dw_songs := dw_songs w4 @ song_table_select w4\<rparr>"
      and u6: "w6 = w5\<lparr>dw_artists := dw_artists w5 @ artist_table_select w5\<rparr>"
      and u7: "w' = w6\<lparr>dw_time := dw_time w6 @ time_table_select w6\<rparr>"
    by (simp_all add: songplay_table_insert_Inr user_table_insert_Inr song_table_insert_Inr
        artist_table_insert_Inr time_table_insert_Inr)
  have eqs:
      "staging_events w' = staging_events w2" "staging_songs w' = staging_songs w2"
      "dw_songplays w' = dw_songplays w3" "dw_users w' = dw_users w4" "dw_songs w' = dw_songs w5"
      "dw_artists w' = dw_artists w6"
      "staging_events w6 = staging_events w2" "staging_events w4 = staging_events w2"
      "staging_songs w6 = staging_songs w2" "staging_songs w5 = staging_songs w2"
      "staging_songs w3 = staging_songs w2" "staging_events w3 = staging_events w2"
    by (simp_all add: u3 u4 u5 u6 u7)
  show "staging_events w' = staging_events w @ map event_of (log_data b)"
    and "staging_songs w' = staging_songs w @ map song_of (song_data b)"
    using eqs w2 by simp_all
  show "settled w'"
    unfolding settled_def
    using sp u s a t eqs
    by (simp add: songplay_table_select_Nil_iff songplay_sub_def user_table_select_Nil_iff
        song_table_select_Nil_iff artist_table_select_Nil_iff)
qed

lemma sql_not_in_not_member: "sql_not_in cmp x ys \<Longrightarrow> cmp x x \<noteq> Some False \<Longrightarrow> x \<notin> set ys"
  by (auto simp: sql_not_in_iff)

lemma ts_cmp_self_not_False [simp]: "ts_cmp x x \<noteq> Some False"
  by (cases x) (auto simp: ts_cmp_def)

lemma sql_cmp_self_not_False [simp]: "sql_cmp x x \<noteq> Some False"
  by (cases x) (auto simp: sql_cmp_def sql_eq_refl)

lemma run_query_wf: "run_query b q w = Inr w' \<Longrightarrow> dw_wf w \<Longrightarrow> dw_wf w'"
  by (cases q)
     (auto simp: dw_wf_def staging_events_copy_def staging_songs_copy_def Let_def songplay_table_insert_Inr
        user_table_insert_Inr song_table_insert_Inr artist_table_insert_Inr time_table_insert_Inr
        split: if_splits)

lemma dw_execute_invariant:
  assumes "\<And>q w w'. run_query b q w = Inr w' \<Longrightarrow> P w \<Longrightarrow> P w'" and "P w"
  shows "P (snd (dw_main b w))"
proof -
  have "P (snd (dw_execute b q s))" if "P s" for q s
    using assms(1) [of q s] that by (auto simp: dw_execute_def split: sum.splits)
  then show ?thesis unfolding dw_main_eq by (rule for_each_invariant [where P = P, OF _ assms(2)])
qed

lemma run_query_star_prefix: "run_query b q w' = Inr w'' \<Longrightarrow> star_prefix w w' \<Longrightarrow> star_prefix w w''"
  by (cases q)
     (auto simp: star_prefix_def staging_events_copy_def staging_songs_copy_def Let_def songplay_table_insert_Inr
        user_table_insert_Inr song_table_insert_Inr artist_table_insert_Inr time_table_insert_Inr
        split: if_splits intro: prefix_order.trans)

lemma dw_main_for_each: "dw_main b w = for_each (dw_execute b) (copy_table_queries @ insert_table_queries) w"
  by (simp add: dw_main_def load_staging_tables_def insert_tables_def for_each_append)

lemma time_table_select_fresh:
  "r \<in> set (time_table_select w) \<Longrightarrow> map_option tm_start_time r \<notin> set (map (map_option tm_start_time) (dw_time w))"
  by (auto simp: time_table_select_def option.map_comp o_def option.map_ident dest!: sql_not_in_not_member)

lemma distinct_time_table_select: "distinct (map (map_option tm_start_time) (time_table_select w))"
proof -
  have "inj_on (map_option tm_start_time) (set (time_table_select w))"
    by (auto simp: inj_on_def time_table_select_def option.map_comp o_def option.map_ident)
  then show ?thesis by (simp add: distinct_map time_table_select_def)
qed

lemma run_query_time_distinct:
  assumes "run_query b q w = Inr w'" and "distinct (map (map_option tm_start_time) (dw_time w))"
  shows "distinct (map (map_option tm_start_time) (dw_time w'))"
proof (cases q)
  case TimeTableInsert
  with assms(1) have "dw_time w' = dw_time w @ time_table_select w" by (simp add: time_table_insert_Inr)
  moreover have "set (map (map_option tm_start_time) (dw_time w)) \<inter>
      set (map (map_option tm_start_time) (time_table_select w)) = {}"
    by (auto dest!: time_table_select_fresh simp: image_iff) metis
  ultimately show ?thesis using assms(2) distinct_time_table_select by simp
qed (use assms in \<open>auto simp: staging_events_copy_def staging_songs_copy_def Let_def songplay_table_insert_Inr
       user_table_insert_Inr song_table_insert_Inr artist_table_insert_Inr split: if_splits\<close>)

end
