(* ===== verification/DwSteps.thy ===== *)
theory DwSteps
  imports Warehouse
begin

text \<open>
  The Redshift driver as a state machine: a state is the phase of the statement loop and
  the warehouse; \<open>dw_step\<close> runs one statement of the list.  Its runs are those of the
  functional model: from \<open>Pending qs\<close>, the relation reaches \<open>Done\<close> or \<open>Failed e\<close>
  exactly where \<open>for_each (dw_execute b) qs\<close> returns (\<open>dw_star_for_each\<close>); every state
  it reaches keeps the NOT NULL invariant (\<open>dw_steps_wf\<close>, by rule induction).
\<close>

text \<open>Where the loops of \<open>load_staging_tables\<close> and \<open>insert_tables\<close> are: the statements
  still to run, or finished, or stopped by an exception.\<close>

datatype dw_phase = Pending "query list" | Done | Failed error

text \<open>One statement: \<open>cur.execute(query)\<close> followed by \<open>conn.commit()\<close>, or the
  exception that leaves the warehouse as the last commit left it.\<close>

inductive dw_step :: "bucket \<Rightarrow> dw_phase \<times> dw \<Rightarrow> dw_phase \<times> dw \<Rightarrow> bool" for b where
  step_ok: "run_query b q w = Inr w' \<Longrightarrow> dw_step b (Pending (q # qs), w) (Pending qs, w')"
| step_fail: "run_query b q w = Inl e \<Longrightarrow> dw_step b (Pending (q # qs), w) (Failed e, w)"
| step_done: "dw_step b (Pending [], w) (Done, w)"

text \<open>The final phase of a run that returned \<open>r\<close>.\<close>

fun phase_of_result :: "error option \<Rightarrow> dw_phase" where
  "phase_of_result None = Done"
| "phase_of_result (Some e) = Failed e"

section \<open>Lemmas\<close>

inductive_cases dw_step_ConsE: "dw_step b (Pending (q # qs), w) s"
inductive_cases dw_step_NilE: "dw_step b (Pending [], w) s"
inductive_cases dw_step_DoneE [elim!]: "dw_step b (Done, w) s"
inductive_cases dw_step_FailedE [elim!]: "dw_step b (Failed e, w) s"

lemma dw_final_no_step: "\<not> dw_step b (phase_of_result r, w) s"
  by (cases r) auto

lemma dw_star_final: "(dw_step b)\<^sup>*\<^sup>* (phase_of_result r, w) s \<longleftrightarrow> s = (phase_of_result r, w)"
  by (auto elim: converse_rtranclpE simp: dw_final_no_step)

lemma dw_star_Cons:
  "(dw_step b)\<^sup>*\<^sup>* (Pending (q # qs), w) (phase_of_result r, w') \<longleftrightarrow>
     (case run_query b q w of
        Inl e \<Rightarrow> r = Some e \<and> w' = w
      | Inr w1 \<Rightarrow> (dw_step b)\<^sup>*\<^sup>* (Pending qs, w1) (phase_of_result r, w'))"
proof
  assume "(dw_step b)\<^sup>*\<^sup>* (Pending (q # qs), w) (phase_of_result r, w')"
  then show "case run_query b q w of Inl e \<Rightarrow> r = Some e \<and> w' = w
      | Inr w1 \<Rightarrow> (dw_step b)\<^sup>*\<^sup>* (Pending qs, w1) (phase_of_result r, w')"
  proof (cases rule: converse_rtranclpE)
    case base
    then show ?thesis by (cases r) auto
  next
    case (step s)
    from step(1) have "(\<exists>w1. run_query b q w = Inr w1 \<and> s = (Pending qs, w1)) \<or>
        (\<exists>e. run_query b q w = Inl e \<and> s = (Failed e, w))"
      by (auto elim: dw_step_ConsE)
    then show ?thesis using step(2) dw_star_final [of b "Some _" w] by (cases r) (auto split: sum.splits)
  qed
next
  assume "case run_query b q w of Inl e \<Rightarrow> r = Some e \<and> w' = w
      | Inr w1 \<Rightarrow> (dw_step b)\<^sup>*\<^sup>* (Pending qs, w1) (phase_of_result r, w')"
  then show "(dw_step b)\<^sup>*\<^sup>* (Pending (q # qs), w) (phase_of_result r, w')"
    by (auto split: sum.splits intro: converse_rtranclp_into_rtranclp step_ok step_fail)
qed

lemma dw_star_for_each:
  "(dw_step b)\<^sup>*\<^sup>* (Pending qs, w) (phase_of_result r, w') \<longleftrightarrow> for_each (dw_execute b) qs w = (r, w')"
proof (induction qs arbitrary: w)
  case Nil
  show ?case
    by (cases r) (auto elim!: converse_rtranclpE dw_step_NilE intro: step_done)
next
  case (Cons q qs)
  then show ?case
    by (simp add: dw_star_Cons dw_for_each del: for_each.simps(2) split: sum.splits) auto
qed

lemma dw_steps_wf:
  "(dw_step b)\<^sup>*\<^sup>* (p, w) (p', w') \<Longrightarrow> dw_wf w \<Longrightarrow> dw_wf w'"
  by (induction rule: rtranclp_induct2) (auto elim: dw_step.cases intro: run_query_wf)

end
