(* ===== verification/WarehouseProps.thy ===== *)
theory WarehouseProps
  imports DwSteps
begin

text \<open>
  The properties of the Redshift pipeline (\<open>DataWarehouse/etl.py\<close> with
  \<open>sql_queries.py\<close>): rerunning it changes no star table (C12), the songplay
  anti-join's effective key (C13), where each songplay comes from (C14), unique time
  rows (C17), where a failing run stops (C18) and the range of the \<open>smallint\<close> time
  columns (C19).  The NULL-freedom of the constrained columns, the growth of the star
  tables and the driver's step relation are proved too; they follow from the engine's
  semantics of \<open>INSERT\<close> and of the statement loop, whatever the queries say.  The scenarios that show the divergences from the design are in the root theory.
\<close>

text \<open>C12: Running the Redshift \<open>main\<close> a second time on the same S3 data raises nothing
  and leaves every star table exactly as the first successful run left it (the staging
  tables grow, the anti-joins skip every row), provided every NextSong event carries an
  integer \<open>ts\<close>.\<close>

theorem dw_main_idempotent:
  assumes ok: "dw_main b w = (None, w')"
    and ts: "list_all (\<lambda>e. page_is_next e \<longrightarrow> dateadd_ms (se_ts e) \<noteq> None)
               (staging_events w @ map event_of (log_data b))"
  shows "fst (dw_main b w') = None \<and> star_tables (snd (dw_main b w')) = star_tables w'"
proof -
  note st = dw_main_settles [OF ok ts]
  define v where "v = w'\<lparr>staging_events := staging_events w' @ map event_of (log_data b),
                         staging_songs := staging_songs w' @ map song_of (song_data b)\<rparr>"
  have "set (staging_events v) = set (staging_events w')" "set (staging_songs v) = set (staging_songs w')"
       "star_tables v = star_tables w'"
    using st(2,3) by (auto simp: v_def star_tables_def)
  then have "settled v" using settled_cong st(1) by blast
  then have "dw_main b w' = (None, v)"
    unfolding dw_main_None using insert_tables_idle [of v] st(4)
    by (simp add: staging_events_copy_def staging_songs_copy_def v_def)
  then show ?thesis by (simp add: v_def star_tables_def)
qed

text \<open>C13: The songplay anti-join compares \<open>s.start_time\<close> with itself, so it is keyed on
  the user and the session only: a row \<open>songplay_table_insert\<close> adds never shares its
  user_id and session_id with a songplay already in the table that has a start_time,
  whatever the start times are.\<close>

theorem songplay_table_select_skips_session:
  assumes "p \<in> set (songplay_table_select w)" and "q \<in> set (dw_songplays w)"
    and "sp_start_time q \<noteq> None"
  shows "\<not> (sql_eq (sp_user_id q) (sp_user_id p) \<and> sql_eq (sp_session_id q) (sp_session_id p))"
proof
  assume eq: "sql_eq (sp_user_id q) (sp_user_id p) \<and> sql_eq (sp_session_id q) (sp_session_id p)"
  from assms(1) obtain ss se where p: "p = songplay_row ss se"
    and n: "sql_not_in sql_cmp (se_user_id se) (songplay_sub w se)"
    by (auto simp: songplay_table_select_def)
  from eq p assms(2,3) have "sp_user_id q \<in> set (songplay_sub w se)"
    by (force simp: songplay_sub_def songplay_row_def)
  moreover from eq p have "sql_eq (se_user_id se) (sp_user_id q)"
    by (simp add: songplay_row_def sql_eq_sym)
  then have "sql_cmp (se_user_id se) (sp_user_id q) = Some True"
    by (auto simp: sql_cmp_def)
  ultimately show False using n by (auto simp: sql_not_in_iff)
qed

text \<open>C14: Every songplay a successful Redshift run adds joins a staged song to a staged
  NextSong event with the same artist name and the same title, and takes its columns
  from them (\<open>songplay_table_insert\<close>, lines 68-73); the staged rows include those of
  earlier runs, as the staging tables are never emptied.\<close>

theorem dw_main_songplays_from_staging:
  assumes "dw_main b w = (None, w')" and "p \<in> set (dw_songplays w')" and "p \<notin> set (dw_songplays w)"
  shows "\<exists>ss\<in>set (staging_songs w'). \<exists>se\<in>set (staging_events w').
    sql_eq (ss_artist_name ss) (se_artist se) \<and> sql_eq (ss_title ss) (se_song se) \<and>
    page_is_next se \<and> p = songplay_row ss se"
proof -
  obtain w1 w2 w3 w4 w5 w6 where
    c1: "staging_events_copy (log_data b) w = Inr w1" and c2: "staging_songs_copy (song_data b) w1 = Inr w2" and
    i3: "songplay_table_insert w2 = Inr w3" and i4: "user_table_insert w3 = Inr w4" and
    i5: "song_table_insert w4 = Inr w5" and i6: "artist_table_insert w5 = Inr w6" and
    i7: "time_table_insert w6 = Inr w'"
    using assms(1) unfolding dw_main_None by blast
  have sp: "dw_songplays w2 = dw_songplays w"
    using c1 c2 by (auto simp: staging_events_copy_def staging_songs_copy_def Let_def split: if_splits)
  have st: "staging_songs w' = staging_songs w2" "staging_events w' = staging_events w2"
    "dw_songplays w' = dw_songplays w2 @ songplay_table_select w2"
    using i3 i4 i5 i6 i7 by (auto simp: songplay_table_insert_Inr user_table_insert_Inr song_table_insert_Inr
        artist_table_insert_Inr time_table_insert_Inr)
  have "p \<in> set (songplay_table_select w2)" using assms(2,3) st(3) sp by simp
  then show ?thesis unfolding st(1,2) by (auto simp: songplay_table_select_def)
qed


text \<open>The Redshift \<open>main\<close> keeps the NOT NULL and primary-key columns of the staging
  and star tables free of NULL, whether it completes or raises; in particular every
  songplay it stores has a song_id and an artist_id.\<close>

theorem dw_main_wf: "dw_wf w \<Longrightarrow> dw_wf (snd (dw_main b w))"
  by (rule dw_execute_invariant [where P = dw_wf]) (auto intro: run_query_wf)

text \<open>The Redshift \<open>main\<close> never changes or removes a row of a star table: each table
  after a run extends the table before it.  An existing user row is never updated.\<close>

theorem dw_main_append_only: "star_prefix w (snd (dw_main b w))"
  by (rule dw_execute_invariant [where P = "star_prefix w"])
     (erule run_query_star_prefix, assumption, simp add: star_prefix_def)

text \<open>C17: The time table keeps one row per start_time: if its start times are distinct
  before a run of \<open>main\<close>, they are distinct after it.\<close>

theorem dw_main_time_distinct:
  "distinct (map (map_option tm_start_time) (dw_time w)) \<Longrightarrow>
   distinct (map (map_option tm_start_time) (dw_time (snd (dw_main b w))))"
  by (rule dw_execute_invariant) (erule run_query_time_distinct, assumption+)

text \<open>C18: When the Redshift \<open>main\<close> raises, the exception is that of one statement of
  \<open>copy_table_queries @ insert_table_queries\<close>; the warehouse is then the state
  the statements before it committed, and no later statement ran.\<close>

theorem dw_main_first_error:
  assumes "dw_main b w = (Some e, w')"
  shows "\<exists>pre q post. copy_table_queries @ insert_table_queries = pre @ q # post \<and>
           for_each (dw_execute b) pre w = (None, w') \<and> run_query b q w' = Inl e"
  using assms unfolding dw_main_for_each
  by (rule for_each_atomic_Some [of "dw_execute b" "run_query b", OF dw_execute_def])

text \<open>C19: For every timestamp from the epoch up to 9 * 10^14 ms (year 30 489), the time
  row \<open>time_table_insert\<close> computes fits the \<open>smallint\<close> columns of \<open>time_table_create\<close>:
  the insert cannot fail by range for such timestamps (it does for larger ones, whose
  year exceeds 32767).\<close>

theorem dw_time_row_fits_smallint:
  assumes "0 \<le> ms" and "ms < 900000000000000"
  shows "time_row_fits (Some (dw_time_row_of_ms ms))"
proof -
  obtain y doy where yd: "year_and_day (ms div 86400000) = (y, doy)" by fastforce
  obtain m d where md: "month_and_day (month_lengths y) 1 doy = (m, d)" by fastforce
  have v: "valid_date y m d" using timestamp_of_ms_date [OF yd md] by simp
  have "ms div 86400000 \<le> 899999999999999 div 86400000"
    using assms by (intro zdiv_mono1) simp_all
  then have days: "0 \<le> ms div 86400000" "ms div 86400000 \<le> 10416666"
    using assms by simp_all
  from year_and_day_range [OF yd days(1)] have "1970 \<le> y" "365 * (y - 1970) \<le> ms div 86400000"
    by simp_all
  moreover have "365 * (y - 1970) \<le> 10416666 \<Longrightarrow> y \<le> 30509" by simp
  ultimately have y: "1970 \<le> y" "y \<le> 30509" using days(2) by simp_all
  from v have m: "1 \<le> m" "m \<le> 12" "1 \<le> d" "d \<le> month_lengths y ! nat (m - 1)"
    by (simp_all add: valid_date_def)
  then have "month_lengths y ! nat (m - 1) \<in> set (month_lengths y)" by (intro nth_mem) simp
  with m(4) have "d \<le> 31" using month_lengths_le_31 by fastforce
  moreover have "1 \<le> iso_week y doy ((ms div 86400000 + 3) mod 7)"
    "iso_week y doy ((ms div 86400000 + 3) mod 7) \<le> 53" using iso_week_range by simp_all
  moreover have "0 \<le> (ms div 86400000 + 4) mod 7" "(ms div 86400000 + 4) mod 7 \<le> 6" by simp_all
  moreover note ms_of_day_bounds(1) [of ms]
  moreover have "dw_time_row_of_ms ms =
      \<lparr>tm_start_time = ms, tm_hour = ms mod 86400000 div 3600000, tm_day = d,
       tm_week = iso_week y doy ((ms div 86400000 + 3) mod 7), tm_month = m, tm_year = y,
       tm_weekday = (ms div 86400000 + 4) mod 7\<rparr>"
    by (simp add: dw_time_row_of_ms_def timestamp_of_ms_eq [OF yd md] dt_week_def dt_weekday_def sql_dow_def)
  ultimately show ?thesis
    using y m(1,2,3) unfolding time_row_fits_def smallint_ok_def by simp
qed

text \<open>The Redshift \<open>main\<close> is the statement loop of the step relation: from the
  phase \<open>Pending (copy_table_queries @ insert_table_queries)\<close>, the relation reaches the
  final phase of a result \<open>r\<close> with warehouse \<open>w'\<close> exactly when \<open>dw_main\<close> returns
  \<open>(r, w')\<close>; a completed run ends in \<open>Done\<close>, a failed one in \<open>Failed e\<close>.\<close>

theorem dw_main_refines_steps:
  "(dw_step b)\<^sup>*\<^sup>* (Pending (copy_table_queries @ insert_table_queries), w) (phase_of_result r, w') \<longleftrightarrow>
   dw_main b w = (r, w')"
  by (simp add: dw_star_for_each dw_main_for_each)

end
