(* ===== verification/Spark.thy ===== *)
theory Spark
  imports Rdbms
begin

text \<open>
  The Spark data lake: \<open>Spark/Data_Lake_Spark/etl.py\<close>.  \<open>process_song_data\<close> reads the
  song files, writes \<open>songs_table\<close> (partitioned by year and artist) and \<open>artist_table\<close>;
  \<open>process_log_data\<close> reads the log files, writes \<open>users_table\<close> (NextSong events,
  without duplicate rows), computes \<open>start_time\<close> with a Python UDF, writes \<open>time_table\<close>
  from every event, reads \<open>songs_table\<close> back, joins the events to it on the song title
  and writes \<open>songplays_table\<close>.  Every write is in overwrite mode with the default static
  partition overwrite: it replaces the whole table directory.  The lake is a record with
  one optional table per output path (\<open>None\<close>: no such path yet).  A frame read from JSON
  lines is the record parser's frame (a column per key of any line, NULL where a line
  lacks it); \<open>select\<close> of a missing column raises \<open>AnalysisException\<close> when the plan is
  built, \<open>df.page\<close> and friends raise \<open>AttributeError\<close>; the UDF runs at the first action
  after it (\<open>df.show()\<close>), before \<open>time_table\<close> is written.  \<open>datetime.fromtimestamp\<close>
  uses the executor's local time zone, a fixed offset \<open>tz\<close> in milliseconds here (no
  daylight saving); Spark reads \<open>start_time\<close> back in the same zone, so the time
  columns are the wall-clock fields of \<open>ts + tz\<close>.
\<close>

section \<open>The lake\<close>

text \<open>\<open>songplays_table\<close> rows: the songplay columns, the song's \<open>year\<close> and the play's
  \<open>month\<close> (its partition columns); \<open>monotonically_increasing_id\<close> is left out.\<close>

record lake_songplay = songplay +
  lsp_year :: jval
  lsp_month :: int

record lake =
  songs_table :: "song_row list option"
  artist_table :: "artist_row list option"
  users_table :: "user_row list option"
  time_table :: "time_row list option"
  songplays_table :: "lake_songplay list option"

section \<open>DataFrame operations\<close>

text \<open>\<open>df.select(cols)\<close>: the plan is analysed at once; a missing column raises.\<close>

definition analysis_error :: "frame \<Rightarrow> string list \<Rightarrow> error option" where
  "analysis_error df cs = (case missing_cols df cs of [] \<Rightarrow> None | c # _ \<Rightarrow> Some (AnalysisException c))"

text \<open>\<open>df.col\<close> as an attribute: a missing column raises \<open>AttributeError\<close>.\<close>

definition df_attr_error :: "frame \<Rightarrow> string \<Rightarrow> error option" where
  "df_attr_error df c = (if c \<in> set (fcols df) then None else Some (AttributeError c))"

text \<open>Python's \<open>int(x)\<close> on a string: an optional minus sign and decimal digits.\<close>

fun digits_val :: "int \<Rightarrow> char list \<Rightarrow> int option" where
  "digits_val acc [] = Some acc"
| "digits_val acc (c # cs) =
     (let d = (of_char c :: int) - 48 in if 0 \<le> d \<and> d \<le> 9 then digits_val (10 * acc + d) cs else None)"

definition parse_int :: "string \<Rightarrow> int option" where
  "parse_int s =
     (case s of
        [] \<Rightarrow> None
      | c # cs \<Rightarrow> if c = CHR ''-'' then (if cs = [] then None else map_option uminus (digits_val 0 cs))
                  else digits_val 0 s)"

text \<open>The UDF \<open>str(datetime.fromtimestamp(int(x)/1000))\<close>, read back by Spark as a
  timestamp of the local zone: the local wall-clock time of \<open>ts\<close>, in milliseconds.
  \<open>int\<close> truncates a float toward zero and fails on NULL (\<open>TypeError\<close>) and on a string
  that is not an integer (\<open>ValueError\<close>).\<close>

fun udf_local_ms :: "int \<Rightarrow> jval \<Rightarrow> error + int" where
  "udf_local_ms tz (JInt i) = Inr (i + tz)"
| "udf_local_ms tz (JFloat q) = Inr ((if 0 \<le> q then \<lfloor>q\<rfloor> else \<lceil>q\<rceil>) + tz)"
| "udf_local_ms tz (JBool b) = Inr ((if b then 1 else 0) + tz)"
| "udf_local_ms tz (JStr s) =
     (case parse_int s of Some i \<Rightarrow> Inr (i + tz) | None \<Rightarrow> Inl (PythonException ''ValueError''))"
| "udf_local_ms tz JNull = Inl (PythonException ''TypeError'')"

text \<open>The UDF over a column: the first failing row's exception.\<close>

fun udf_column :: "int \<Rightarrow> jval list \<Rightarrow> error + int list" where
  "udf_column tz [] = Inr []"
| "udf_column tz (v # vs) =
     (case udf_local_ms tz v of
        Inl e \<Rightarrow> Inl e
      | Inr t \<Rightarrow> (case udf_column tz vs of Inl e \<Rightarrow> Inl e | Inr ts \<Rightarrow> Inr (t # ts)))"

text \<open>The columns of \<open>time_table\<close>: \<open>hour\<close>, \<open>dayofmonth\<close>, \<open>weekofyear\<close> (ISO),
  \<open>month\<close>, \<open>year\<close> and \<open>dayofweek\<close> (Sunday = 1) of the local time.\<close>

definition spark_time_row :: "int \<Rightarrow> time_row" where
  "spark_time_row local =
     (let t = timestamp_of_ms local
      in \<lparr>tm_start_time = local, tm_hour = t_hour t, tm_day = t_day t, tm_week = dt_week t,
          tm_month = t_month t, tm_year = t_year t, tm_weekday = spark_dayofweek t\<rparr>)"

section \<open>process_song_data\<close>

definition process_song_data :: "jobj list \<Rightarrow> (error, lake) act" where
  "process_song_data ls lk =
     (let df = frame_of_lines ls
      in case analysis_error df song_cols of
           Some e \<Rightarrow> (Some e, lk)
         | None \<Rightarrow>
             (let lk1 = lk\<lparr>songs_table := Some (map song_row_of (frows df))\<rparr>
              in case analysis_error df artist_cols of
                   Some e \<Rightarrow> (Some e, lk1)
                 | None \<Rightarrow> (None, lk1\<lparr>artist_table := Some (map artist_row_of (frows df))\<rparr>)))"

section \<open>process_log_data\<close>

text \<open>\<open>df.join(song_df, df.song == song_df.title)\<close>: an inner join, nested-loop order.\<close>

definition title_join :: "(jobj \<times> int) list \<Rightarrow> song_row list \<Rightarrow> ((jobj \<times> int) \<times> song_row) list" where
  "title_join evs catalog = [(e, s). e \<leftarrow> evs, s \<leftarrow> catalog, sql_eq (cell (fst e) ''song'') (s_title s)]"

definition lake_songplay_of :: "(jobj \<times> int) \<times> song_row \<Rightarrow> lake_songplay" where
  "lake_songplay_of es =
     (let r = fst (fst es); local = snd (fst es); s = snd es
      in \<lparr>sp_start_time = Some local, sp_user_id = cell r ''userId'', sp_level = cell r ''level'',
          sp_song_id = s_song_id s, sp_artist_id = s_artist_id s, sp_session_id = cell r ''sessionId'',
          sp_location = cell r ''location'', sp_user_agent = cell r ''userAgent'',
          lsp_year = s_year s, lsp_month = t_month (timestamp_of_ms local)\<rparr>)"

text \<open>The steps after the users table: the UDF, the time table, the read-back of
  \<open>songs_table\<close>, the join and the songplays table.\<close>

definition log_time_and_songplays :: "int \<Rightarrow> frame \<Rightarrow> (error, lake) act" where
  "log_time_and_songplays tz df lk =
     (case df_attr_error df ''ts'' of
        Some e \<Rightarrow> (Some e, lk)
      | None \<Rightarrow>
          (case udf_column tz (map (\<lambda>r. cell r ''ts'') (frows df)) of
             Inl e \<Rightarrow> (Some e, lk)
           | Inr locals \<Rightarrow>
               (let lk1 = lk\<lparr>time_table := Some (map spark_time_row locals)\<rparr>
                in case songs_table lk1 of
                     None \<Rightarrow> (Some (AnalysisException ''songs_table''), lk1)
                   | Some catalog \<Rightarrow>
                       (case df_attr_error df ''song'' of
                          Some e \<Rightarrow> (Some e, lk1)
                        | None \<Rightarrow>
                            (case analysis_error df play_cols of
                               Some e \<Rightarrow> (Some e, lk1)
                             | None \<Rightarrow>
                                 (None, lk1\<lparr>songplays_table := Some (map lake_songplay_of
                                    (title_join (zip (frows df) locals) catalog))\<rparr>))))))"

definition process_log_data :: "int \<Rightarrow> jobj list \<Rightarrow> (error, lake) act" where
  "process_log_data tz ls lk =
     (let df = frame_of_lines ls
      in case df_attr_error df ''page'' of
           Some e \<Rightarrow> (Some e, lk)
         | None \<Rightarrow>
             (case analysis_error df user_cols of
                Some e \<Rightarrow> (Some e, lk)
              | None \<Rightarrow>
                  log_time_and_songplays tz df
                    (lk\<lparr>users_table := Some (remdups (map user_row_of (filter is_next_song (frows df))))\<rparr>)))"

definition spark_main :: "int \<Rightarrow> jobj list \<Rightarrow> jobj list \<Rightarrow> (error, lake) act" where
  "spark_main tz song_lines log_lines =
     then_act (process_song_data song_lines) (process_log_data tz log_lines)"

section \<open>Lemmas\<close>

lemma process_song_data_None:
  "process_song_data ls lk = (None, lk') \<longleftrightarrow>
     analysis_error (frame_of_lines ls) song_cols = None \<and> analysis_error (frame_of_lines ls) artist_cols = None \<and>
     lk' = lk\<lparr>songs_table := Some (map song_row_of ls), artist_table := Some (map artist_row_of ls)\<rparr>"
  by (auto simp: process_song_data_def Let_def split: option.splits)

lemma process_log_data_None:
  "process_log_data tz ls lk = (None, lk') \<longleftrightarrow>
     df_attr_error (frame_of_lines ls) ''page'' = None \<and> analysis_error (frame_of_lines ls) user_cols = None \<and>
     df_attr_error (frame_of_lines ls) ''ts'' = None \<and> df_attr_error (frame_of_lines ls) ''song'' = None \<and>
     analysis_error (frame_of_lines ls) play_cols = None \<and> songs_table lk \<noteq> None \<and>
     (\<exists>locals. udf_column tz (map (\<lambda>r. cell r ''ts'') ls) = Inr locals \<and>
        lk' = lk\<lparr>users_table := Some (remdups (map user_row_of (filter is_next_song ls))),
                 time_table := Some (map spark_time_row locals),
                 songplays_table := Some (map lake_songplay_of (title_join (zip ls locals) (the (songs_table lk))))\<rparr>)"
  by (auto simp: process_log_data_def log_time_and_songplays_def Let_def split: option.splits sum.splits)

lemma process_song_data_Some:
  "process_song_data ls lk = (Some e, lk') \<Longrightarrow>
     analysis_error (frame_of_lines ls) song_cols \<noteq> None \<or> analysis_error (frame_of_lines ls) artist_cols \<noteq> None"
  by (auto simp: process_song_data_def Let_def split: option.splits)

lemma udf_column_Inr:
  "udf_column tz vs = Inr ts \<Longrightarrow> list_all2 (\<lambda>v t. udf_local_ms tz v = Inr t) vs ts"
  by (induction vs arbitrary: ts) (auto split: sum.splits)

lemma analysis_error_None_iff: "analysis_error df cs = None \<longleftrightarrow> set cs \<subseteq> set (fcols df)"
proof -
  have "analysis_error df cs = None \<longleftrightarrow> missing_cols df cs = []"
    by (simp add: analysis_error_def split: list.split)
  then show ?thesis by (simp add: require_cols_None_iff [symmetric] require_cols_def)
qed

lemma set_title_join:
  "x \<in> set (title_join evs catalog) \<longleftrightarrow>
     fst x \<in> set evs \<and> snd x \<in> set catalog \<and> sql_eq (cell (fst (fst x)) ''song'') (s_title (snd x))"
  by (cases x) (auto simp: title_join_def)

lemma spark_main_None:
  "spark_main tz song_lines log_lines lk = (None, lk') \<longleftrightarrow>
     (\<exists>lk1. process_song_data song_lines lk = (None, lk1) \<and> process_log_data tz log_lines lk1 = (None, lk'))"
  by (auto simp: spark_main_def then_act_def split: prod.splits option.splits)

lemma users_table_log_time_and_songplays [simp]:
  "users_table (snd (log_time_and_songplays tz df lk)) = users_table lk"
  by (simp add: log_time_and_songplays_def Let_def split: option.splits sum.splits)

end
