(* ===== verification/SparkProps.thy ===== *)
theory SparkProps
  imports Spark
begin

text \<open>
  The properties of the Spark data lake (\<open>Data_Lake_Spark/etl.py\<close>): overwrite
  semantics (C20), the unfiltered time table (C21), the title join (C23) and the users
  table (C25).  The scenarios that show the divergences from the design are in the root
  theory.
\<close>

text \<open>C20: Every table the Spark \<open>main\<close> writes is written in overwrite mode: once a run
  succeeds, what it returns does not depend on the lake it started from.  Rerunning it on
  the same input therefore gives the same lake, and nothing of an earlier run survives.\<close>

theorem spark_main_overwrites:
  assumes "fst (spark_main tz song_lines log_lines lk) = None"
  shows "spark_main tz song_lines log_lines lk' = spark_main tz song_lines log_lines lk"
  using assms
  by (cases "spark_main tz song_lines log_lines lk")
     (auto simp: spark_main_def then_act_def process_song_data_None process_log_data_None
        dest: process_song_data_Some split: prod.splits option.splits)

text \<open>C21: \<open>time_table\<close> is built from every event of the log files, not only the NextSong
  ones, and without removing duplicates: a successful \<open>process_log_data\<close> writes exactly
  one time row per log line, in order, whose start time is the UDF's local time of its
  \<open>ts\<close>.\<close>

theorem process_log_data_time_rows:
  assumes "process_log_data tz ls lk = (None, lk')"
  shows "\<exists>ts. time_table lk' = Some ts \<and> length ts = length ls \<and>
           (\<forall>i < length ls. udf_local_ms tz (cell (ls ! i) ''ts'') = Inr (tm_start_time (ts ! i)))"
proof -
  from assms obtain locals where u: "udf_column tz (map (\<lambda>r. cell r ''ts'') ls) = Inr locals"
    and t: "time_table lk' = Some (map spark_time_row locals)"
    unfolding process_log_data_None by auto
  from u have "list_all2 (\<lambda>v t. udf_local_ms tz v = Inr t) (map (\<lambda>r. cell r ''ts'') ls) locals"
    by (rule udf_column_Inr)
  then have "length locals = length ls \<and> (\<forall>i < length ls. udf_local_ms tz (cell (ls ! i) ''ts'') = Inr (locals ! i))"
    by (auto simp: list_all2_conv_all_nth)
  with t show ?thesis by (auto simp: spark_time_row_def Let_def)
qed

text \<open>C23: Every songplay the Spark \<open>main\<close> writes joins a log line to a song line whose
  title equals the line's song: its song_id, artist_id and year partition are that
  song's, its user and session the line's.  The artist and the duration are not compared.\<close>

theorem spark_main_songplays_from_catalog:
  assumes "spark_main tz song_lines log_lines lk = (None, lk')"
    and "songplays_table lk' = Some ps" and "p \<in> set ps"
  shows "\<exists>r\<in>set log_lines. \<exists>s\<in>set song_lines.
           sql_eq (cell r ''song'') (cell s ''title'') \<and>
           sp_song_id p = cell s ''song_id'' \<and> sp_artist_id p = cell s ''artist_id'' \<and>
           lsp_year p = cell s ''year'' \<and>
           sp_user_id p = cell r ''userId'' \<and> sp_session_id p = cell r ''sessionId''"
proof -
  from assms(1) obtain locals where
    "songplays_table lk' = Some (map lake_songplay_of
        (title_join (zip log_lines locals) (map song_row_of song_lines)))"
    unfolding spark_main_None process_song_data_None process_log_data_None by auto
  with assms(2,3) obtain e s where
    "p = lake_songplay_of (e, s)" "e \<in> set (zip log_lines locals)" "s \<in> set (map song_row_of song_lines)"
    "sql_eq (cell (fst e) ''song'') (s_title s)"
    by (auto simp: set_title_join)
  then show ?thesis
    by (cases e) (force simp: lake_songplay_of_def song_row_of_def dest: set_zip_leftD)
qed

text \<open>C25: When the log frame has the page and user columns, \<open>process_log_data\<close> writes
  \<open>users_table\<close> before anything can fail: one row per distinct (userId, firstName,
  lastName, gender, level) of the NextSong events, so a user whose level changes has two
  rows.\<close>

theorem process_log_data_users:
  assumes "set (''page'' # user_cols) \<subseteq> set (fcols (frame_of_lines ls))"
  shows "\<exists>us. users_table (snd (process_log_data tz ls lk)) = Some us \<and> distinct us \<and>
           set us = user_row_of ` {r \<in> set ls. is_next_song r}"
proof -
  from assms have "df_attr_error (frame_of_lines ls) ''page'' = None"
      "analysis_error (frame_of_lines ls) user_cols = None"
    by (auto simp: df_attr_error_def analysis_error_None_iff)
  then show ?thesis by (auto simp: process_log_data_def)
qed

end
