(* ===== verification/Discovery.thy ===== *)
theory Discovery
  imports RdbmsPlan "HOL-Library.Multiset" "HOL-Library.Monad_Syntax" "HOL-Library.Sublist"
begin

text \<open>
  File discovery of the Postgres script.  \<open>process_data\<close> (\<open>RDMS_Data_Modelling/etl.py\<close>,
  lines 131-136) builds its file list with
  \<open>for root, dirs, files in os.walk(filepath): files = glob.glob(os.path.join(root,'*.json'))\<close>
  and appends \<open>os.path.abspath(f)\<close> of each match; \<open>main\<close> runs it on \<open>data/song_data\<close>
  and then on \<open>data/log_data\<close>.  The file system is a tree (as in the Unix example of the
  distribution): a directory is the list of its entries in \<open>os.scandir\<close> order, a regular
  file holds the parsed lines \<open>pd.read_json\<close> reads from it; symbolic links are not
  modelled.  \<open>os_state\<close> is the tree with the working directory; relative paths are
  resolved against it.
  \<^item> \<open>walk_loop\<close> is \<open>os.walk\<close> as CPython 3.12 writes it: a loop over an explicit stack of
    paths, popping a path, listing it (a path that is not a directory yields nothing,
    the \<open>onerror=None\<close> default), yielding \<open>(top, dirs, nondirs)\<close> and pushing the
    subdirectories so that the first is visited next.  It is a \<open>partial_function\<close>, so
    that not returning is the value \<open>None\<close>; \<open>walk_loop_terminates\<close> proves it returns on
    every tree by a multiset measure (the depth left below each path of the stack).
    \<open>walk_tree\<close> is the recursive formulation of earlier Python versions.
  \<^item> \<open>glob\<close> is \<open>glob.glob\<close> with its helpers \<open>_iglob\<close>, \<open>_glob0\<close>, \<open>_glob1\<close>: literal
    components are only checked for existence, components with \<open>*\<close>, \<open>?\<close> or \<open>[\<close> are
    matched against the directory listing by \<open>fnmatch\<close>, names starting with a dot are
    skipped unless the pattern starts with one, and a directory part with such
    characters is itself expanded.  \<open>fnmatch\<close> follows \<open>fnmatch.translate\<close>: \<open>*\<close> any
    string, \<open>?\<close> one character, \<open>[...]\<close> a set with ranges split at the hyphens as
    \<open>translate\<close> splits them, empty ranges removed, \<open>!\<close> negating, an unclosed \<open>[\<close> literal.
  \<^item> \<open>process_data_fs\<close> and \<open>etl_main_fs\<close> run \<open>process_data\<close> and \<open>main\<close> of \<open>Rdbms\<close> on the
    discovered paths, reading each file when its turn comes (\<open>load_file\<close>): a
    discovered path that is a directory raises \<open>IsADirectoryError\<close> there.
\<close>

section \<open>The file tree\<close>

type_synonym path = "string list"

datatype 'a fs_node = FileN 'a | DirN "(string \<times> 'a fs_node) list"

record 'a os_state =
  fs_root :: "'a fs_node"
  fs_cwd :: path

primrec fs_lookup :: "'a fs_node \<Rightarrow> path \<Rightarrow> 'a fs_node option" where
  "fs_lookup n [] = Some n"
| "fs_lookup n (x # xs) =
     (case n of
        FileN _ \<Rightarrow> None
      | DirN es \<Rightarrow> (case map_of es x of None \<Rightarrow> None | Some c \<Rightarrow> fs_lookup c xs))"

definition os_lookup :: "'a os_state \<Rightarrow> path \<Rightarrow> 'a fs_node option" where
  "os_lookup os p = fs_lookup (fs_root os) (fs_cwd os @ p)"

text \<open>\<open>entry.is_dir()\<close> and \<open>os.scandir(p)\<close>: the entries of a directory, or \<open>None\<close> for
  the \<open>OSError\<close> of a path that is missing or not a directory.\<close>

primrec is_dirnode :: "'a fs_node \<Rightarrow> bool" where
  "is_dirnode (FileN _) = False"
| "is_dirnode (DirN _) = True"

definition scandir :: "'a os_state \<Rightarrow> path \<Rightarrow> (string \<times> 'a fs_node) list option" where
  "scandir os p = (case os_lookup os p of Some (DirN es) \<Rightarrow> Some es | _ \<Rightarrow> None)"

section \<open>\<open>os.walk\<close>\<close>

text \<open>The stack is a list whose head is the top: pushing \<open>reversed(dirs)\<close> onto a Python
  list and popping its last element visits the subdirectories in listing order, as
  prepending them here does.\<close>

partial_function (option) walk_loop ::
  "'a os_state \<Rightarrow> path list \<Rightarrow> (path \<times> string list \<times> string list) list option" where
  "walk_loop os stack =
     (case stack of
        [] \<Rightarrow> Some []
      | topdir # rest \<Rightarrow>
          (case scandir os topdir of
             None \<Rightarrow> walk_loop os rest
           | Some es \<Rightarrow>
               (let dirs = [n. (n, c) \<leftarrow> es, is_dirnode c];
                    nondirs = [n. (n, c) \<leftarrow> es, \<not> is_dirnode c]
                in do {
                     r \<leftarrow> walk_loop os (map (\<lambda>d. topdir @ [d]) dirs @ rest);
                     Some ((topdir, dirs, nondirs) # r)
                   })))"

declare walk_loop.simps [code]

definition os_walk :: "'a os_state \<Rightarrow> path \<Rightarrow> (path \<times> string list \<times> string list) list option" where
  "os_walk os topdir = walk_loop os [topdir]"

text \<open>The recursive walk, the depth of a tree and the measure of the termination proof.\<close>

fun fs_height :: "'a fs_node \<Rightarrow> nat" where
  "fs_height (FileN _) = 0"
| "fs_height (DirN es) = Suc (foldr max (map (\<lambda>(n, c). fs_height c) es) 0)"

fun walk_tree :: "path \<Rightarrow> 'a fs_node \<Rightarrow> (path \<times> string list \<times> string list) list" where
  "walk_tree p (FileN _) = []"
| "walk_tree p (DirN es) =
     (p, [n. (n, c) \<leftarrow> es, is_dirnode c], [n. (n, c) \<leftarrow> es, \<not> is_dirnode c]) #
     concat (map (\<lambda>(n, c). if is_dirnode c then walk_tree (p @ [n]) c else []) es)"

fun names_distinct :: "'a fs_node \<Rightarrow> bool" where
  "names_distinct (FileN _) = True"
| "names_distinct (DirN es) = (distinct (map fst es) \<and> list_all (\<lambda>(n, c). names_distinct c) es)"

definition walk_weight :: "'a os_state \<Rightarrow> path \<Rightarrow> nat" where
  "walk_weight os p = fs_height (fs_root os) - length (fs_cwd os @ p)"

definition walk_at :: "'a os_state \<Rightarrow> path \<Rightarrow> (path \<times> string list \<times> string list) list" where
  "walk_at os p = (case os_lookup os p of Some n \<Rightarrow> walk_tree p n | None \<Rightarrow> [])"


section \<open>\<open>glob.glob\<close> and \<open>fnmatch\<close>\<close>

definition has_magic :: "string \<Rightarrow> bool" where
  "has_magic s = list_ex (\<lambda>c. c = CHR ''*'' \<or> c = CHR ''?'' \<or> c = CHR ''['') s"

definition is_hidden :: "string \<Rightarrow> bool" where
  "is_hidden s = (s \<noteq> [] \<and> hd s = CHR ''.'')"

text \<open>\<open>fnmatch.translate\<close> on a bracket: \<open>bracket_close\<close> finds its closing \<open>]\<close> (a \<open>]\<close>
  right after \<open>[\<close> or \<open>[!\<close> is a member); with a hyphen inside, \<open>dash_scan\<close> cuts the members
  into chunks at the hyphens \<open>translate\<close> finds (never the first character, never
  the character after a cut), \<open>fix_trailing\<close> keeps a final hyphen as a member, and
  \<open>merge_ranges\<close> removes the empty ranges from the right; a range joins the last
  character of a chunk to the first of the next.\<close>

fun find_from :: "char \<Rightarrow> nat \<Rightarrow> string \<Rightarrow> nat option" where
  "find_from c k [] = None"
| "find_from c k (x # xs) =
     (if k = 0 \<and> x = c then Some 0 else map_option Suc (find_from c (k - 1) xs))"

definition bracket_close :: "string \<Rightarrow> nat option" where
  "bracket_close p =
     (let j0 = (if p \<noteq> [] \<and> hd p = CHR ''!'' then 1 else 0);
          j1 = (if j0 < length p \<and> p ! j0 = CHR '']'' then Suc j0 else j0)
      in find_from CHR '']'' j1 p)"

fun dash_scan :: "nat \<Rightarrow> string \<Rightarrow> string \<Rightarrow> string list" where
  "dash_scan k acc [] = [rev acc]"
| "dash_scan k acc (x # xs) =
     (if k = 0 \<and> x = CHR ''-'' then rev acc # dash_scan 2 [] xs
      else dash_scan (k - 1) (x # acc) xs)"

definition fix_trailing :: "string list \<Rightarrow> string list" where
  "fix_trailing cs =
     (if 2 \<le> length cs \<and> last cs = [] then butlast (butlast cs) @ [last (butlast cs) @ ''-''] else cs)"

fun merge_ranges :: "string list \<Rightarrow> string list" where
  "merge_ranges [] = []"
| "merge_ranges (c # cs) =
     (case merge_ranges cs of
        [] \<Rightarrow> [c]
      | d # ds \<Rightarrow>
          if (of_char (hd d) :: nat) < of_char (last c) then (butlast c @ tl d) # ds else c # d # ds)"

fun range_pairs :: "string list \<Rightarrow> (char \<times> char) list" where
  "range_pairs (a # b # cs) = (last a, hd b) # range_pairs (b # cs)"
| "range_pairs _ = []"

definition in_range :: "char \<Rightarrow> char \<times> char \<Rightarrow> bool" where
  "in_range x r = ((of_char (fst r) :: nat) \<le> of_char x \<and> (of_char x :: nat) \<le> of_char (snd r))"

definition bracket_match :: "string \<Rightarrow> char \<Rightarrow> bool" where
  "bracket_match stuff x =
     (let cs = (if CHR ''-'' \<in> set stuff
                then merge_ranges (fix_trailing
                       (dash_scan (if hd stuff = CHR ''!'' then 2 else 1) [] stuff))
                else [stuff]);
          neg = (cs \<noteq> [] \<and> hd cs \<noteq> [] \<and> hd (hd cs) = CHR ''!'');
          lits = (if neg then tl (concat cs) else concat cs);
          hit = (x \<in> set lits \<or> list_ex (in_range x) (range_pairs cs))
      in if neg then \<not> hit else hit)"

fun fnmatch :: "string \<Rightarrow> string \<Rightarrow> bool" where
  "fnmatch [] s = (s = [])"
| "fnmatch (c # p) s =
     (if c = CHR ''*'' then list_ex (\<lambda>i. fnmatch p (drop i s)) [0..<Suc (length s)]
      else if c = CHR ''?'' then s \<noteq> [] \<and> fnmatch p (tl s)
      else if c = CHR ''['' \<and> bracket_close p \<noteq> None then
        s \<noteq> [] \<and> bracket_match (take (the (bracket_close p)) p) (hd s) \<and>
        fnmatch (drop (Suc (the (bracket_close p))) p) (tl s)
      else s \<noteq> [] \<and> hd s = c \<and> fnmatch p (tl s))"

text \<open>\<open>_listdir\<close>, \<open>_glob1\<close>, \<open>_glob0\<close> and \<open>_iglob\<close> of \<open>glob.py\<close>; a pattern is a list of
  path components.\<close>

definition listdir :: "'a os_state \<Rightarrow> path \<Rightarrow> bool \<Rightarrow> string list" where
  "listdir os d dironly =
     (case scandir os d of None \<Rightarrow> [] | Some es \<Rightarrow> [n. (n, c) \<leftarrow> es, \<not> dironly \<or> is_dirnode c])"

definition glob1 :: "'a os_state \<Rightarrow> path \<Rightarrow> string \<Rightarrow> bool \<Rightarrow> string list" where
  "glob1 os d pat dironly =
     filter (fnmatch pat)
       (if is_hidden pat then listdir os d dironly else filter (\<lambda>n. \<not> is_hidden n) (listdir os d dironly))"

definition lexists :: "'a os_state \<Rightarrow> path \<Rightarrow> bool" where
  "lexists os p = (os_lookup os p \<noteq> None)"

definition glob0 :: "'a os_state \<Rightarrow> path \<Rightarrow> string \<Rightarrow> string list" where
  "glob0 os d base = (if lexists os (d @ [base]) then [base] else [])"

function iglob :: "'a os_state \<Rightarrow> path \<Rightarrow> bool \<Rightarrow> path list" where
  "iglob os pat dironly =
     (if pat = [] then []
      else if \<not> list_ex has_magic pat then (if lexists os pat then [pat] else [])
      else if butlast pat = [] then map (\<lambda>n. [n]) (glob1 os [] (last pat) dironly)
      else
        concat (map (\<lambda>d. map (\<lambda>n. d @ [n])
                          (if has_magic (last pat) then glob1 os d (last pat) dironly
                           else glob0 os d (last pat)))
                  (if list_ex has_magic (butlast pat) then iglob os (butlast pat) True
                   else [butlast pat])))"
  by pat_completeness auto
termination by (relation "measure (\<lambda>(os, pat, dironly). length pat)") auto

definition glob :: "'a os_state \<Rightarrow> path \<Rightarrow> path list" where
  "glob os pat = iglob os pat False"

section \<open>The file list of \<open>process_data\<close> and the run over it\<close>

definition discover :: "'a os_state \<Rightarrow> path \<Rightarrow> path list option" where
  "discover os filepath =
     map_option
       (\<lambda>w. concat (map (\<lambda>(dirpath, dirs, files). map (\<lambda>f. fs_cwd os @ f) (glob os (dirpath @ [''*.json'']))) w))
       (os_walk os filepath)"


text \<open>Opening a discovered path (\<open>pd.read_json(filepath, lines=True)\<close>, the first
  statement of \<open>process_song_file\<close> and \<open>process_log_file\<close>).\<close>

definition read_lines :: "jobj list os_state \<Rightarrow> path \<Rightarrow> error + jobj list" where
  "read_lines os f =
     (case fs_lookup (fs_root os) f of
        Some (FileN ls) \<Rightarrow> Inr ls
      | Some (DirN _) \<Rightarrow> Inl (OSError ''IsADirectoryError'')
      | None \<Rightarrow> Inl (OSError ''FileNotFoundError''))"

definition load_file :: "(jobj list \<Rightarrow> (error, db) act) \<Rightarrow> jobj list os_state \<Rightarrow> path \<Rightarrow> (error, db) act" where
  "load_file func os f = (case read_lines os f of Inl e \<Rightarrow> raise e | Inr ls \<Rightarrow> func ls)"

definition process_data_fs ::
  "(jobj list \<Rightarrow> (error, db) act) \<Rightarrow> jobj list os_state \<Rightarrow> path \<Rightarrow> run_state \<Rightarrow> (error option \<times> run_state) option" where
  "process_data_fs func os filepath s =
     map_option (\<lambda>files. process_data (load_file func os) files s) (discover os filepath)"

definition etl_main_fs :: "jobj list os_state \<Rightarrow> run_state \<Rightarrow> (error option \<times> run_state) option" where
  "etl_main_fs os s =
     (case process_data_fs process_song_file os [''data'', ''song_data''] s of
        Some (None, s') \<Rightarrow> process_data_fs process_log_file os [''data'', ''log_data''] s'
      | r \<Rightarrow> r)"


text \<open>What discovery returns on a tree whose names are free of glob characters:
  the non-hidden entries named \<open>*.json\<close> of every directory below the start, files and
  directories alike, in pre-order.\<close>

definition json_name :: "string \<Rightarrow> bool" where
  "json_name m = (\<not> is_hidden m \<and> suffix ''.json'' m)"

fun json_files :: "path \<Rightarrow> 'a fs_node \<Rightarrow> path list" where
  "json_files p (FileN _) = []"
| "json_files p (DirN es) =
     [p @ [m]. (m, c) \<leftarrow> es, json_name m] @
     concat (map (\<lambda>(m, c). if is_dirnode c then json_files (p @ [m]) c else []) es)"

fun names_plain :: "'a fs_node \<Rightarrow> bool" where
  "names_plain (FileN _) = True"
| "names_plain (DirN es) = list_all (\<lambda>(m, c). \<not> has_magic m \<and> names_plain c) es"

section \<open>Lemmas\<close>

subsection \<open>Paths and depth\<close>

lemma fs_lookup_append:
  "fs_lookup n (p @ q) = Option.bind (fs_lookup n p) (\<lambda>m. fs_lookup m q)"
  by (induction p arbitrary: n) (auto split: fs_node.split option.split)

lemma foldr_max_ge: "x \<in> set xs \<Longrightarrow> x \<le> foldr max xs (0::nat)"
  by (induction xs) auto

lemma fs_height_child: "(n, c) \<in> set es \<Longrightarrow> fs_height c < fs_height (DirN es)"
  using foldr_max_ge [of "fs_height c" "map (\<lambda>(n, c). fs_height c) es"] by force

lemma fs_lookup_height: "fs_lookup n p = Some m \<Longrightarrow> length p + fs_height m \<le> fs_height n"
proof (induction p arbitrary: n)
  case Nil
  then show ?case by simp
next
  case (Cons x xs)
  then obtain es c where "n = DirN es" "map_of es x = Some c" "fs_lookup c xs = Some m"
    by (auto split: fs_node.splits option.splits)
  with Cons.IH [of c] fs_height_child [of x c es] show ?case
    by (auto dest: map_of_SomeD)
qed

lemma walk_weight_child:
  assumes "scandir os p = Some es"
  shows "walk_weight os (p @ [d]) < walk_weight os p"
proof -
  from assms have "fs_lookup (fs_root os) (fs_cwd os @ p) = Some (DirN es)"
    by (auto simp: scandir_def os_lookup_def split: option.splits fs_node.splits)
  from fs_lookup_height [OF this] show ?thesis
    by (simp add: walk_weight_def)
qed

lemma mset_less_add_mset:
  "(\<forall>x\<in>set xs. x < a) \<Longrightarrow> mset xs + M < add_mset (a::nat) M"
  using one_step_implies_multp [of "{#a#}" "mset xs" "(<)" M]
  by (simp add: less_multiset_def add.commute)

subsection \<open>Termination of \<open>os.walk\<close>\<close>

lemma walk_loop_Nil: "walk_loop os [] = Some []"
  by (simp add: walk_loop.simps)

lemma walk_loop_skip: "scandir os p = None \<Longrightarrow> walk_loop os (p # rest) = walk_loop os rest"
  by (simp add: walk_loop.simps)

lemma walk_loop_dir:
  "scandir os p = Some es \<Longrightarrow>
   walk_loop os (p # rest) =
     Option.bind (walk_loop os (map (\<lambda>d. p @ [d]) [n. (n, c) \<leftarrow> es, is_dirnode c] @ rest))
       (\<lambda>r. Some ((p, [n. (n, c) \<leftarrow> es, is_dirnode c], [n. (n, c) \<leftarrow> es, \<not> is_dirnode c]) # r))"
  by (subst walk_loop.simps) (simp add: Let_def)

lemma walk_measure_dir:
  "scandir os p = Some es \<Longrightarrow>
   mset (map (walk_weight os) (map (\<lambda>d. p @ [d]) ds @ rest)) <
   mset (map (walk_weight os) (p # rest))"
  using mset_less_add_mset [of "map (walk_weight os) (map (\<lambda>d. p @ [d]) ds)" "walk_weight os p"
      "mset (map (walk_weight os) rest)"]
  by (simp add: walk_weight_child)

lemma walk_measure_skip:
  "mset (map (walk_weight os) rest) < mset (map (walk_weight os) (p # rest))"
  using mset_less_add_mset [of "[]" "walk_weight os p" "mset (map (walk_weight os) rest)"] by simp

text \<open>\<open>walk_loop\<close> returns on every tree and every stack: popping a directory replaces
  its weight on the stack by smaller ones, so the multiset of weights decreases.\<close>

lemma walk_loop_terminates: "\<exists>r. walk_loop os stack = Some r"
proof (induction "mset (map (walk_weight os) stack)" arbitrary: stack
    rule: wfp_induct_rule [OF wfp_less_multiset [OF wfp_on_less]])
  case (1 stack)
  show ?case
  proof (cases stack)
    case Nil
    then show ?thesis by (simp add: walk_loop_Nil)
  next
    case (Cons p rest)
    show ?thesis
    proof (cases "scandir os p")
      case None
      from "1" [unfolded Cons] walk_measure_skip [of os rest p] show ?thesis
        by (simp add: Cons walk_loop_skip [OF None])
    next
      case (Some es)
      let ?ds = "[n. (n, c) \<leftarrow> es, is_dirnode c]"
      from "1" [unfolded Cons] walk_measure_dir [OF Some, of ?ds rest]
      obtain r where "walk_loop os (map (\<lambda>d. p @ [d]) ?ds @ rest) = Some r"
        by blast
      then show ?thesis
        by (simp add: Cons walk_loop_dir [OF Some])
    qed
  qed
qed


subsection \<open>The stack loop is the recursive walk\<close>

lemma names_distinct_lookup:
  "names_distinct n \<Longrightarrow> fs_lookup n p = Some m \<Longrightarrow> names_distinct m"
proof (induction p arbitrary: n)
  case Nil
  then show ?case by simp
next
  case (Cons x xs)
  then obtain es c where "n = DirN es" "map_of es x = Some c" "fs_lookup c xs = Some m"
    by (auto split: fs_node.splits option.splits)
  with Cons show ?case
    by (auto dest!: map_of_SomeD simp: list_all_iff)
qed

lemma fs_lookup_child:
  "fs_lookup n p = Some (DirN es) \<Longrightarrow> distinct (map fst es) \<Longrightarrow> (d, c) \<in> set es \<Longrightarrow>
   fs_lookup n (p @ [d]) = Some c"
  by (simp add: fs_lookup_append)

lemma os_lookup_child:
  assumes "os_lookup os p = Some (DirN es)" "names_distinct (DirN es)" "(d, c) \<in> set es"
  shows "os_lookup os (p @ [d]) = Some c"
  using assms fs_lookup_child [of "fs_root os" "fs_cwd os @ p" es d c]
  by (simp add: os_lookup_def)

lemma concat_map_filter_names:
  "concat (map f [n. (n, c) \<leftarrow> es, P c]) = concat (map (\<lambda>(n, c). if P c then f n else []) es)"
  by (induction es) auto

lemma walk_at_dir:
  assumes "names_distinct (fs_root os)" "scandir os p = Some es"
  shows "walk_at os p =
           (p, [n. (n, c) \<leftarrow> es, is_dirnode c], [n. (n, c) \<leftarrow> es, \<not> is_dirnode c]) #
           concat (map (walk_at os) (map (\<lambda>d. p @ [d]) [n. (n, c) \<leftarrow> es, is_dirnode c]))"
proof -
  have lk: "os_lookup os p = Some (DirN es)"
    using assms(2) by (auto simp: scandir_def split: option.splits fs_node.splits)
  then have nd: "names_distinct (DirN es)"
    using assms(1) names_distinct_lookup by (fastforce simp: os_lookup_def)
  have "concat (map (walk_at os) (map (\<lambda>d. p @ [d]) [n. (n, c) \<leftarrow> es, is_dirnode c])) =
        concat (map (\<lambda>(n, c). if is_dirnode c then walk_tree (p @ [n]) c else []) es)"
    unfolding map_map concat_map_filter_names
    by (rule arg_cong [where f = concat], rule map_cong)
       (auto simp: walk_at_def os_lookup_child [OF lk nd])
  with lk show ?thesis
    by (simp add: walk_at_def)
qed

lemma walk_at_skip: "scandir os p = None \<Longrightarrow> walk_at os p = []"
  by (auto simp: walk_at_def scandir_def split: option.splits fs_node.splits)

lemma walk_loop_eq:
  assumes "names_distinct (fs_root os)"
  shows "walk_loop os stack = Some (concat (map (walk_at os) stack))"
proof (induction "mset (map (walk_weight os) stack)" arbitrary: stack
    rule: wfp_induct_rule [OF wfp_less_multiset [OF wfp_on_less]])
  case (1 stack)
  show ?case
  proof (cases stack)
    case Nil
    then show ?thesis by (simp add: walk_loop_Nil)
  next
    case (Cons p rest)
    show ?thesis
    proof (cases "scandir os p")
      case None
      from "1" [unfolded Cons] walk_measure_skip [of os rest p] show ?thesis
        by (simp add: Cons walk_loop_skip [OF None] walk_at_skip [OF None])
    next
      case (Some es)
      let ?ds = "[n. (n, c) \<leftarrow> es, is_dirnode c]"
      from "1" [unfolded Cons] walk_measure_dir [OF Some, of ?ds rest]
      have "walk_loop os (map (\<lambda>d. p @ [d]) ?ds @ rest) =
              Some (concat (map (walk_at os) (map (\<lambda>d. p @ [d]) ?ds @ rest)))"
        by blast
      then show ?thesis
        by (simp add: Cons walk_loop_dir [OF Some] walk_at_dir [OF assms Some])
    qed
  qed
qed

text \<open>C26: Where the names of every directory are distinct, as on every real file
  system, \<open>os.walk\<close> as a loop over an explicit stack (CPython 3.12) yields the same
  triples in the same order as the recursive walk (earlier versions).\<close>

theorem os_walk_eq_walk_tree:
  "names_distinct (fs_root os) \<Longrightarrow> os_lookup os topdir = Some n \<Longrightarrow>
   os_walk os topdir = Some (walk_tree topdir n)"
  by (simp add: os_walk_def walk_loop_eq walk_at_def)


subsection \<open>Discovery and the run over the discovered files\<close>

lemma process_files_load_file:
  "map (read_lines os) fs = map Inr ls \<Longrightarrow>
   process_files (load_file func os) n i fs s = process_files func n i ls s"
proof (induction fs arbitrary: ls i s)
  case Nil
  then show ?case by simp
next
  case (Cons f fs)
  then obtain l ls' where "ls = l # ls'" "read_lines os f = Inr l" "map (read_lines os) fs = map Inr ls'"
    by (cases ls) auto
  with Cons.IH show ?case
    by (simp add: load_file_def split: prod.split option.split)
qed

lemma process_data_load_file:
  "map (read_lines os) fs = map Inr ls \<Longrightarrow>
   process_data (load_file func os) fs s = process_data func ls s"
  using process_files_load_file [of os fs ls func "length fs"] map_eq_imp_length_eq
  by (fastforce simp: process_data_def)

text \<open>C22: The file discovery of \<open>process_data\<close> returns, for every file tree and start
  path: the \<open>os.walk\<close> loop terminates.\<close>

theorem discover_terminates: "\<exists>files. discover os filepath = Some files"
  using walk_loop_terminates [of os "[filepath]"] by (auto simp: discover_def os_walk_def)

text \<open>When every path discovered under \<open>data/song_data\<close> and \<open>data/log_data\<close> is a
  regular file, \<open>main\<close> over the file tree is \<open>etl_main\<close> over the contents of those files
  in discovery order.\<close>

theorem etl_main_fs_refines:
  assumes "discover os [''data'', ''song_data''] = Some sfs" "map (read_lines os) sfs = map Inr song_lines"
    and "discover os [''data'', ''log_data''] = Some lfs" "map (read_lines os) lfs = map Inr log_lines"
  shows "etl_main_fs os s = Some (etl_main song_lines log_lines s)"
  using assms
  by (simp add: etl_main_fs_def process_data_fs_def etl_main_def then_act_def process_data_load_file
      split: prod.split option.split)


subsection \<open>What discovery finds\<close>

lemma fnmatch_plain: "\<not> has_magic p \<Longrightarrow> fnmatch p s = (s = p)"
proof (induction p arbitrary: s)
  case Nil
  then show ?case by simp
next
  case (Cons c p)
  then have "c \<noteq> CHR ''*''" "c \<noteq> CHR ''?''" "c \<noteq> CHR ''[''" "\<not> has_magic p"
    by (simp_all add: has_magic_def)
  with Cons.IH show ?case
    by (cases s) auto
qed

lemma fnmatch_star_json: "fnmatch ''*.json'' s = suffix ''.json'' s"
proof -
  have plain: "fnmatch ''.json'' t = (t = ''.json'')" for t
    by (rule fnmatch_plain) (simp add: has_magic_def)
  have "fnmatch ''*.json'' s = list_ex (\<lambda>i. fnmatch ''.json'' (drop i s)) [0..<Suc (length s)]"
    by (subst fnmatch.simps(2)) (simp only: simp_thms if_True)
  also have "\<dots> = (\<exists>i<Suc (length s). drop i s = ''.json'')"
    by (simp only: plain list_ex_iff set_upt atLeastLessThan_iff) auto
  also have "\<dots> = suffix ''.json'' s"
  proof
    assume "\<exists>i<Suc (length s). drop i s = ''.json''"
    then show "suffix ''.json'' s"
      by (metis suffix_drop)
  next
    assume "suffix ''.json'' s"
    then obtain zs where "s = zs @ ''.json''"
      by (auto simp: suffix_def)
    then show "\<exists>i<Suc (length s). drop i s = ''.json''"
      by (intro exI [of _ "length zs"]) simp
  qed
  finally show ?thesis .
qed

lemma glob_json_plain:
  assumes "\<not> list_ex has_magic dirpath"
  shows "glob os (dirpath @ [''*.json'']) = map (\<lambda>m. dirpath @ [m]) (filter json_name (listdir os dirpath False))"
proof -
  have "has_magic ''*.json''" "\<not> is_hidden ''*.json''"
    by (simp_all add: has_magic_def is_hidden_def)
  then have "glob1 os dirpath ''*.json'' False = filter json_name (listdir os dirpath False)"
    unfolding json_name_def [abs_def]
    by (simp add: glob1_def fnmatch_star_json conj_commute del: fnmatch.simps)
  with assms \<open>has_magic ''*.json''\<close> show ?thesis
    by (cases "dirpath = []") (simp_all add: glob_def iglob.simps [of os "dirpath @ [''*.json'']"])
qed

lemma map_filter_names:
  "map f (filter P (map fst es)) = [f m. (m, c) \<leftarrow> es, P m]"
  by (induction es) auto

lemma map_concat_names:
  "map g (concat (map (\<lambda>(m, c). if P m then [f m] else []) es)) =
   concat (map (\<lambda>(m, c). if P m then [g (f m)] else []) es)"
  by (induction es) auto

lemma fst_names: "concat (map (\<lambda>(n, c). [n]) es) = map fst es"
  by (induction es) auto

lemma concat_map_walk:
  "concat (map g (concat (map (\<lambda>(m, c). if Q c then h m c else []) es))) =
   concat (map (\<lambda>(m, c). if Q c then concat (map g (h m c)) else []) es)"
  by (induction es) auto

lemma discover_walk_files:
  assumes "names_distinct (fs_root os)" "os_lookup os p = Some n" "names_plain n"
    "\<not> list_ex has_magic p"
  shows "concat (map (\<lambda>w. map (\<lambda>f. fs_cwd os @ f) (glob os (fst w @ [''*.json''])))
           (walk_tree p n)) = json_files (fs_cwd os @ p) n"
  using assms(2-)
proof (induction p n rule: walk_tree.induct)
  case (1 p x)
  then show ?case by simp
next
  case (2 p es)
  have nd: "names_distinct (DirN es)"
    using assms(1) "2.prems"(1) names_distinct_lookup by (fastforce simp: os_lookup_def)
  have sc: "scandir os p = Some es"
    using "2.prems"(1) by (simp add: scandir_def)
  have sub: "concat (map (\<lambda>w. map (\<lambda>f. fs_cwd os @ f) (glob os (fst w @ [''*.json''])))
          (walk_tree (p @ [m]) c)) = json_files (fs_cwd os @ p @ [m]) c"
    if "(m, c) \<in> set es" "is_dirnode c" for m c
    using "2.IH" [OF that(1) refl that(2)] "2.prems" that os_lookup_child [OF "2.prems"(1) nd that(1)]
    by (auto simp: list_all_iff)
  have head: "map (\<lambda>f. fs_cwd os @ f) (glob os (p @ [''*.json''])) =
              [fs_cwd os @ p @ [m]. (m, c) \<leftarrow> es, json_name m]"
    using "2.prems"(3) sc
    by (simp add: glob_json_plain listdir_def fst_names map_filter_names map_concat_names)
  have tail: "concat (map (\<lambda>w. map (\<lambda>f. fs_cwd os @ f) (glob os (fst w @ [''*.json''])))
                (concat (map (\<lambda>(m, c). if is_dirnode c then walk_tree (p @ [m]) c else []) es))) =
              concat (map (\<lambda>(m, c). if is_dirnode c then json_files (fs_cwd os @ p @ [m]) c else []) es)"
    unfolding concat_map_walk
    by (rule arg_cong [where f = concat], rule map_cong) (auto simp: sub)
  have "json_files (fs_cwd os @ p) (DirN es) =
          [fs_cwd os @ p @ [m]. (m, c) \<leftarrow> es, json_name m] @
          concat (map (\<lambda>(m, c). if is_dirnode c then json_files (fs_cwd os @ p @ [m]) c else []) es)"
    by (simp only: json_files.simps append_assoc)
  with head tail show ?case
    by simp
qed

text \<open>C27: On a tree whose names are distinct and free of glob characters,
  \<open>process_data\<close> finds exactly the entries named \<open>*.json\<close> not starting with a dot, of
  the start directory and of every directory below it, hidden directories included,
  in pre-order, as absolute paths.\<close>

theorem discover_json_files:
  assumes "names_distinct (fs_root os)" "os_lookup os p = Some n" "names_plain n"
    "\<not> list_ex has_magic p"
  shows "discover os p = Some (json_files (fs_cwd os @ p) n)"
  using discover_walk_files [OF assms] walk_loop_eq [OF assms(1), of "[p]"] assms(2)
  by (simp add: discover_def os_walk_def walk_at_def split_def)


subsection \<open>The table invariant over a file tree\<close>

lemma process_files_invariant:
  "(\<And>f d. I d \<Longrightarrow> I (snd (func f d))) \<Longrightarrow> I (rdb s) \<Longrightarrow> I (rdb (snd (process_files func n i fs s)))"
proof (induction fs arbitrary: i s)
  case Nil
  then show ?case by simp
next
  case (Cons f fs)
  obtain r d where fd: "func f (rdb s) = (r, d)"
    by (cases "func f (rdb s)")
  have "I d"
    using Cons.prems fd by (metis snd_conv)
  with Cons.IH [OF Cons.prems(1)] fd show ?case
    by (cases r) simp_all
qed

lemma load_file_db_wf:
  "(\<And>ls d. db_wf d \<Longrightarrow> db_wf (snd (func ls d))) \<Longrightarrow> db_wf d \<Longrightarrow> db_wf (snd (load_file func os f d))"
  by (simp add: load_file_def raise_def split: sum.split)

lemma process_data_fs_db_wf:
  assumes "\<And>ls d. db_wf d \<Longrightarrow> db_wf (snd (func ls d))" "db_wf (rdb s)"
  shows "\<exists>r s'. process_data_fs func os p s = Some (r, s') \<and> db_wf (rdb s')"
proof -
  obtain w where "walk_loop os [p] = Some w"
    using walk_loop_terminates by blast
  then obtain files where "discover os p = Some files"
    by (simp add: discover_def os_walk_def)
  moreover have "db_wf (rdb (snd (process_data (load_file func os) files s)))"
    unfolding process_data_def
    by (rule process_files_invariant [where I = db_wf]) (simp_all add: assms load_file_db_wf)
  ultimately show ?thesis
    by (simp add: process_data_fs_def) (metis prod.collapse)
qed

text \<open>For every file tree, \<open>main\<close> over it returns, and from a database whose natural
  keys are unique and non-NULL it leaves such a database, also when a discovered path
  cannot be read and raises.\<close>

theorem etl_main_fs_wf:
  "db_wf (rdb s) \<Longrightarrow> \<exists>r s'. etl_main_fs os s = Some (r, s') \<and> db_wf (rdb s')"
proof -
  assume wf: "db_wf (rdb s)"
  have song: "\<And>ls d. db_wf d \<Longrightarrow> db_wf (snd (process_song_file ls d))"
    by (simp add: process_song_file_plan db_wf_run_plan)
  have log: "\<And>ls d. db_wf d \<Longrightarrow> db_wf (snd (process_log_file ls d))"
    by (simp add: process_log_file_plan db_wf_run_plan)
  obtain r1 s1 where 1: "process_data_fs process_song_file os [''data'', ''song_data''] s = Some (r1, s1)"
      "db_wf (rdb s1)"
    using process_data_fs_db_wf [where func = process_song_file, OF song wf] by blast
  show ?thesis
  proof (cases r1)
    case None
    with 1 process_data_fs_db_wf [where func = process_log_file, OF log 1(2), of os "[''data'', ''log_data'']"]
    show ?thesis
      by (simp add: etl_main_fs_def)
  next
    case (Some e)
    with 1 show ?thesis
      by (simp add: etl_main_fs_def)
  qed
qed

end
