(* ===== verification/Ddl.thy ===== *)
theory Ddl
  imports Warehouse
begin

text \<open>
  The table DDL of \<open>DataWarehouse/sql_queries.py\<close> and the reset that runs it.  The
  module defines a \<open>DROP TABLE IF EXISTS\<close> and a \<open>CREATE TABLE IF NOT EXISTS\<close> statement
  per table (lines 10-48; the columns and constraints the \<open>CREATE\<close>s declare are the
  records and checks of \<open>Warehouse\<close>) and the lists \<open>create_table_queries\<close> (all seven
  tables) and \<open>drop_table_queries\<close> (the five star tables only, lines 107-108).  The
  script that runs them, \<open>create_tables.py\<close>, is not in the sources; it is modelled from
  the design's full reset (drop, then create, each statement committed) and marked
  spec-modelled.  A \<open>cluster\<close> is the warehouse with the set of tables that exist; a
  query of \<open>etl.py\<close> touching a missing table raises \<open>ProgrammingError\<close> (psycopg2's
  \<open>relation does not exist\<close>).
\<close>

section \<open>Statements and lists\<close>

datatype dw_table = StagingEvents | StagingSongs | Songplays | Users | Songs | Artists | Time

primrec table_name :: "dw_table \<Rightarrow> string" where
  "table_name StagingEvents = ''staging_events''"
| "table_name StagingSongs = ''staging_songs''"
| "table_name Songplays = ''songplays''"
| "table_name Users = ''users''"
| "table_name Songs = ''songs''"
| "table_name Artists = ''artists''"
| "table_name Time = ''time''"

text \<open>\<open>DROP TABLE IF EXISTS t\<close> and \<open>CREATE TABLE IF NOT EXISTS t (...)\<close>.\<close>

datatype ddl = DropTableIfExists dw_table | CreateTableIfNotExists dw_table

definition staging_events_table_drop :: ddl where "staging_events_table_drop = DropTableIfExists StagingEvents"
definition staging_songs_table_drop :: ddl where "staging_songs_table_drop = DropTableIfExists StagingSongs"
definition songplay_table_drop :: ddl where "songplay_table_drop = DropTableIfExists Songplays"
definition user_table_drop :: ddl where "user_table_drop = DropTableIfExists Users"
definition song_table_drop :: ddl where "song_table_drop = DropTableIfExists Songs"
definition artist_table_drop :: ddl where "artist_table_drop = DropTableIfExists Artists"
definition time_table_drop :: ddl where "time_table_drop = DropTableIfExists Time"

definition staging_events_table_create :: ddl where "staging_events_table_create = CreateTableIfNotExists StagingEvents"
definition staging_songs_table_create :: ddl where "staging_songs_table_create = CreateTableIfNotExists StagingSongs"
definition songplay_table_create :: ddl where "songplay_table_create = CreateTableIfNotExists Songplays"
definition user_table_create :: ddl where "user_table_create = CreateTableIfNotExists Users"
definition song_table_create :: ddl where "song_table_create = CreateTableIfNotExists Songs"
definition artist_table_create :: ddl where "artist_table_create = CreateTableIfNotExists Artists"
definition time_table_create :: ddl where "time_table_create = CreateTableIfNotExists Time"

definition create_table_queries :: "ddl list" where
  "create_table_queries = [staging_events_table_create, staging_songs_table_create, songplay_table_create,
     user_table_create, song_table_create, artist_table_create, time_table_create]"

definition drop_table_queries :: "ddl list" where
  "drop_table_queries = [songplay_table_drop, user_table_drop, song_table_drop, artist_table_drop, time_table_drop]"

section \<open>Running the statements\<close>

text \<open>The tables of the cluster and their rows.  \<open>IF EXISTS\<close> and \<open>IF NOT EXISTS\<close>
  make both statements total: dropping a missing table and creating an existing one
  do nothing; a created table is empty.\<close>

record cluster =
  present :: "dw_table set"
  cdw :: dw

primrec clear_table :: "dw_table \<Rightarrow> dw \<Rightarrow> dw" where
  "clear_table StagingEvents w = w\<lparr>staging_events := []\<rparr>"
| "clear_table StagingSongs w = w\<lparr>staging_songs := []\<rparr>"
| "clear_table Songplays w = w\<lparr>dw_songplays := []\<rparr>"
| "clear_table Users w = w\<lparr>dw_users := []\<rparr>"
| "clear_table Songs w = w\<lparr>dw_songs := []\<rparr>"
| "clear_table Artists w = w\<lparr>dw_artists := []\<rparr>"
| "clear_table Time w = w\<lparr>dw_time := []\<rparr>"

primrec exec_ddl :: "ddl \<Rightarrow> cluster \<Rightarrow> cluster" where
  "exec_ddl (DropTableIfExists t) c =
     (if t \<in> present c then c\<lparr>present := present c - {t}, cdw := clear_table t (cdw c)\<rparr> else c)"
| "exec_ddl (CreateTableIfNotExists t) c =
     (if t \<in> present c then c else c\<lparr>present := insert t (present c), cdw := clear_table t (cdw c)\<rparr>)"

text \<open>\<open>create_tables.py\<close>: \<open>drop_tables\<close>, \<open>create_tables\<close> and \<open>main\<close>.\<close>

definition drop_tables :: "cluster \<Rightarrow> cluster" where
  "drop_tables c = fold exec_ddl drop_table_queries c"

definition create_tables :: "cluster \<Rightarrow> cluster" where
  "create_tables c = fold exec_ddl create_table_queries c"

definition reset_main :: "cluster \<Rightarrow> cluster" where
  "reset_main c = create_tables (drop_tables c)"

text \<open>The tables each query of \<open>etl.py\<close> names, in the order the SQL parser
  resolves them.\<close>

primrec query_tables :: "query \<Rightarrow> dw_table list" where
  "query_tables StagingEventsCopy = [StagingEvents]"
| "query_tables StagingSongsCopy = [StagingSongs]"
| "query_tables SongplayTableInsert = [Songplays, StagingSongs, StagingEvents]"
| "query_tables UserTableInsert = [Users, StagingEvents]"
| "query_tables SongTableInsert = [Songs, StagingSongs]"
| "query_tables ArtistTableInsert = [Artists, StagingSongs]"
| "query_tables TimeTableInsert = [Time, StagingEvents]"

definition cluster_execute :: "bucket \<Rightarrow> query \<Rightarrow> (error, cluster) act" where
  "cluster_execute b q c =
     (case filter (\<lambda>t. t \<notin> present c) (query_tables q) of
        t # _ \<Rightarrow> (Some (ProgrammingError (table_name t)), c)
      | [] \<Rightarrow> (case dw_execute b q (cdw c) of (r, w) \<Rightarrow> (r, c\<lparr>cdw := w\<rparr>)))"

definition cluster_main :: "bucket \<Rightarrow> (error, cluster) act" where
  "cluster_main b =
     then_act (for_each (cluster_execute b) copy_table_queries) (for_each (cluster_execute b) insert_table_queries)"

text \<open>The seven tables, and the warehouse a reset leaves: star tables empty, a staging
  table emptied only if it did not exist.\<close>

definition all_tables :: "dw_table set" where
  "all_tables = {StagingEvents, StagingSongs, Songplays, Users, Songs, Artists, Time}"

definition reset_dw :: "dw_table set \<Rightarrow> dw \<Rightarrow> dw" where
  "reset_dw P w =
     w\<lparr>staging_events := (if StagingEvents \<in> P then staging_events w else []),
       staging_songs := (if StagingSongs \<in> P then staging_songs w else []),
       dw_songplays := [], dw_users := [], dw_songs := [], dw_artists := [], dw_time := []\<rparr>"

section \<open>Lemmas\<close>

lemma exec_drop:
  "exec_ddl (DropTableIfExists t) c =
     c\<lparr>present := present c - {t}, cdw := (if t \<in> present c then clear_table t (cdw c) else cdw c)\<rparr>"
  by (cases c) auto

lemma exec_create:
  "exec_ddl (CreateTableIfNotExists t) c =
     c\<lparr>present := insert t (present c), cdw := (if t \<in> present c then cdw c else clear_table t (cdw c))\<rparr>"
  by (cases c) (auto simp: insert_absorb)

lemmas ddl_defs = drop_table_queries_def create_table_queries_def
  songplay_table_drop_def user_table_drop_def song_table_drop_def artist_table_drop_def time_table_drop_def
  staging_events_table_create_def staging_songs_table_create_def songplay_table_create_def
  user_table_create_def song_table_create_def artist_table_create_def time_table_create_def

lemma mem_all_tables: "t \<in> all_tables"
  by (cases t) (simp_all add: all_tables_def)

lemma all_tables_UNIV: "all_tables = UNIV"
  using mem_all_tables by auto

lemma clear_table_fields:
  "staging_events (clear_table t w) = (if t = StagingEvents then [] else staging_events w)"
  "staging_songs (clear_table t w) = (if t = StagingSongs then [] else staging_songs w)"
  "dw_songplays (clear_table t w) = (if t = Songplays then [] else dw_songplays w)"
  "dw_users (clear_table t w) = (if t = Users then [] else dw_users w)"
  "dw_songs (clear_table t w) = (if t = Songs then [] else dw_songs w)"
  "dw_artists (clear_table t w) = (if t = Artists then [] else dw_artists w)"
  "dw_time (clear_table t w) = (if t = Time then [] else dw_time w)"
  by (cases t; simp)+

lemma drop_tables_present: "present (drop_tables c) = present c - {Songplays, Users, Songs, Artists, Time}"
  by (simp add: drop_tables_def ddl_defs exec_drop) blast

lemma drop_tables_staging:
  "staging_events (cdw (drop_tables c)) = staging_events (cdw c)"
  "staging_songs (cdw (drop_tables c)) = staging_songs (cdw c)"
  by (simp_all add: drop_tables_def ddl_defs exec_drop clear_table_fields split: if_split)

lemma create_tables_present: "present (create_tables c) = all_tables"
proof -
  have "present (create_tables c) = {StagingEvents, StagingSongs, Songplays, Users, Songs, Artists, Time} \<union> present c"
    by (simp add: create_tables_def ddl_defs exec_create del: exec_ddl.simps) blast
  then show ?thesis
    unfolding all_tables_def [symmetric] using mem_all_tables by blast
qed

lemma create_tables_cdw:
  assumes "Songplays \<notin> present c" "Users \<notin> present c" "Songs \<notin> present c" "Artists \<notin> present c"
    "Time \<notin> present c"
  shows "cdw (create_tables c) = reset_dw (present c) (cdw c)"
  by (rule dw.equality)
     (simp_all add: assms create_tables_def ddl_defs exec_create clear_table_fields reset_dw_def
        del: exec_ddl.simps)

lemma reset_dw_cong:
  assumes "(StagingEvents \<in> P) = (StagingEvents \<in> P')" "(StagingSongs \<in> P) = (StagingSongs \<in> P')"
    "staging_events w = staging_events w'" "staging_songs w = staging_songs w'"
  shows "reset_dw P w = reset_dw P' w'"
  by (rule dw.equality) (simp_all add: assms reset_dw_def)

lemma reset_main_eq:
  "reset_main c = c\<lparr>present := all_tables, cdw := reset_dw (present c) (cdw c)\<rparr>"
proof -
  have "cdw (reset_main c) = reset_dw (present (drop_tables c)) (cdw (drop_tables c))"
    unfolding reset_main_def by (rule create_tables_cdw) (simp_all add: drop_tables_present)
  also have "\<dots> = reset_dw (present c) (cdw c)"
    by (rule reset_dw_cong) (simp_all add: drop_tables_present drop_tables_staging)
  finally show ?thesis
    by (simp add: cluster.equality reset_main_def create_tables_present)
qed

subsection \<open>The ETL run on a cluster\<close>

lemma cluster_execute_present:
  "present c = all_tables \<Longrightarrow>
   cluster_execute b q c = (fst (dw_execute b q (cdw c)), c\<lparr>cdw := snd (dw_execute b q (cdw c))\<rparr>)"
  by (simp add: cluster_execute_def mem_all_tables split: prod.split)

lemma for_each_cluster_execute:
  "present c = all_tables \<Longrightarrow>
   for_each (cluster_execute b) qs c =
     (fst (for_each (dw_execute b) qs (cdw c)), c\<lparr>cdw := snd (for_each (dw_execute b) qs (cdw c))\<rparr>)"
proof (induction qs arbitrary: c)
  case Nil
  then show ?case by simp
next
  case (Cons q qs)
  then show ?case
    by (simp add: then_act_def cluster_execute_present split: prod.split option.split)
qed

lemma cluster_main_present:
  "present c = all_tables \<Longrightarrow>
   cluster_main b c = (fst (dw_main b (cdw c)), c\<lparr>cdw := snd (dw_main b (cdw c))\<rparr>)"
  by (simp add: cluster_main_def dw_main_def load_staging_tables_def insert_tables_def then_act_def
      for_each_cluster_execute split: prod.split option.split)

text \<open>C10: The full reset drops and recreates the five star tables but not the staging
  tables, which \<open>drop_table_queries\<close> leaves out: a run of \<open>etl.py\<close> after it is
  \<open>dw_main\<close> on the warehouse whose star tables are empty and whose staging tables keep
  their rows, so the next run reloads every event and song staged before the reset.\<close>

theorem reset_then_etl:
  "cluster_main b (reset_main c) =
     (fst (dw_main b (reset_dw (present c) (cdw c))),
      c\<lparr>present := all_tables, cdw := snd (dw_main b (reset_dw (present c) (cdw c)))\<rparr>)"
  by (simp add: reset_main_eq cluster_main_present)

text \<open>Without \<open>staging_events\<close> the first \<open>COPY\<close> raises and nothing changes.\<close>

lemma cluster_main_no_staging_events:
  "cluster_main b (c\<lparr>present := present c - {StagingEvents}\<rparr>) =
     (Some (ProgrammingError ''staging_events''), c\<lparr>present := present c - {StagingEvents}\<rparr>)"
  by (simp add: cluster_main_def copy_table_queries_def cluster_execute_def then_act_def)

end
