(* ===== verification/Config.thy ===== *)
theory Config
  imports Spark Warehouse
begin

text \<open>
  Configuration of the Redshift and Spark scripts.  \<open>sql_queries.py\<close> reads \<open>dwh.cfg\<close>
  at import and formats the S3 paths of the two \<open>COPY\<close> statements with
  \<open>config.get('S3', ...)\<close> and \<open>config.get('IAM_ROLE','ARN')\<close>; the Redshift \<open>main\<close> reads
  it again and connects with \<open>"host={} dbname={} user={} password={} port={}".format(
  *config['CLUSTER'].values())\<close>; the Spark \<open>setup_aws\<close> copies \<open>KEY\<close> and \<open>SECRET\<close> of
  section \<open>AWS\<close> of \<open>dl.cfg\<close> into the environment.  A file is given as
  \<open>configparser\<close> parsed it: its sections in file order, each with its options as
  written (the parsing itself is not modelled); a missing file reads as no section.
  \<open>config_get\<close> is \<open>ConfigParser.get\<close>: \<open>NoSectionError\<close>, option names lower-cased
  (\<open>optionxform\<close>), the \<open>DEFAULT\<close> section as fallback, \<open>NoOptionError\<close>, and
  \<open>BasicInterpolation\<close> (\<open>interp\<close>): \<open>%%\<close> is a percent sign, \<open>%(name)s\<close> the raw value
  of another option, interpolated again if it holds a percent sign, to at most ten
  levels (Python's \<open>MAX_INTERPOLATION_DEPTH\<close>, the fuel of \<open>interp\<close>), and any other
  \<open>%\<close> raises.  Connecting (\<open>psycopg2.connect\<close>, \<open>create_spark_session\<close>) is not
  modelled: the scripts are assumed to reach the cluster once the connection string is
  built.
\<close>

section \<open>\<open>configparser\<close>\<close>

type_synonym config = "(string \<times> (string \<times> string) list) list"

definition lower_char :: "char \<Rightarrow> char" where
  "lower_char c = (if of_char (CHR ''A'') \<le> (of_char c :: nat) \<and> (of_char c :: nat) \<le> of_char (CHR ''Z'')
                   then char_of (of_char c + (32 :: nat)) else c)"

definition optionxform :: "string \<Rightarrow> string" where
  "optionxform s = map lower_char s"

definition cfg_defaults :: "config \<Rightarrow> (string \<times> string) list" where
  "cfg_defaults cfg = (case map_of cfg ''DEFAULT'' of None \<Rightarrow> [] | Some opts \<Rightarrow> map (\<lambda>(k, v). (optionxform k, v)) opts)"

definition cfg_items :: "config \<Rightarrow> string \<Rightarrow> (string \<times> string) list" where
  "cfg_items cfg sec =
     (let own = (if sec = ''DEFAULT'' then [] else
                   case map_of cfg sec of None \<Rightarrow> [] | Some opts \<Rightarrow> map (\<lambda>(k, v). (optionxform k, v)) opts)
      in own @ filter (\<lambda>(k, v). k \<notin> set (map fst own)) (cfg_defaults cfg))"

definition has_section :: "config \<Rightarrow> string \<Rightarrow> bool" where
  "has_section cfg sec = (sec \<noteq> ''DEFAULT'' \<and> map_of cfg sec \<noteq> None)"

text \<open>\<open>BasicInterpolation._interpolate_some\<close>; \<open>d\<close> counts the levels left: the top
  call is at depth one of ten.\<close>

function interp :: "(string \<Rightarrow> string option) \<Rightarrow> nat \<Rightarrow> string \<Rightarrow> error + string" where
  "interp m d [] = Inr []"
| "interp m d (c # xs) =
     (if c \<noteq> CHR ''%'' then map_sum id (Cons c) (interp m d xs)
      else if xs \<noteq> [] \<and> hd xs = CHR ''%'' then map_sum id (Cons CHR ''%'') (interp m d (tl xs))
      else if xs \<noteq> [] \<and> hd xs = CHR ''('' then
        (let var = takeWhile (\<lambda>x. x \<noteq> CHR '')'') (tl xs);
             r = dropWhile (\<lambda>x. x \<noteq> CHR '')'') (tl xs)
         in if var = [] \<or> take 2 r \<noteq> '')s'' then Inl (ConfigError ''InterpolationSyntaxError'')
            else (case m (optionxform var) of
                    None \<Rightarrow> Inl (ConfigError ''InterpolationMissingOptionError'')
                  | Some v \<Rightarrow>
                      if CHR ''%'' \<in> set v then
                        (if d = 0 then Inl (ConfigError ''InterpolationDepthError'')
                         else (case interp m (d - 1) v of
                                 Inl e \<Rightarrow> Inl e
                               | Inr s \<Rightarrow> map_sum id (append s) (interp m d (drop 2 r))))
                      else map_sum id (append v) (interp m d (drop 2 r))))
      else Inl (ConfigError ''InterpolationSyntaxError''))"
  by pat_completeness auto
termination
  by (relation "measures [\<lambda>(m, d, s). d, \<lambda>(m, d, s). length s]")
     (auto simp: less_Suc_eq_le intro!: le_trans [OF diff_le_self] le_trans [OF length_dropWhile_le])


definition config_get :: "config \<Rightarrow> string \<Rightarrow> string \<Rightarrow> error + string" where
  "config_get cfg sec opt =
     (if sec \<noteq> ''DEFAULT'' \<and> \<not> has_section cfg sec then Inl (ConfigError ''NoSectionError'')
      else (case map_of (cfg_items cfg sec) (optionxform opt) of
              None \<Rightarrow> Inl (ConfigError ''NoOptionError'')
            | Some raw \<Rightarrow> interp (map_of (cfg_items cfg sec)) 9 raw))"

definition read_config :: "(string \<Rightarrow> config option) \<Rightarrow> string \<Rightarrow> config" where
  "read_config files name = (case files name of None \<Rightarrow> [] | Some cfg \<Rightarrow> cfg)"

text \<open>\<open>config[sec].values()\<close>: the values of the own options of the section in file order,
  then those of \<open>DEFAULT\<close> it does not override, each read with \<open>config_get\<close>.\<close>

fun get_all :: "config \<Rightarrow> string \<Rightarrow> string list \<Rightarrow> error + string list" where
  "get_all cfg sec [] = Inr []"
| "get_all cfg sec (k # ks) =
     (case config_get cfg sec k of Inl e \<Rightarrow> Inl e | Inr v \<Rightarrow> map_sum id (Cons v) (get_all cfg sec ks))"

definition section_values :: "config \<Rightarrow> string \<Rightarrow> error + string list" where
  "section_values cfg sec =
     (if sec \<noteq> ''DEFAULT'' \<and> \<not> has_section cfg sec then Inl (KeyError [sec])
      else get_all cfg sec (map fst (cfg_items cfg sec)))"

section \<open>The scripts\<close>

text \<open>The Redshift connection string of \<open>DataWarehouse/etl.py\<close> \<open>main\<close>: the values fill
  the five fields by position; fewer than five raise \<open>IndexError\<close>.\<close>

definition dw_connect_string :: "config \<Rightarrow> error + string" where
  "dw_connect_string cfg =
     (case section_values cfg ''CLUSTER'' of
        Inl e \<Rightarrow> Inl e
      | Inr vs \<Rightarrow>
          if length vs < 5 then Inl IndexError
          else Inr (''host='' @ vs ! 0 @ '' dbname='' @ vs ! 1 @ '' user='' @ vs ! 2 @
                    '' password='' @ vs ! 3 @ '' port='' @ vs ! 4))"

text \<open>\<open>setup_aws\<close> of \<open>Data_Lake_Spark/etl.py\<close> on \<open>os.environ\<close>, and its \<open>main\<close>.\<close>

type_synonym environ = "string \<Rightarrow> string option"

definition setup_aws :: "config \<Rightarrow> environ \<Rightarrow> error + environ" where
  "setup_aws cfg env =
     (case config_get cfg ''AWS'' ''KEY'' of
        Inl e \<Rightarrow> Inl e
      | Inr key \<Rightarrow>
          (case config_get cfg ''AWS'' ''SECRET'' of
             Inl e \<Rightarrow> Inl e
           | Inr secret \<Rightarrow> Inr (env(''AWS_ACCESS_KEY_ID'' \<mapsto> key, ''AWS_SECRET_ACCESS_KEY'' \<mapsto> secret))))"

definition spark_etl_main ::
  "config \<Rightarrow> int \<Rightarrow> jobj list \<Rightarrow> jobj list \<Rightarrow> (error, environ \<times> lake) act" where
  "spark_etl_main cfg tz song_lines log_lines st =
     (case setup_aws cfg (fst st) of
        Inl e \<Rightarrow> (Some e, st)
      | Inr env \<Rightarrow> (case spark_main tz song_lines log_lines (snd st) of (r, lk) \<Rightarrow> (r, (env, lk))))"

text \<open>The \<open>config.get\<close> calls made when \<open>etl.py\<close> imports \<open>sql_queries\<close>, in the order
  Python evaluates them, and the Redshift \<open>main\<close>: the data loaded are those at the
  two configured S3 paths.\<close>

definition sql_queries_paths :: "config \<Rightarrow> error + string \<times> string" where
  "sql_queries_paths cfg =
     (case config_get cfg ''S3'' ''LOG_DATA'' of
        Inl e \<Rightarrow> Inl e
      | Inr log_path \<Rightarrow>
          (case config_get cfg ''IAM_ROLE'' ''ARN'' of
             Inl e \<Rightarrow> Inl e
           | Inr _ \<Rightarrow>
               (case config_get cfg ''S3'' ''SONG_DATA'' of
                  Inl e \<Rightarrow> Inl e
                | Inr song_path \<Rightarrow>
                    (case config_get cfg ''IAM_ROLE'' ''ARN'' of
                       Inl e \<Rightarrow> Inl e
                     | Inr _ \<Rightarrow> Inr (log_path, song_path)))))"

definition dw_script :: "config \<Rightarrow> (string \<Rightarrow> jobj list) \<Rightarrow> (error, dw) act" where
  "dw_script cfg s3data w =
     (case sql_queries_paths cfg of
        Inl e \<Rightarrow> (Some e, w)
      | Inr (log_path, song_path) \<Rightarrow>
          (case dw_connect_string cfg of
             Inl e \<Rightarrow> (Some e, w)
           | Inr _ \<Rightarrow> dw_main \<lparr>log_data = s3data log_path, song_data = s3data song_path\<rparr> w))"

section \<open>Lemmas\<close>

lemma interp_plain: "CHR ''%'' \<notin> set s \<Longrightarrow> interp m d s = Inr s"
  by (induction s) auto

lemma config_get_plain:
  "sec \<noteq> ''DEFAULT'' \<Longrightarrow> has_section cfg sec \<Longrightarrow> map_of (cfg_items cfg sec) (optionxform opt) = Some v \<Longrightarrow>
   CHR ''%'' \<notin> set v \<Longrightarrow> config_get cfg sec opt = Inr v"
  by (simp add: config_get_def interp_plain)

lemma config_get_no_section:
  "sec \<noteq> ''DEFAULT'' \<Longrightarrow> \<not> has_section cfg sec \<Longrightarrow> config_get cfg sec opt = Inl (ConfigError ''NoSectionError'')"
  by (simp add: config_get_def)

lemma spark_etl_main_setup:
  "setup_aws cfg env = Inr env' \<Longrightarrow>
   spark_etl_main cfg tz song_lines log_lines (env, lk) =
     (fst (spark_main tz song_lines log_lines lk), (env', snd (spark_main tz song_lines log_lines lk)))"
  by (simp add: spark_etl_main_def split: prod.split)

lemma spark_etl_main_error:
  "setup_aws cfg env = Inl e \<Longrightarrow> spark_etl_main cfg tz song_lines log_lines (env, lk) = (Some e, (env, lk))"
  by (simp add: spark_etl_main_def)

lemma setup_aws_env:
  "setup_aws cfg env = Inr env' \<Longrightarrow>
   config_get cfg ''AWS'' ''KEY'' = Inr (the (env' ''AWS_ACCESS_KEY_ID'')) \<and>
   config_get cfg ''AWS'' ''SECRET'' = Inr (the (env' ''AWS_SECRET_ACCESS_KEY'')) \<and>
   (\<forall>k. k \<notin> {''AWS_ACCESS_KEY_ID'', ''AWS_SECRET_ACCESS_KEY''} \<longrightarrow> env' k = env k)"
  by (auto simp: setup_aws_def split: sum.splits)

lemma dw_script_runs_main:
  "sql_queries_paths cfg = Inr (lp, sp) \<Longrightarrow> dw_connect_string cfg = Inr cs \<Longrightarrow>
   dw_script cfg s3data w = dw_main \<lparr>log_data = s3data lp, song_data = s3data sp\<rparr> w"
  by (simp add: dw_script_def)

lemma dw_script_config_error:
  "sql_queries_paths cfg = Inl e \<or> (\<exists>p. sql_queries_paths cfg = Inr p) \<and> dw_connect_string cfg = Inl e \<Longrightarrow>
   dw_script cfg s3data w = (Some e, w)"
  by (auto simp: dw_script_def split: prod.split)

end
