(* ===== verification/Star.thy ===== *)
theory Star
  imports RdbmsPlan Ddl Spark
begin

text \<open>
  What the three loaders promise in common: the star schema's dimension keys.  \<open>star\<close>
  holds the song ids, artist ids, user ids and start times a load should leave behind, and
  \<open>star_spec\<close> computes them from the song lines and log lines the way the spec's
  section 4 describes the tables (every song line gives a song and an artist; every
  NextSong event with a user gives a user and, from its integer \<open>ts\<close>, a start time).
  \<open>abs_db\<close>, \<open>abs_dw\<close> and \<open>abs_lake\<close> read the same keys off the Postgres database,
  the Redshift warehouse and the Spark lake.  The refinement theorems say what each
  loader's successful run leaves, against \<open>star_spec\<close>: Redshift after
  \<open>create_tables.py\<close> on a new cluster implements it exactly
  (\<open>cluster_etl_refines_star\<close>); Postgres implements it for the first line of each song
  file only (\<open>etl_main_refines_star\<close>); Spark agrees on songs and artists, adds the NULL
  user and takes start times from every event, shifted by the executor's time zone
  (\<open>spark_main_star\<close>).
\<close>

section \<open>The abstract star schema\<close>

record star =
  star_songs :: "jval set"
  star_artists :: "jval set"
  star_users :: "jval set"
  star_times :: "int set"

fun ts_epoch_ms :: "jval \<Rightarrow> int option" where
  "ts_epoch_ms (JInt ms) = Some ms"
| "ts_epoch_ms _ = None"

definition star_spec :: "jobj list \<Rightarrow> jobj list \<Rightarrow> star" where
  "star_spec song_lines log_lines =
     \<lparr>star_songs = set (map (\<lambda>r. cell r ''song_id'') song_lines),
      star_artists = set (map (\<lambda>r. cell r ''artist_id'') song_lines),
      star_users = set (map (\<lambda>r. cell r ''userId'')
        (filter (\<lambda>r. is_next_song r \<and> cell r ''userId'' \<noteq> JNull) log_lines)),
      star_times = set (List.map_filter (\<lambda>r. if is_next_song r then ts_epoch_ms (cell r ''ts'') else None) log_lines)\<rparr>"

definition star_union :: "star \<Rightarrow> star \<Rightarrow> star" where
  "star_union a b =
     \<lparr>star_songs = star_songs a \<union> star_songs b, star_artists = star_artists a \<union> star_artists b,
      star_users = star_users a \<union> star_users b, star_times = star_times a \<union> star_times b\<rparr>"

definition abs_dw :: "dw \<Rightarrow> star" where
  "abs_dw w =
     \<lparr>star_songs = keys s_song_id (dw_songs w), star_artists = keys a_artist_id (dw_artists w),
      star_users = keys u_user_id (dw_users w),
      star_times = set (List.map_filter (map_option tm_start_time) (dw_time w))\<rparr>"

definition abs_db :: "db \<Rightarrow> star" where
  "abs_db d =
     \<lparr>star_songs = keys s_song_id (songs d), star_artists = keys a_artist_id (artists d),
      star_users = keys u_user_id (users d), star_times = keys tm_start_time (time_tbl d)\<rparr>"

definition opt_keys :: "('r \<Rightarrow> 'k) \<Rightarrow> 'r list option \<Rightarrow> 'k set" where
  "opt_keys k t = (case t of None \<Rightarrow> {} | Some rs \<Rightarrow> keys k rs)"

definition abs_lake :: "lake \<Rightarrow> star" where
  "abs_lake lk =
     \<lparr>star_songs = opt_keys s_song_id (songs_table lk), star_artists = opt_keys a_artist_id (artist_table lk),
      star_users = opt_keys u_user_id (users_table lk), star_times = opt_keys tm_start_time (time_table lk)\<rparr>"

section \<open>Lists\<close>

lemma set_map_filter_iff: "y \<in> set (List.map_filter f xs) \<longleftrightarrow> (\<exists>x\<in>set xs. f x = Some y)"
  by (induction xs) (auto split: option.split)

lemma set_map_filter_remdups [simp]:
  "set (List.map_filter f (remdups xs)) = set (List.map_filter f xs)"
  by (simp add: set_eq_iff set_map_filter_iff)

lemma map_filter_comprehension:
  "List.map_filter f (concat (map (\<lambda>x. if P x then [g x] else []) xs)) =
   List.map_filter (\<lambda>x. if P x then f (g x) else None) xs"
  by (induction xs) (auto split: option.split)

lemma map_filter_append: "List.map_filter f (xs @ ys) = List.map_filter f xs @ List.map_filter f ys"
  by (induction xs) (auto split: option.split)

lemma map_filter_map: "List.map_filter f (map g xs) = List.map_filter (\<lambda>x. f (g x)) xs"
  by (induction xs) (auto split: option.split)

lemma map_filter_filter:
  "List.map_filter f (filter P xs) = List.map_filter (\<lambda>x. if P x then f x else None) xs"
  by (induction xs) (auto split: option.split)

lemma map_filter_concat: "List.map_filter f (concat xss) = concat (map (List.map_filter f) xss)"
  by (induction xss) (simp_all add: map_filter_append)

lemma concat_map_Nil: "(\<And>x. x \<in> set xs \<Longrightarrow> f x = []) \<Longrightarrow> concat (map f xs) = []"
  by (induction xs) auto

lemma concat_map_concat: "concat (map f (concat xss)) = concat (map (\<lambda>xs. concat (map f xs)) xss)"
  by (induction xss) auto

lemma comprehension_filter: "concat (map (\<lambda>x. if P x then [f x] else []) xs) = map f (filter P xs)"
  by (induction xs) auto

lemma keys_remdups [simp]: "keys k (remdups xs) = keys k xs"
  by (simp add: keys_def)

section \<open>Redshift\<close>

lemma dateadd_ms_epoch: "dateadd_ms v = ts_epoch_ms v"
  by (cases v) simp_all

lemma sql_eq_JStr: "sql_eq v (JStr s) \<longleftrightarrow> v = JStr s"
  by (cases v) simp_all

lemma page_is_next_event_of [simp]: "page_is_next (event_of r) \<longleftrightarrow> is_next_song r"
  by (simp add: page_is_next_def event_of_def is_next_song_def sql_eq_JStr)

lemma event_of_fields [simp]:
  "se_user_id (event_of r) = cell r ''userId''" "se_ts (event_of r) = cell r ''ts''"
  by (simp_all add: event_of_def)

lemma song_of_fields [simp]:
  "ss_song_id (song_of r) = cell r ''song_id''" "ss_artist_id (song_of r) = cell r ''artist_id''"
  by (simp_all add: song_of_def)

lemma sql_not_in_Nil [simp]: "sql_not_in cmp x []"
  by (simp add: sql_not_in_iff)

text \<open>A successful Redshift run from a warehouse whose star tables are empty and whose
  staging tables hold the lines \<open>ls0\<close> and \<open>ss0\<close> of earlier runs leaves the star of
  all staged lines.\<close>

lemma dw_main_star:
  assumes run: "dw_main b w = (None, w')"
    and ev: "staging_events w = map event_of ls0" and ss: "staging_songs w = map song_of ss0"
    and empty: "dw_users w = []" "dw_songs w = []" "dw_artists w = []" "dw_time w = []"
  shows "abs_dw w' = star_spec (ss0 @ song_data b) (ls0 @ log_data b)"
    and "list_all (\<lambda>r. is_next_song r \<longrightarrow> ts_epoch_ms (cell r ''ts'') \<noteq> None) (ls0 @ log_data b)"
proof -
  obtain w1 w2 w3 w4 w5 w6 where
    c1: "staging_events_copy (log_data b) w = Inr w1" and c2: "staging_songs_copy (song_data b) w1 = Inr w2" and
    i3: "songplay_table_insert w2 = Inr w3" and i4: "user_table_insert w3 = Inr w4" and
    i5: "song_table_insert w4 = Inr w5" and i6: "artist_table_insert w5 = Inr w6" and
    i7: "time_table_insert w6 = Inr w'"
    using run unfolding dw_main_None by blast
  have w2: "staging_events w2 = map event_of (ls0 @ log_data b)" "staging_songs w2 = map song_of (ss0 @ song_data b)"
    "dw_users w2 = []" "dw_songs w2 = []" "dw_artists w2 = []" "dw_time w2 = []"
    using c1 c2 ev ss empty by (auto simp: staging_events_copy_def staging_songs_copy_def Let_def split: if_splits)
  have w3: "staging_events w3 = staging_events w2" "staging_songs w3 = staging_songs w2"
    "dw_users w3 = []" "dw_songs w3 = []" "dw_artists w3 = []" "dw_time w3 = []"
    using i3 w2 by (simp_all add: songplay_table_insert_Inr)
  have tabs: "dw_users w' = user_table_select w3" "dw_songs w' = song_table_select w4"
    "dw_artists w' = artist_table_select w5" "dw_time w' = time_table_select w6"
    "list_all (\<lambda>r. r \<noteq> None) (time_table_select w6)"
    using i4 i5 i6 i7 w3 by (simp_all add: user_table_insert_Inr song_table_insert_Inr
        artist_table_insert_Inr time_table_insert_Inr)
  have st: "staging_events w6 = staging_events w2" "staging_songs w5 = staging_songs w2"
    "staging_songs w4 = staging_songs w2" "dw_songs w4 = []" "dw_artists w5 = []" "dw_time w6 = []"
    using i4 i5 i6 w3 by (auto simp: user_table_insert_Inr song_table_insert_Inr artist_table_insert_Inr)
  have users: "star_users (abs_dw w') = star_users (star_spec (ss0 @ song_data b) (ls0 @ log_data b))"
    using tabs(1) w3 w2 by (simp add: abs_dw_def star_spec_def user_table_select_def keys_def
        user_row_of_event_def comprehension_filter filter_map comp_def image_image image_Un)
  have songs: "star_songs (abs_dw w') = star_songs (star_spec (ss0 @ song_data b) (ls0 @ log_data b))"
    using tabs(2) st w2 by (simp add: abs_dw_def star_spec_def song_table_select_def keys_def song_row_of_stage_def
        comprehension_filter comp_def image_image image_Un)
  have artists: "star_artists (abs_dw w') = star_artists (star_spec (ss0 @ song_data b) (ls0 @ log_data b))"
    using tabs(3) st w2 by (simp add: abs_dw_def star_spec_def artist_table_select_def keys_def artist_row_of_stage_def
        comprehension_filter comp_def image_image image_Un)
  have times: "star_times (abs_dw w') = star_times (star_spec (ss0 @ song_data b) (ls0 @ log_data b))"
    using tabs(4) st w2
    by (simp add: abs_dw_def star_spec_def time_table_select_def map_filter_comprehension
        dateadd_ms_epoch option.map_comp map_filter_append comp_def option.map_ident cong: if_cong)
  show "abs_dw w' = star_spec (ss0 @ song_data b) (ls0 @ log_data b)"
    using users songs artists times by (intro star.equality) simp_all
  show "list_all (\<lambda>r. is_next_song r \<longrightarrow> ts_epoch_ms (cell r ''ts'') \<noteq> None) (ls0 @ log_data b)"
    unfolding list_all_iff
  proof (intro ballI impI)
    fix r
    assume "r \<in> set (ls0 @ log_data b)" and "is_next_song r"
    then have "map_option dw_time_row_of_ms (ts_epoch_ms (cell r ''ts'')) \<in> set (time_table_select w6)"
      using st(1,6) w2(1) by (force simp: time_table_select_def dateadd_ms_epoch)
    then show "ts_epoch_ms (cell r ''ts'') \<noteq> None" using tabs(5) by (auto simp: list_all_iff)
  qed
qed

section \<open>Postgres\<close>

text \<open>The plans of one song file and one log file that run without error.\<close>

lemma song_file_plan_ok:
  assumes "\<forall>it\<in>set (song_file_plan ls). item_err it = None"
  shows "song_file_plan ls = [Exec (InsSong (song_row_of (hd ls))), Exec (InsArtist (artist_row_of (hd ls)))]"
proof (cases "set_index ''num_songs'' (frame_of_lines ls)")
  case (Inl e)
  then show ?thesis using assms by (simp add: song_file_plan_def)
next
  case (Inr df)
  then have "frows df = ls" by (auto simp: set_index_def split: if_splits)
  then show ?thesis using assms Inr
    by (auto simp: song_file_plan_def song_data_plan_def artist_data_plan_def split: option.splits list.splits)
qed

lemma songplay_row_plan_rows:
  "it \<in> set (songplay_row_plan df r) \<Longrightarrow> song_rows it = [] \<and> artist_rows it = [] \<and> time_rows it = [] \<and> user_rows it = []"
  by (auto simp: songplay_row_plan_def split: option.splits sum.splits)

lemma to_datetime_col_epoch:
  "to_datetime_col vs = Inr ts \<Longrightarrow> list_all (\<lambda>v. ts_epoch_ms v \<noteq> None) vs \<Longrightarrow>
   ts = map ts_epoch_ms vs"
proof (induction vs arbitrary: ts)
  case (Cons v vs)
  then show ?case by (cases v) (auto split: if_splits sum.splits)
qed simp

lemma time_rows_of_col:
  "concat (map (\<lambda>x. time_rows (Exec (InsTime (map_option time_row_of_ms (f x))))) xs) =
   map time_row_of_ms (List.map_filter f xs)"
  by (induction xs) (auto split: option.split)

lemma start_time_row_of_ms [simp]: "tm_start_time (time_row_of_ms ms) = ms"
  by (simp add: time_row_of_ms_def Let_def)

lemma log_frame_plan_rows:
  assumes ok: "\<forall>it\<in>set (log_frame_plan df). item_err it = None"
    and ts: "list_all (\<lambda>r. ts_epoch_ms (cell r ''ts'') \<noteq> None) (frows df)"
  shows "concat (map song_rows (log_frame_plan df)) = []"
    "concat (map artist_rows (log_frame_plan df)) = []"
    "concat (map user_rows (log_frame_plan df)) = map user_row_of (frows df)"
    "concat (map time_rows (log_frame_plan df)) =
       map time_row_of_ms (List.map_filter (\<lambda>r. ts_epoch_ms (cell r ''ts'')) (frows df))"
    "list_all (\<lambda>r. cell r ''userId'' \<noteq> JNull) (frows df)"
proof -
  have rt: "require_cols df [''ts''] = None" "require_cols df user_cols = None"
    using ok by (auto simp: log_frame_plan_def time_plan_def user_plan_def split: option.splits sum.splits)
  obtain tcol where tc: "to_datetime_col (map (\<lambda>r. cell r ''ts'') (frows df)) = Inr tcol"
    using ok rt by (cases "to_datetime_col (map (\<lambda>r. cell r ''ts'') (frows df))")
      (auto simp: log_frame_plan_def time_plan_def)
  have "tcol = map ts_epoch_ms (map (\<lambda>r. cell r ''ts'') (frows df))"
    using to_datetime_col_epoch [OF tc] ts by (simp add: list_all_iff)
  then have tp: "time_plan df = map (\<lambda>t. Exec (InsTime (map_option time_row_of_ms t)))
      (map ts_epoch_ms (map (\<lambda>r. cell r ''ts'') (frows df)))"
    using rt tc by (simp add: time_plan_def)
  have up: "user_plan df = map (\<lambda>r. Exec (InsUser (user_row_of r))) (frows df)"
    using rt by (simp add: user_plan_def)
  have pl: "log_frame_plan df = time_plan df @ user_plan df @ concat (map (songplay_row_plan df) (frows df))"
    by (simp add: log_frame_plan_def)
  have sp: "\<And>it. it \<in> set (concat (map (songplay_row_plan df) (frows df))) \<Longrightarrow>
      song_rows it = [] \<and> artist_rows it = [] \<and> time_rows it = [] \<and> user_rows it = []"
    using songplay_row_plan_rows by auto
  have spn: "concat (map song_rows (concat (map (songplay_row_plan df) (frows df)))) = []"
      "concat (map artist_rows (concat (map (songplay_row_plan df) (frows df)))) = []"
      "concat (map time_rows (concat (map (songplay_row_plan df) (frows df)))) = []"
      "concat (map user_rows (concat (map (songplay_row_plan df) (frows df)))) = []"
    by (rule concat_map_Nil, use sp in blast)+
  show "concat (map song_rows (log_frame_plan df)) = []" "concat (map artist_rows (log_frame_plan df)) = []"
      "concat (map user_rows (log_frame_plan df)) = map user_row_of (frows df)"
      "concat (map time_rows (log_frame_plan df)) =
         map time_row_of_ms (List.map_filter (\<lambda>r. ts_epoch_ms (cell r ''ts'')) (frows df))"
    by (simp_all add: pl tp up spn comp_def concat_map_Nil time_rows_of_col)
  show "list_all (\<lambda>r. cell r ''userId'' \<noteq> JNull) (frows df)"
    unfolding list_all_iff
  proof
    fix r
    assume "r \<in> set (frows df)"
    then have "Exec (InsUser (user_row_of r)) \<in> set (log_frame_plan df)" by (simp add: pl up)
    then have "item_err (Exec (InsUser (user_row_of r))) = None" using ok by blast
    then show "cell r ''userId'' \<noteq> JNull" by (simp add: user_row_of_def split: if_splits)
  qed
qed

lemma log_file_plan_rows:
  assumes ok: "\<forall>it\<in>set (log_file_plan ls). item_err it = None"
    and ts: "list_all (\<lambda>r. is_next_song r \<longrightarrow> ts_epoch_ms (cell r ''ts'') \<noteq> None) ls"
  shows "concat (map song_rows (log_file_plan ls)) = []"
    "concat (map artist_rows (log_file_plan ls)) = []"
    "concat (map user_rows (log_file_plan ls)) = map user_row_of (filter is_next_song ls)"
    "concat (map time_rows (log_file_plan ls)) =
       map time_row_of_ms (List.map_filter (\<lambda>r. if is_next_song r then ts_epoch_ms (cell r ''ts'') else None) ls)"
    "list_all (\<lambda>r. is_next_song r \<longrightarrow> cell r ''userId'' \<noteq> JNull) ls"
proof -
  let ?df = "filter_rows is_next_song (frame_of_lines ls)"
  have "require_cols (frame_of_lines ls) [''page''] = None"
    using ok by (auto simp: log_file_plan_def split: option.splits)
  then have pl: "log_file_plan ls = log_frame_plan ?df" by (simp add: log_file_plan_def)
  have fr: "frows ?df = filter is_next_song ls" by (simp add: filter_rows_def)
  have "list_all (\<lambda>r. ts_epoch_ms (cell r ''ts'') \<noteq> None) (frows ?df)"
    using ts by (simp add: fr list_all_iff)
  note rows = log_frame_plan_rows [OF ok [unfolded pl] this]
  show "concat (map song_rows (log_file_plan ls)) = []" "concat (map artist_rows (log_file_plan ls)) = []"
    "concat (map user_rows (log_file_plan ls)) = map user_row_of (filter is_next_song ls)"
    "concat (map time_rows (log_file_plan ls)) =
       map time_row_of_ms (List.map_filter (\<lambda>r. if is_next_song r then ts_epoch_ms (cell r ''ts'') else None) ls)"
    "list_all (\<lambda>r. is_next_song r \<longrightarrow> cell r ''userId'' \<noteq> JNull) ls"
    using rows by (simp_all add: pl fr map_filter_filter list_all_iff)
qed

text \<open>A run of the Postgres \<open>main\<close> that raises nothing adds to the keys it started
  from the star of the first line of each song file and of all log lines.\<close>

lemma etl_main_star:
  assumes run: "etl_main sf lf s = (None, s')"
    and ts: "list_all (\<lambda>r. is_next_song r \<longrightarrow> ts_epoch_ms (cell r ''ts'') \<noteq> None) (concat lf)"
  shows "abs_db (rdb s') = star_union (abs_db (rdb s)) (star_spec (map hd sf) (concat lf))"
proof -
  let ?p = "etl_plan sf lf"
  have "run_plan ?p (rdb s) = (None, rdb s')"
    using etl_main_plan [of sf lf s] run by simp
  then have err: "plan_err ?p = None" and db0: "fold apply_item (ok_prefix ?p) (rdb s) = rdb s'"
    by (simp_all add: run_plan_split)
  have db: "rdb s' = fold apply_item ?p (rdb s)"
    using db0 by (simp add: ok_prefix_all [OF err])
  from err have ok: "\<forall>it\<in>set ?p. item_err it = None" by (simp add: plan_err_None_iff)
  have sfp: "\<And>ls. ls \<in> set sf \<Longrightarrow>
      song_file_plan ls = [Exec (InsSong (song_row_of (hd ls))), Exec (InsArtist (artist_row_of (hd ls)))]"
    using ok by (intro song_file_plan_ok) (auto simp: etl_plan_def)
  have lok: "\<And>ls. ls \<in> set lf \<Longrightarrow> \<forall>it\<in>set (log_file_plan ls). item_err it = None"
    using ok by (auto simp: etl_plan_def)
  have lts: "\<And>ls. ls \<in> set lf \<Longrightarrow> list_all (\<lambda>r. is_next_song r \<longrightarrow> ts_epoch_ms (cell r ''ts'') \<noteq> None) ls"
    using ts by (auto simp: list_all_iff)
  note lrows = log_file_plan_rows [OF lok lts]
  have rows: "concat (map song_rows ?p) = map (\<lambda>ls. song_row_of (hd ls)) sf"
    "concat (map artist_rows ?p) = map (\<lambda>ls. artist_row_of (hd ls)) sf"
    "concat (map user_rows ?p) = concat (map (\<lambda>ls. map user_row_of (filter is_next_song ls)) lf)"
    "concat (map time_rows ?p) = concat (map (\<lambda>ls. map time_row_of_ms
       (List.map_filter (\<lambda>r. if is_next_song r then ts_epoch_ms (cell r ''ts'') else None) ls)) lf)"
    by (simp_all add: etl_plan_def concat_map_concat sfp lrows cong: map_cong)
  have nn: "\<forall>r\<in>set (concat lf). is_next_song r \<longrightarrow> cell r ''userId'' \<noteq> JNull"
    using lrows(5) by (auto simp: list_all_iff)
  have tabs: "songs (rdb s') = fold (ins_absent s_song_id) (map (\<lambda>ls. song_row_of (hd ls)) sf) (songs (rdb s))"
    "artists (rdb s') = fold (ins_absent a_artist_id) (map (\<lambda>ls. artist_row_of (hd ls)) sf) (artists (rdb s))"
    "users (rdb s') = fold (upsert u_user_id) (concat (map (\<lambda>ls. map user_row_of (filter is_next_song ls)) lf)) (users (rdb s))"
    "time_tbl (rdb s') = fold (ins_absent tm_start_time) (concat (map (\<lambda>ls. map time_row_of_ms
       (List.map_filter (\<lambda>r. if is_next_song r then ts_epoch_ms (cell r ''ts'') else None) ls)) lf)) (time_tbl (rdb s))"
    by (simp_all add: db tables_fold rows)
  have k: "abs_db (rdb s') = star_union (abs_db (rdb s))
     \<lparr>star_songs = keys s_song_id (map (\<lambda>ls. song_row_of (hd ls)) sf),
      star_artists = keys a_artist_id (map (\<lambda>ls. artist_row_of (hd ls)) sf),
      star_users = keys u_user_id (concat (map (\<lambda>ls. map user_row_of (filter is_next_song ls)) lf)),
      star_times = keys tm_start_time (concat (map (\<lambda>ls. map time_row_of_ms
       (List.map_filter (\<lambda>r. if is_next_song r then ts_epoch_ms (cell r ''ts'') else None) ls)) lf))\<rparr>"
    by (simp add: abs_db_def star_union_def tabs)
  have "filter (\<lambda>r. is_next_song r \<and> cell r ''userId'' \<noteq> JNull) (concat lf) = filter is_next_song (concat lf)"
    using nn by (intro filter_cong) auto
  then show ?thesis
    by (simp add: k star_spec_def keys_def user_row_of_def song_row_of_def artist_row_of_def
        map_concat filter_concat map_filter_concat comp_def)
qed

text \<open>C15: A run of the Postgres \<open>main\<close> that raises nothing, from an empty database,
  leaves the star of the first line of each song file and of all log lines, when every
  NextSong event has an integer \<open>ts\<close>: \<open>insert_song_data\<close> and \<open>insert_artist_data\<close>
  read \<open>df.values[0]\<close>, so the later lines of a song file are never loaded.\<close>

theorem etl_main_refines_star:
  assumes "etl_main sf lf s = (None, s')" and "rdb s = empty_db"
    and "list_all (\<lambda>r. is_next_song r \<longrightarrow> ts_epoch_ms (cell r ''ts'') \<noteq> None) (concat lf)"
  shows "abs_db (rdb s') = star_spec (map hd sf) (concat lf)"
  using etl_main_star [OF assms(1,3)] assms(2)
  by (simp add: abs_db_def star_union_def empty_db_def)

section \<open>Spark\<close>

text \<open>What a successful run writes into the four dimension tables.\<close>

lemma spark_main_tables:
  assumes "spark_main tz ss ls lk = (None, lk')"
  shows "songs_table lk' = Some (map song_row_of ss)" "artist_table lk' = Some (map artist_row_of ss)"
    "users_table lk' = Some (remdups (map user_row_of (filter is_next_song ls)))"
    "\<exists>locals. udf_column tz (map (\<lambda>r. cell r ''ts'') ls) = Inr locals \<and> time_table lk' = Some (map spark_time_row locals)"
  using assms
  by (auto simp: spark_main_def then_act_def process_song_data_def process_log_data_def log_time_and_songplays_def
      Let_def split: option.splits sum.splits prod.splits)

lemma udf_column_projr: "udf_column tz vs = Inr locals \<Longrightarrow> locals = map (\<lambda>v. projr (udf_local_ms tz v)) vs"
  by (induction vs arbitrary: locals) (auto split: sum.splits)

lemma start_time_spark_row [simp]: "tm_start_time (spark_time_row l) = l"
  by (simp add: spark_time_row_def Let_def)

text \<open>C16: After a successful Spark run the lake has the songs and artists of the star
  spec; its users are the spec's plus NULL when a NextSong event has no user id; its
  start times are the UDF's local time of every log line, whatever its page.\<close>

theorem spark_main_star:
  assumes "spark_main tz ss ls lk = (None, lk')"
  shows "star_songs (abs_lake lk') = star_songs (star_spec ss ls) \<and>
    star_artists (abs_lake lk') = star_artists (star_spec ss ls) \<and>
    star_users (abs_lake lk') - {JNull} = star_users (star_spec ss ls) \<and>
    star_times (abs_lake lk') = (\<lambda>r. projr (udf_local_ms tz (cell r ''ts''))) ` set ls"
proof -
  obtain locals where u: "udf_column tz (map (\<lambda>r. cell r ''ts'') ls) = Inr locals"
    and t: "time_table lk' = Some (map spark_time_row locals)"
    using spark_main_tables(4) [OF assms] by blast
  show ?thesis
    using spark_main_tables(1-3) [OF assms] t udf_column_projr [OF u]
    by (auto simp: abs_lake_def opt_keys_def keys_def star_spec_def user_row_of_def song_row_of_def
        artist_row_of_def image_image)
qed

section \<open>Redshift after create_tables\<close>

lemma reset_dw_empty:
  "staging_events (reset_dw {} w) = map event_of []" "staging_songs (reset_dw {} w) = map song_of []"
  "dw_users (reset_dw {} w) = []" "dw_songs (reset_dw {} w) = []" "dw_artists (reset_dw {} w) = []"
  "dw_time (reset_dw {} w) = []"
  by (simp_all add: reset_dw_def)

lemma cluster_main_fresh:
  "present c = {} \<Longrightarrow> cluster_main b (reset_main c) = (None, c') \<Longrightarrow>
   dw_main b (reset_dw {} (cdw c)) = (None, cdw c')"
  by (auto simp: reset_main_eq cluster_main_present prod_eq_iff)

text \<open>C11: On a new cluster, \<open>create_tables.py\<close> followed by a run of the Redshift
  \<open>etl.py\<close> that raises nothing leaves exactly the star of the S3 song and log lines.\<close>

theorem cluster_etl_refines_star:
  assumes "present c = {}" and "cluster_main b (reset_main c) = (None, c')"
  shows "abs_dw (cdw c') = star_spec (song_data b) (log_data b)"
  using dw_main_star(1) [OF cluster_main_fresh [OF assms] reset_dw_empty] by simp

section \<open>The back ends compared\<close>

lemma map_hd_singletons: "list_all (\<lambda>ls. length ls = 1) sf \<Longrightarrow> map hd sf = concat sf"
  by (induction sf) (auto simp: length_Suc_conv)

text \<open>C24: When every song file holds one line, a Postgres run from an empty database and
  a Redshift run on a new cluster over the same lines that both raise nothing leave the
  same song ids, artist ids, user ids and start times.\<close>

theorem postgres_redshift_same_star:
  assumes pg: "etl_main sf lf s = (None, s')" and e: "rdb s = empty_db"
    and fresh: "present c = {}" and rs: "cluster_main b (reset_main c) = (None, c')"
    and b: "song_data b = concat sf" "log_data b = concat lf"
    and one: "list_all (\<lambda>ls. length ls = 1) sf"
  shows "abs_db (rdb s') = abs_dw (cdw c')"
proof -
  note dw = dw_main_star [OF cluster_main_fresh [OF fresh rs] reset_dw_empty]
  have ts: "list_all (\<lambda>r. is_next_song r \<longrightarrow> ts_epoch_ms (cell r ''ts'') \<noteq> None) (concat lf)"
    using dw(2) b by simp
  show ?thesis
    using etl_main_star [OF pg ts] e dw(1) b map_hd_singletons [OF one]
    by (simp add: abs_db_def star_union_def empty_db_def)
qed

end
