(* ===== verification/Spec2Isabelle.thy ===== *)
theory Spec2Isabelle
  imports RdbmsProps WarehouseProps SparkProps Discovery Ddl Config Star
begin

text \<open>
  \<^bold>\<open>A verification library for the Sparkify ETL scripts.\<close>

  The repository loads song metadata and user-activity logs (JSON lines) into a star
  schema: the dimension tables \<open>songs\<close>, \<open>artists\<close>, \<open>users\<close>, \<open>time\<close> and the fact
  table \<open>songplays\<close>.  Three scripts do it against three back ends:
  \<^item> \<open>src/RDMS_Data_Modelling/etl.py\<close>: Postgres, row by row with pandas;
  \<^item> \<open>src/DataWarehouse/etl.py\<close> with \<open>sql_queries.py\<close>: Redshift, staging tables and
    set-based \<open>INSERT \<dots> SELECT\<close> with anti-joins;
  \<^item> \<open>src/Spark/Data_Lake_Spark/etl.py\<close>: Spark, parquet files written in overwrite mode.
  All three pipelines are modelled, over the record parser and time derivation they
  share; the three back ends are compared through one specification of the star's
  keys (C11, C15, C16, C24).

  \<^bold>\<open>Theories.\<close>
  \<^item> \<open>Prelude\<close>: actions that may raise (\<open>then_act\<close>, \<open>for_each\<close>: Python's statement
    sequencing and \<open>for\<close> loop, returning the state reached when an exception is
    raised), keyed tables as lists of rows (\<open>ins_absent\<close>: insert when the key is
    absent; \<open>upsert\<close>: overwrite the row with the key), and their lemmas: key sets,
    distinct keys, idempotence of a batch, last write wins (\<open>fold_upsert_rows_of_key\<close>).
  \<^item> \<open>Records\<close> (record parser): JSON values \<open>jval\<close>, the exceptions \<open>error\<close>, the pandas
    frame of a JSON-lines file (\<open>frame_of_lines\<close>: a column per key of any line, NaN
    where a line lacks it), column selection raising \<open>KeyError\<close> (\<open>require_cols\<close>),
    row attributes raising \<open>AttributeError\<close> (\<open>attr_error\<close>), \<open>set_index\<close>, row
    filtering, SQL equality with NULL (\<open>sql_eq\<close>) and \<open>pd.to_datetime(unit='ms')\<close>.
  \<^item> \<open>TimeConv\<close> (time derivation): milliseconds to calendar fields as pandas computes
    them (floor division into days, years and months walked by their lengths in two
    terminating \<^theory_text>\<open>function\<close>s, ISO weeks, Monday-based weekday), with range
    bounds (C6) and the round trip back to milliseconds (C7).
  \<^item> \<open>Store\<close> (loader, Postgres): the table rows as records, the database \<open>db\<close>, the
    insert statements \<open>stmt\<close> with their NOT NULL checks (\<open>stmt_error\<close>) and writes
    (\<open>apply_stmt\<close>), \<open>song_select\<close>/\<open>fetchone\<close> (catalog lookup) and the well-formedness
    invariant \<open>db_wf\<close>, kept by every statement.  The Postgres SQL text lives in a
    \<open>sql_queries.py\<close> that is not in the sources; the statements follow the design's
    load policy (section 4.4 of the spec) and are marked spec-modelled.
  \<^item> \<open>Rdbms\<close> (builders, resolver, driver): every function of the Postgres
    \<open>etl.py\<close> as a definition of the same name: \<open>process_song_file\<close>,
    \<open>insert_song_data\<close>, \<open>insert_artist_data\<close>, \<open>process_log_file\<close>, \<open>insert_time_data\<close>,
    \<open>insert_user_data\<close>, \<open>insert_songplays_data\<close> (one iteration: \<open>insert_songplay_row\<close>,
    resolution: \<open>resolve_ids\<close>), \<open>process_data\<close> (loop: \<open>process_files\<close>, progress
    messages \<open>msg\<close>) and \<open>main\<close> (\<open>etl_main\<close>).
  \<^item> \<open>RdbmsPlan\<close>: the statement plan of a run (\<open>item\<close>: raise, execute, or resolve and
    insert a songplay), the refinement theorems that each script function runs its plan
    (\<open>process_song_file_plan\<close>, \<open>process_log_file_plan\<close>, \<open>etl_main_plan\<close>), and the
    fact that failure depends on the plan only, never on the database
    (\<open>run_plan_split\<close>), with the per-table view of a run (\<open>tables_fold\<close>).
  \<^item> \<open>RdbmsProps\<close>: the properties of the Postgres pipeline, C1 to C5, C8 and C9.
  \<^item> \<open>Warehouse\<close> (Redshift, \<open>DataWarehouse/etl.py\<close> and \<open>sql_queries.py\<close>): the
    staging rows (\<open>stage_event\<close>, \<open>stage_song\<close>) and the warehouse \<open>dw\<close>; SQL's
    three-valued comparison and \<open>NOT IN\<close> (\<open>sql_cmp\<close>, \<open>sql_not_in\<close>); the two
    \<open>COPY\<close> statements (\<open>staging_events_copy\<close>, \<open>staging_songs_copy\<close>) and the five
    inserts, each a \<open>_table_select\<close> and a \<open>_table_insert\<close> that writes all rows or none
    (\<open>insert_rows\<close>, NOT NULL and primary-key columns); the query lists, \<open>run_query\<close>,
    \<open>dw_execute\<close> (execute and commit), \<open>load_staging_tables\<close>, \<open>insert_tables\<close> and
    \<open>main\<close> (\<open>dw_main\<close>).  Its lemmas show that after an insert no staged row passes
    its anti-join any more (\<open>..._settles\<close>, \<open>dw_main_settles\<close>).
  \<^item> \<open>DwSteps\<close>: the Redshift driver as an inductive step relation \<open>dw_step\<close> over
    the phase of the statement loop (\<open>Pending\<close>, \<open>Done\<close>, \<open>Failed\<close>) and the
    warehouse, its equivalence with the functional loop (\<open>dw_star_for_each\<close>) and the
    invariant of its reachable states (\<open>dw_steps_wf\<close>, by rule induction).
  \<^item> \<open>WarehouseProps\<close>: the Redshift properties C12 to C14 and C17 to C19.
  \<^item> \<open>Spark\<close> (\<open>Data_Lake_Spark/etl.py\<close>): the lake \<open>lake\<close> (one optional table per
    output path), Spark's analysis and attribute errors, the \<open>get_datetime\<close> UDF
    (\<open>udf_local_ms\<close>, Python's \<open>int\<close> on the value, the executor's zone offset \<open>tz\<close>),
    \<open>process_song_data\<close>, \<open>process_log_data\<close> (its tail \<open>log_time_and_songplays\<close>, the
    title join \<open>title_join\<close>) and \<open>main\<close> (\<open>spark_main\<close>), with the success
    characterisations of each step.
  \<^item> \<open>SparkProps\<close>: the Spark properties C20, C21, C23, C25.
  \<^item> \<open>Discovery\<close> (file discovery of the Postgres \<open>process_data\<close>, lines 130-136): the
    file system as a tree with a working directory (\<open>os_state\<close>), \<open>os.walk\<close> as
    CPython 3.12's stack loop (\<open>walk_loop\<close>, a \<^theory_text>\<open>partial_function (option)\<close>),
    \<open>glob.glob\<close> with \<open>fnmatch\<close> (\<open>iglob\<close>, \<open>glob0\<close>, \<open>glob1\<close>, bracket sets as
    \<open>fnmatch.translate\<close> builds them), the file list \<open>discover\<close>, and \<open>process_data\<close> and
    \<open>main\<close> over a file tree (\<open>process_data_fs\<close>, \<open>etl_main_fs\<close>), reading each file in
    its turn (\<open>load_file\<close>).  Its properties: the walk terminates (C22), equals the
    recursive walk (C26), and discovery finds exactly the non-hidden \<open>*.json\<close>
    entries below the start, hidden directories included (C27); the run over the tree
    is \<open>etl_main\<close> over the discovered contents when they are regular files.
  \<^item> \<open>Ddl\<close> (table DDL of \<open>sql_queries.py\<close>): the \<open>DROP TABLE IF EXISTS\<close> and \<open>CREATE
    TABLE IF NOT EXISTS\<close> statements and their lists, a \<open>cluster\<close> (the tables that
    exist, and the warehouse), the reset script \<open>create_tables.py\<close> (spec-modelled:
    \<open>drop_tables\<close>, \<open>create_tables\<close>, \<open>reset_main\<close>), and the Redshift \<open>main\<close> on a
    cluster (\<open>cluster_main\<close>: a query naming a missing table raises
    \<open>ProgrammingError\<close>).  C10: after a reset the run is \<open>dw_main\<close> on emptied star
    tables and the old staging rows.
  \<^item> \<open>Config\<close> (\<open>configparser\<close> and its uses): \<open>config_get\<close> with lower-cased option
    names, the \<open>DEFAULT\<close> section and \<open>BasicInterpolation\<close> (\<open>interp\<close>, terminating by
    Python's depth limit of ten), \<open>config[sec].values()\<close>, the Redshift connection
    string (\<open>dw_connect_string\<close>), the S3 paths read at import of \<open>sql_queries\<close>
    (\<open>sql_queries_paths\<close>), the Redshift \<open>main\<close> with its configuration (\<open>dw_script\<close>),
    and the Spark \<open>setup_aws\<close> and \<open>main\<close> (\<open>spark_etl_main\<close>).
  \<^item> \<open>Star\<close> (the three back ends against one specification): the dimension keys of
    the star schema (\<open>star\<close>), the keys the spec's section 4 asks for given the song
    and log lines (\<open>star_spec\<close>), and abstraction functions reading them off the
    Postgres database, the Redshift warehouse and the Spark lake (\<open>abs_db\<close>,
    \<open>abs_dw\<close>, \<open>abs_lake\<close>).  Its refinement theorems are C11 (Redshift after
    \<open>create_tables.py\<close>), C15 (Postgres) and C16 (Spark); C24 compares Postgres
    and Redshift through the abstraction.
  \<^item> This theory: the scenarios of the spec and of the divergences, evaluated by the
    kernel (the spec's end-to-end example, the time row of its timestamp, the divergences
    of the three back ends, and the file
    discovery, reset and configuration scenarios), and the witnesses of the theorems
    with hypotheses.

  \<^bold>\<open>What the properties show.\<close>  On Postgres, users follow last write wins
  (C1); events other than \<open>NextSong\<close> write nothing (C2); an unmatched play is kept
  with NULL ids (C3) and a matched one takes the ids of the first catalog row the query
  returns, also when several match (C4); a song file without an artist column is
  loaded in part (C5); a run stops at its first failing statement with the earlier
  statements committed (C8); progress is printed per file (C9).  On Redshift a rerun
  changes no star table (C12), but the songplay anti-join is keyed on user and session
  only, so later plays of a loaded session are lost (C13, \<open>dw_same_session_play_dropped\<close>);
  every songplay joins a staged song and a staged NextSong event on artist name and
  title (C14), so unmatched plays are dropped (\<open>dw_unmatched_play_dropped\<close>); users
  are never updated (\<open>dw_user_level_not_updated\<close>); time rows stay unique (C17); a
  failing statement ends the run with the earlier ones committed (C18,
  \<open>dw_songs_copy_failure\<close>); the \<open>smallint\<close> time columns hold every timestamp up to
  9 * 10^14 ms (C19).  On Spark a successful run overwrites every table (C20), the
  time table has one row per event of any page (C21), songplays join on the title
  alone and take the song's year (C23, \<open>spark_title_only_join\<close>), users are written
  first (C25) and survive a later failure (\<open>spark_failed_log_mixed_state\<close>), and
  times are the executor's local ones (\<open>spark_local_time_zone\<close>).  The three back
  ends number weekdays differently (\<open>redshift_weekday_shift\<close>,
  \<open>spark_pandas_time_rows\<close>).  The Postgres file discovery always returns (C22),
  behaves as the recursive \<open>os.walk\<close> (C26), and finds the \<open>*.json\<close> entries below
  the data directory, those in hidden directories such as \<open>.ipynb_checkpoints\<close>
  included (C27, \<open>stale_checkpoint_overrides_level\<close>).  The Redshift reset keeps the
  staging tables, so a run after it reloads what was staged before (C10,
  \<open>reset_keeps_staged_plays\<close>); the Redshift connection string takes the
  \<open>CLUSTER\<close> values by position (\<open>cluster_values_by_position\<close>), and a percent sign
  in a configured value raises (\<open>percent_in_password\<close>).  Against the one
  specification of the star's keys, Redshift on a new cluster loads exactly the
  specified songs, artists, users and start times (C11); Postgres loads the specified
  users and start times but only the first line of each song file, because
  \<open>insert_song_data\<close> reads \<open>df.values[0]\<close> (C15,
  \<open>postgres_loads_first_song_line\<close>); Spark loads the specified songs and artists,
  adds the NULL user, and takes a start time from every event in the executor's zone
  (C16, \<open>spark_null_user\<close>).  When every song file holds one line, Postgres and
  Redshift runs that both succeed leave the same keys (C24); a Redshift run that
  succeeds has an integer \<open>ts\<close> on every NextSong event, because a NULL start time
  fails the time insert.

  Some facts hold for every statement plan or every query text, because they follow
  from the load policy of the Postgres statements (spec-modelled) or from Redshift's
  \<open>INSERT\<close> semantics: the Postgres tables keep unique non-NULL keys
  (\<open>etl_main_db_wf\<close>, also over any file tree: \<open>etl_main_fs_wf\<close>) and only grow
  (\<open>etl_main_append_only\<close>); the Redshift NOT NULL columns stay non-NULL
  (\<open>dw_main_wf\<close>), the star tables only grow (\<open>dw_main_append_only\<close>), and the
  driver is the loop of the step relation (\<open>dw_main_refines_steps\<close>).  They are kept
  as lemmas of the library, not as properties of the scripts.

  \<^bold>\<open>Modelling choices.\<close>  \<open>etl_main\<close> takes the parsed lines of the files in
  discovery order; \<open>etl_main_fs\<close> takes a file tree whose regular files hold their
  parsed lines, with directory listings in \<open>os.scandir\<close> order; a JSON number with a
  fraction is a rational (only equality is ever applied to it); row order of an unordered \<open>SELECT\<close> is the
  nested-loop order of the join; the serial \<open>songplay_id\<close> is the next value of a
  sequence that every executed songplay \<open>INSERT\<close> advances, a skipped duplicate
  included (a failed \<open>INSERT\<close> also draws a value; the run stops there, so this only
  shifts the ids of a later run and is not modelled).  A value missing from a JSON
  line is NULL; pandas holds it as NaN, which \<open>psycopg2\<close> sends as the float NaN
  rather than NULL, and pandas' dtype inference is not modelled either.
  \<open>pd.to_datetime\<close> raises \<open>OutOfBoundsDatetime\<close> outside the nanosecond range; a
  numeric string, which pandas would parse, raises \<open>ValueError\<close> in the model.  On Redshift a primary-key column is NOT NULL and a statement writes all its
  rows or none; \<open>SELECT DISTINCT\<close> is \<open>remdups\<close>; COPY's type conversions are not
  modelled (values stay as parsed).  On Spark a write in overwrite mode replaces the
  table; the local zone is a fixed offset; \<open>start_time\<close> is kept as local milliseconds
  rather than its string rendering (the rendering is injective).  A failure of the UDF is
  raised at the first \<open>df.show()\<close> that evaluates it, before the time table is
  written; a failing row that \<open>show()\<close> does not evaluate (it evaluates at least the
  first 20) would fail inside \<open>time_table.write\<close>, after the overwrite has removed the
  old time table: that case is not modelled.  No loop of the scripts
  can run forever: every loop is over a finite list, the calendar walks terminate by a
  measure, \<open>os.walk\<close> is a \<^theory_text>\<open>partial_function\<close> whose termination on
  every (finite) tree is a theorem (C22), and the only bounded recursion is
  \<open>configparser\<close>'s interpolation, whose bound of ten levels is Python's own
  (\<open>MAX_INTERPOLATION_DEPTH\<close>); no other fuel is needed.

  \<^bold>\<open>Not modelled.\<close>  Opening connections (\<open>psycopg2.connect\<close>,
  \<open>create_spark_session\<close>, a builder that only names a jar package): network I/O
  with no pipeline logic, assumed to succeed; the import lines and the
  \<open>if __name__ == "__main__"\<close> guards, which only call the modelled \<open>main\<close>;
  parsing the text of the \<open>.cfg\<close> files (a configuration is given as parsed); printing
  other than progress;
  Spark's \<open>show()\<close> and \<open>monotonically_increasing_id\<close>; the physical storage;
  symbolic links in the file tree; Spark's input globs (\<open>song_data/*/*/*/*.json\<close>),
  which Hadoop and Spark resolve on S3 by their own rules; the column types of the
  Redshift tables other than the \<open>smallint\<close> time columns, and the type conversions
  of \<open>COPY\<close>, which depend on Redshift's server-side rules rather than on the code.
\<close>

section \<open>Scenario data\<close>

text \<open>The song and the play of the spec's end-to-end scenario (section 8).\<close>

definition song_line :: jobj where
  "song_line =
     [(''num_songs'', JInt 1), (''artist_id'', JStr ''ARTC1LV1187B9A4858''),
      (''artist_latitude'', JFloat 51.4536), (''artist_longitude'', JFloat (-0.01802)),
      (''artist_location'', JStr ''Lewisham, London''), (''artist_name'', JStr ''Rodriguez''),
      (''song_id'', JStr ''SOAFBCP12A8C13CC7D''), (''title'', JStr ''King Of Scurf''),
      (''duration'', JFloat 301.4), (''year'', JInt 1970)]"

definition play_line :: "jval \<Rightarrow> int \<Rightarrow> jobj" where
  "play_line lvl ts =
     [(''artist'', JStr ''Rodriguez''), (''auth'', JStr ''Logged In''), (''firstName'', JStr ''Lily''),
      (''gender'', JStr ''F''), (''itemInSession'', JInt 0), (''lastName'', JStr ''Koch''),
      (''length'', JFloat 301.4), (''level'', lvl), (''location'', JStr ''Chicago''),
      (''method'', JStr ''PUT''), (''page'', JStr ''NextSong''), (''sessionId'', JInt 818),
      (''song'', JStr ''King Of Scurf''), (''status'', JInt 200), (''ts'', JInt ts),
      (''userAgent'', JStr ''Mozilla''), (''userId'', JStr ''15'')]"

definition log_line :: jobj where
  "log_line = play_line (JStr ''paid'') 1541999142796"

text \<open>A page view that is not a song play, with no key the play lacks.\<close>

definition home_line :: jobj where
  "home_line =
     [(''page'', JStr ''Home''), (''ts'', JInt 1541999100000), (''userId'', JStr ''15''),
      (''sessionId'', JInt 818), (''level'', JStr ''free'')]"

definition start_state :: run_state where
  "start_state = \<lparr>rdb = empty_db, printed = []\<rparr>"

definition empty_dw :: dw where
  "empty_dw = \<lparr>staging_events = [], staging_songs = [], dw_songplays = [], dw_users = [],
     dw_songs = [], dw_artists = [], dw_time = []\<rparr>"

definition s3 :: "jobj list \<Rightarrow> jobj list \<Rightarrow> bucket" where
  "s3 ls ss = \<lparr>log_data = ls, song_data = ss\<rparr>"

text \<open>A warehouse holding the songplay of the spec's play, with that play and one more of
  the same user in another session staged.\<close>

definition other_session_line :: jobj where
  "other_session_line = (''sessionId'', JInt 819) # log_line"

definition two_session_dw :: dw where
  "two_session_dw =
     empty_dw\<lparr>staging_events := [event_of other_session_line], staging_songs := [song_of song_line],
       dw_songplays := [songplay_row (song_of song_line) (event_of log_line)]\<rparr>"


definition empty_lake :: lake where
  "empty_lake = \<lparr>songs_table = None, artist_table = None, users_table = None, time_table = None,
     songplays_table = None\<rparr>"

text \<open>A play of the same user three weeks later, in December 2018.\<close>

definition december_line :: jobj where
  "december_line = play_line (JStr ''paid'') 1544000000000"

text \<open>A Udacity workspace: one song file, and the log of 2018-11-12 with the notebook
  checkpoint Jupyter keeps of it in the hidden directory \<open>.ipynb_checkpoints\<close>; the
  checkpoint was saved before the user upgraded, so its play still has level free.\<close>

definition stale_line :: jobj where
  "stale_line = play_line (JStr ''free'') 1541999142796"

definition song_tree :: "jobj list fs_node" where
  "song_tree = DirN [(''A'', DirN [(''B'', DirN [(''C'', DirN [(''TRAABJL12903CDCF1A.json'', FileN [song_line])])])])]"

definition log_tree :: "jobj list fs_node" where
  "log_tree =
     DirN [(''2018'', DirN [(''11'', DirN
       [(''2018-11-12-events.json'', FileN [log_line]),
        (''.ipynb_checkpoints'', DirN [(''2018-11-12-events-checkpoint.json'', FileN [stale_line])])])])]"

definition workspace_os :: "jobj list os_state" where
  "workspace_os =
     \<lparr>fs_root = DirN [(''home'', DirN [(''workspace'', DirN [(''data'', DirN
        [(''song_data'', song_tree), (''log_data'', log_tree)])])])],
      fs_cwd = [''home'', ''workspace'']\<rparr>"

text \<open>A log directory with a subdirectory whose name holds the glob character \<open>?\<close>
  next to one its pattern matches, and one with a directory named like a JSON file.\<close>

definition glob_dir_os :: "jobj list os_state" where
  "glob_dir_os =
     \<lparr>fs_root = DirN [(''data'', DirN [(''log_data'', DirN
        [(''m?'', DirN [(''a.json'', FileN [log_line])]), (''mx'', DirN [(''b.json'', FileN [stale_line])])])])],
      fs_cwd = []\<rparr>"

definition json_dir_os :: "jobj list os_state" where
  "json_dir_os =
     \<lparr>fs_root = DirN [(''data'', DirN [(''song_data'', DirN []), (''log_data'', DirN
        [(''backup.json'', DirN [(''a.json'', FileN [log_line])])])])],
      fs_cwd = []\<rparr>"

text \<open>A warehouse after one Redshift run over the spec's play and song, with all seven
  tables in place.\<close>

definition loaded_cluster :: cluster where
  "loaded_cluster = \<lparr>present = all_tables, cdw = snd (dw_main (s3 [log_line] [song_line]) empty_dw)\<rparr>"

text \<open>A \<open>dwh.cfg\<close> whose \<open>CLUSTER\<close> section lists the database name before the host, and
  one whose password holds a percent sign.\<close>

definition dwh_cfg :: "string \<times> string \<Rightarrow> string \<times> string \<Rightarrow> config" where
  "dwh_cfg first second =
     [(''CLUSTER'', [first, second, (''DB_USER'', ''dwhuser''), (''DB_PASSWORD'', ''Passw0rd''), (''DB_PORT'', ''5439'')])]"

text \<open>A second song of the same artist, and a cluster on which no table exists yet.\<close>

definition second_song_line :: jobj where
  "second_song_line =
     [(''num_songs'', JInt 1), (''artist_id'', JStr ''ARTC1LV1187B9A4858''),
      (''artist_latitude'', JFloat 51.4536), (''artist_longitude'', JFloat (-0.01802)),
      (''artist_location'', JStr ''Lewisham, London''), (''artist_name'', JStr ''Rodriguez''),
      (''song_id'', JStr ''SOSUGAR12A8C13CC7E''), (''title'', JStr ''Sugar Man''),
      (''duration'', JFloat 229.5), (''year'', JInt 1970)]"

text \<open>The song line without its \<open>artist_name\<close>, and the database after the spec's song
  file is loaded.\<close>

definition no_artist_line :: jobj where
  "no_artist_line = filter (\<lambda>(k, v). k \<noteq> ''artist_name'') song_line"

definition catalog_db :: db where
  "catalog_db = snd (process_song_file [song_line] empty_db)"

definition fresh_cluster :: cluster where
  "fresh_cluster = \<lparr>present = {}, cdw = empty_dw\<rparr>"

section \<open>Scenarios\<close>

text \<open>End-to-end scenario of the spec: one song file with the song "King Of Scurf" by
  Rodriguez (301.4 s) and one log file with a matching NextSong event load without error
  and give exactly one songplay, whose song_id and artist_id are the catalog's.\<close>

theorem end_to_end_scenario:
  "fst (etl_main [[song_line]] [[log_line]] start_state) = None \<and>
   map (\<lambda>(i, p). (i, sp_song_id p, sp_artist_id p, sp_start_time p))
       (songplays (rdb (snd (etl_main [[song_line]] [[log_line]] start_state)))) =
     [(1, JStr ''SOAFBCP12A8C13CC7D'', JStr ''ARTC1LV1187B9A4858'', Some 1541999142796)]"
  by code_simp

text \<open>Time derivation of the spec's example: the epoch milliseconds 1541999142796 are
  2018-11-12 05:05:42.796 UTC, a Monday (pandas weekday 0) in ISO week 46, and the time
  row derived from them says so.\<close>

theorem time_row_example:
  "time_row_of_ms 1541999142796 =
     \<lparr>tm_start_time = 1541999142796, tm_hour = 5, tm_day = 12, tm_week = 46,
      tm_month = 11, tm_year = 2018, tm_weekday = 0\<rparr>"
  by code_simp

text \<open>When two catalog songs match a play on title, artist name and duration, the
  script does not leave the play unresolved, as the spec's section 4.3 asks: it takes
  the first row the query returns (\<open>fetchone\<close>).\<close>

theorem ambiguous_match_takes_first:
  "length (song_select (rdb (snd (etl_main [[song_line], [(''song_id'', JStr ''SOZZZ'') # song_line]] [] start_state)))
      (JStr ''King Of Scurf'') (JStr ''Rodriguez'') (JFloat 301.4)) = 2 \<and>
   map (\<lambda>(i, p). sp_song_id p)
     (songplays (rdb (snd (etl_main [[song_line], [(''song_id'', JStr ''SOZZZ'') # song_line]] [[log_line]] start_state)))) =
     [JStr ''SOAFBCP12A8C13CC7D'']"
  by code_simp

text \<open>A song file whose line has no \<open>artist_name\<close> raises \<open>KeyError\<close> in
  \<open>insert_artist_data\<close>, after the song row has been committed: the file is loaded
  in part, which the spec's per-file transaction (section 5) forbids.\<close>

theorem song_file_partial_write:
  "process_song_file [filter (\<lambda>(k, v). k \<noteq> ''artist_name'') song_line] empty_db =
     (Some (KeyError [''artist_name'']),
      empty_db\<lparr>songs := [song_row_of song_line]\<rparr>)"
  by code_simp

text \<open>The Postgres script loads one song per song file, the first line's, while the
  Redshift \<open>COPY\<close> loads every line: a song file with two songs gives one song on
  Postgres and two on Redshift.\<close>

theorem postgres_loads_first_song_line:
  "fst (etl_main [[song_line, second_song_line]] [] start_state) = None \<and>
   abs_db (rdb (snd (etl_main [[song_line, second_song_line]] [] start_state))) =
     \<lparr>star_songs = {JStr ''SOAFBCP12A8C13CC7D''}, star_artists = {JStr ''ARTC1LV1187B9A4858''},
      star_users = {}, star_times = {}\<rparr> \<and>
   star_songs (abs_dw (snd (dw_main (s3 [] [song_line, second_song_line]) empty_dw))) =
     {JStr ''SOAFBCP12A8C13CC7D'', JStr ''SOSUGAR12A8C13CC7E''}"
  by code_simp

section \<open>Redshift scenarios\<close>

text \<open>Because of the self-comparison in the songplay anti-join, a play loaded by a later
  Redshift run is dropped when the same user already has a songplay in the same session,
  although its start time is new: two runs with one play each (same user and session,
  different ts) leave one songplay, while the time table gets both start times.\<close>

theorem dw_same_session_play_dropped:
  "length (dw_songplays (snd (dw_main (s3 [play_line (JStr ''free'') 1542000000000] [])
      (snd (dw_main (s3 [play_line (JStr ''free'') 1541999142796] [song_line]) empty_dw))))) = 1 \<and>
   length (dw_time (snd (dw_main (s3 [play_line (JStr ''free'') 1542000000000] [])
      (snd (dw_main (s3 [play_line (JStr ''free'') 1541999142796] [song_line]) empty_dw))))) = 2"
  by code_simp

text \<open>A play whose song is not in the staged catalog gives no songplay on Redshift (the
  inner join drops it; the design keeps it with NULL song_id and artist_id), while its
  user row and time row are loaded.\<close>

theorem dw_unmatched_play_dropped:
  "fst (dw_main (s3 [(''song'', JStr ''Other'') # log_line] [song_line]) empty_dw) = None \<and>
   dw_songplays (snd (dw_main (s3 [(''song'', JStr ''Other'') # log_line] [song_line]) empty_dw)) = [] \<and>
   length (dw_users (snd (dw_main (s3 [(''song'', JStr ''Other'') # log_line] [song_line]) empty_dw))) = 1 \<and>
   length (dw_time (snd (dw_main (s3 [(''song'', JStr ''Other'') # log_line] [song_line]) empty_dw))) = 1"
  by code_simp

text \<open>The Redshift users load is insert-if-absent, not last-write-wins: after a run with
  a free-level play and a later run with a paid-level play of the same user, the users
  table still says free; and one run with both plays stores two rows for user 15.\<close>

theorem dw_user_level_not_updated:
  "map u_level (dw_users (snd (dw_main (s3 [play_line (JStr ''paid'') 1542000000000] [])
      (snd (dw_main (s3 [play_line (JStr ''free'') 1541999142796] [song_line]) empty_dw))))) =
     [JStr ''free''] \<and>
   map u_user_id (dw_users (snd (dw_main
      (s3 [play_line (JStr ''free'') 1541999142796, play_line (JStr ''paid'') 1542000000000] [song_line])
      empty_dw))) = [JStr ''15'', JStr ''15'']"
  by code_simp

text \<open>The Redshift time row and the Postgres time row of a timestamp agree on every column
  except the weekday, which Redshift's \<open>extract(dow)\<close> counts from Sunday and pandas from
  Monday: the Redshift weekday is the pandas weekday plus one, modulo seven.\<close>

theorem redshift_weekday_shift:
  "dw_time_row_of_ms ms = (time_row_of_ms ms)\<lparr>tm_weekday := (tm_weekday (time_row_of_ms ms) + 1) mod 7\<rparr>"
  by (simp add: dw_time_row_of_ms_def time_row_of_ms_def sql_dow_def dt_weekday_def Let_def) presburger

text \<open>A song line without \<open>artist_name\<close> makes the \<open>COPY\<close> into \<open>staging_songs\<close> fail
  (NOT NULL column); \<open>main\<close> raises after the events were staged and committed, and no
  star table receives a row.\<close>

theorem dw_songs_copy_failure:
  "dw_main (s3 [log_line] [filter (\<lambda>(k, v). k \<noteq> ''artist_name'') song_line]) empty_dw =
     (Some (LoadError ''staging_songs''),
      empty_dw\<lparr>staging_events := [event_of log_line]\<rparr>)"
  by code_simp

section \<open>Spark scenarios\<close>

text \<open>With a play and a Home page view in the log, Spark's \<open>time_table\<close> gets two
  rows (the design wants the start times of NextSong events only) and
  \<open>songplays_table\<close> one.\<close>

theorem spark_time_table_unfiltered:
  "fst (spark_main 0 [song_line] [log_line, home_line] empty_lake) = None \<and>
   map_option length (time_table (snd (spark_main 0 [song_line] [log_line, home_line] empty_lake))) = Some 2 \<and>
   map_option length (songplays_table (snd (spark_main 0 [song_line] [log_line, home_line] empty_lake))) = Some 1"
  by code_simp

text \<open>The Spark users table keeps a NextSong event without \<open>userId\<close>: the filter is on
  the page only, while the spec's user builder also requires a non-NULL user id.\<close>

theorem spark_null_user:
  "fst (spark_main 0 [song_line] [log_line, filter (\<lambda>(k, v). k \<noteq> ''userId'') log_line] empty_lake) = None \<and>
   star_users (abs_lake (snd (spark_main 0 [song_line] [log_line, filter (\<lambda>(k, v). k \<noteq> ''userId'') log_line]
     empty_lake))) = {JStr ''15'', JNull}"
  by code_simp

text \<open>Spark matches a play to a song by title alone: a play of "King Of Scurf" by another
  artist and of another length gets Rodriguez's song_id, and when two catalog songs share
  the title, one play yields two songplays.\<close>

theorem spark_title_only_join:
  "map_option (map sp_song_id) (songplays_table (snd (spark_main 0 [song_line]
      [(''artist'', JStr ''Someone Else'') # (''length'', JFloat 200) # log_line] empty_lake))) =
     Some [JStr ''SOAFBCP12A8C13CC7D''] \<and>
   map_option length (songplays_table (snd (spark_main 0
      [song_line, (''song_id'', JStr ''SOCOVER'') # (''artist_name'', JStr ''Cover Band'') # song_line]
      [log_line] empty_lake))) = Some 2"
  by code_simp

text \<open>When the UDF fails on a line without \<open>ts\<close> (Python \<open>TypeError\<close>), the new
  \<open>users_table\<close> has already replaced the old one, while \<open>time_table\<close> and
  \<open>songplays_table\<close> are still those of the previous run: the lake mixes two runs.\<close>

theorem spark_failed_log_mixed_state:
  "spark_main 0 [song_line] [play_line (JStr ''free'') 1542000000000, (''ts'', JNull) # log_line]
      (snd (spark_main 0 [song_line] [log_line] empty_lake)) =
     (Some (PythonException ''TypeError''),
      (snd (spark_main 0 [song_line] [log_line] empty_lake))\<lparr>users_table :=
         Some [user_row_of (play_line (JStr ''free'') 1542000000000), user_row_of log_line]\<rparr>)"
  by code_simp

text \<open>\<open>datetime.fromtimestamp\<close> uses the executor's local zone: on an executor eight
  hours behind UTC, the spec's play of Monday 2018-11-12 05:05 UTC gets a time row of
  Sunday the 11th, 21 h, ISO week 45.\<close>

theorem spark_local_time_zone:
  "time_table (snd (spark_main (- 28800000) [song_line] [log_line] empty_lake)) =
     Some [\<lparr>tm_start_time = 1541970342796, tm_hour = 21, tm_day = 11, tm_week = 45,
            tm_month = 11, tm_year = 2018, tm_weekday = 1\<rparr>]"
  by code_simp

text \<open>On an executor in UTC, Spark's time row of a timestamp agrees with the Postgres
  script's on every column except the weekday: Spark's \<open>dayofweek\<close> (Sunday = 1) is the
  pandas weekday (Monday = 0) plus one modulo seven, plus one.\<close>

theorem spark_pandas_time_rows:
  "spark_time_row ms =
     (time_row_of_ms ms)\<lparr>tm_weekday := (tm_weekday (time_row_of_ms ms) + 1) mod 7 + 1\<rparr>"
  by (simp add: spark_time_row_def time_row_of_ms_def spark_dayofweek_def dt_weekday_def Let_def) presburger

text \<open>A run over the December logs after a run over the November logs leaves only the
  December rows in \<open>time_table\<close> and \<open>songplays_table\<close>: the overwrite replaces whole
  tables, not the partitions written (the design overwrites partition by partition).\<close>

theorem spark_overwrite_loses_history:
  "map_option (map tm_start_time) (time_table (snd (spark_main 0 [song_line] [december_line]
      (snd (spark_main 0 [song_line] [log_line] empty_lake))))) = Some [1544000000000] \<and>
   map_option (map sp_start_time) (songplays_table (snd (spark_main 0 [song_line] [december_line]
      (snd (spark_main 0 [song_line] [log_line] empty_lake))))) = Some [Some 1544000000000]"
  by code_simp

text \<open>The spec's end-to-end scenario on Redshift and on Spark (UTC executor).
  Redshift loads one songplay with the catalog's song_id and artist_id and a time row whose
  \<open>extract(dow)\<close> weekday is 1.  Spark writes one songplay with the same ids, partition
  year 1970 (the song's release year, not the play's 2018) and month 11, and a time row
  with \<open>dayofweek\<close> 2 (Monday).\<close>

theorem end_to_end_redshift_spark:
  "fst (dw_main (s3 [log_line] [song_line]) empty_dw) = None \<and>
   map (\<lambda>p. (sp_song_id p, sp_artist_id p, sp_start_time p))
     (dw_songplays (snd (dw_main (s3 [log_line] [song_line]) empty_dw))) =
     [(JStr ''SOAFBCP12A8C13CC7D'', JStr ''ARTC1LV1187B9A4858'', Some 1541999142796)] \<and>
   map (map_option tm_weekday) (dw_time (snd (dw_main (s3 [log_line] [song_line]) empty_dw))) = [Some 1] \<and>
   fst (spark_main 0 [song_line] [log_line] empty_lake) = None \<and>
   map_option (map (\<lambda>p. (sp_song_id p, sp_artist_id p, sp_start_time p, lsp_year p, lsp_month p)))
     (songplays_table (snd (spark_main 0 [song_line] [log_line] empty_lake))) =
     Some [(JStr ''SOAFBCP12A8C13CC7D'', JStr ''ARTC1LV1187B9A4858'', Some 1541999142796, JInt 1970, 11)] \<and>
   map_option (map tm_weekday) (time_table (snd (spark_main 0 [song_line] [log_line] empty_lake))) = Some [2]"
  by code_simp

text \<open>Spark's \<open>users_table\<close> removes only identical rows: two plays of user 15 with
  different levels give two rows for the user.  \<open>artist_table\<close> removes nothing: two
  songs of one artist give two artist rows.\<close>

theorem spark_users_and_artists_duplicates:
  "map_option (map u_user_id) (users_table (snd (spark_main 0 [song_line]
      [play_line (JStr ''free'') 1541999142796, play_line (JStr ''paid'') 1542000000000] empty_lake))) =
     Some [JStr ''15'', JStr ''15''] \<and>
   map_option length (artist_table (snd (spark_main 0
      [song_line, (''song_id'', JStr ''SOB'') # (''title'', JStr ''Other'') # song_line] [log_line] empty_lake))) =
     Some 2"
  by code_simp

section \<open>File discovery scenario\<close>

text \<open>\<open>os.walk\<close> enters the hidden \<open>.ipynb_checkpoints\<close> directory (\<open>glob\<close> hides only
  dot-files), so the stale checkpoint is loaded after the log it copies: the user ends
  with level free, and two log files are counted.\<close>

theorem stale_checkpoint_overrides_level:
  "map_option (\<lambda>(e, s). (e, map u_level (users (rdb s)), printed s)) (etl_main_fs workspace_os start_state) =
     Some (None, [JStr ''free''],
           [FilesFound 1, FilesProcessed 1 1, FilesFound 2, FilesProcessed 1 2, FilesProcessed 2 2])"
  by code_simp

text \<open>The walked directory's name is a glob pattern: the files of \<open>m?\<close> are looked up in
  every directory \<open>m?\<close> matches, so those of \<open>mx\<close> are found twice.\<close>

theorem glob_characters_in_directory_name:
  "discover glob_dir_os [''data'', ''log_data''] =
     Some [[''data'', ''log_data'', ''m?'', ''a.json''], [''data'', ''log_data'', ''mx'', ''b.json''],
           [''data'', ''log_data'', ''mx'', ''b.json'']]"
  by code_simp

text \<open>\<open>*.json\<close> matches directories too: a directory named \<open>backup.json\<close> is listed as a
  file, and opening it raises \<open>IsADirectoryError\<close>, which ends \<open>main\<close> before the files
  inside it are loaded.\<close>

theorem json_named_directory_raises:
  "map_option (\<lambda>(e, s). (e, users (rdb s))) (etl_main_fs json_dir_os start_state) =
     Some (Some (OSError ''IsADirectoryError''), [])"
  by code_simp

section \<open>Table reset scenario\<close>

text \<open>After a full reset (\<open>create_tables.py\<close>) a run of \<open>etl.py\<close> over an empty bucket
  loads the songplay of the run before the reset again: the staged event survived the
  reset.\<close>

theorem reset_keeps_staged_plays:
  "length (dw_songplays (cdw (snd (cluster_main (s3 [] []) (reset_main loaded_cluster))))) = 1 \<and>
   length (staging_events (cdw (snd (cluster_main (s3 [] []) (reset_main loaded_cluster))))) = 1"
  by code_simp

section \<open>Configuration scenarios\<close>

text \<open>The Redshift connection string takes the \<open>CLUSTER\<close> values by position, not by
  name: a file listing \<open>DB_NAME\<close> before \<open>HOST\<close> connects to a host named after the
  database.\<close>

theorem cluster_values_by_position:
  "dw_connect_string (dwh_cfg (''DB_NAME'', ''dwh'') (''HOST'', ''example.redshift.amazonaws.com'')) =
     Inr ''host=dwh dbname=example.redshift.amazonaws.com user=dwhuser password=Passw0rd port=5439''"
  by code_simp

text \<open>\<open>configparser\<close> interpolates the values: a password with a percent sign that does
  not start \<open>%%\<close> or \<open>%(\<close> raises \<open>InterpolationSyntaxError\<close> before any connection.\<close>

theorem percent_in_password:
  "dw_script [(''S3'', [(''LOG_DATA'', ''s3://udacity-dend/log_data''), (''SONG_DATA'', ''s3://udacity-dend/song_data'')]),
              (''IAM_ROLE'', [(''ARN'', ''arn:aws:iam::1:role/dwh'')]),
              (''CLUSTER'', [(''HOST'', ''h''), (''DB_NAME'', ''dwh''), (''DB_USER'', ''u''),
                             (''DB_PASSWORD'', ''50%off''), (''DB_PORT'', ''5439'')])]
     (\<lambda>_. [log_line]) empty_dw = (Some (ConfigError ''InterpolationSyntaxError''), empty_dw)"
  by code_simp

text \<open>Without \<open>dl.cfg\<close> the Spark \<open>main\<close> raises \<open>NoSectionError\<close> in \<open>setup_aws\<close>, before
  any table is written.\<close>

theorem spark_missing_config:
  "fst (spark_etl_main (read_config Map.empty ''dl.cfg'') 0 [song_line] [log_line] (Map.empty, empty_lake)) =
     Some (ConfigError ''NoSectionError'') \<and>
   snd (snd (spark_etl_main (read_config Map.empty ''dl.cfg'') 0 [song_line] [log_line] (Map.empty, empty_lake))) =
     empty_lake \<and>
   fst (snd (spark_etl_main (read_config Map.empty ''dl.cfg'') 0 [song_line] [log_line] (Map.empty, empty_lake)))
     ''AWS_ACCESS_KEY_ID'' = None"
  by code_simp

section \<open>Witnesses\<close>

theorem etl_main_db_wf_witness:
  "db_wf (rdb start_state) \<and> db_wf (rdb (snd (etl_main [[song_line]] [[log_line]] start_state)))"
proof -
  have h: "db_wf (rdb start_state)" by (simp add: start_state_def)
  show ?thesis using h etl_main_db_wf [OF h, of "[[song_line]]" "[[log_line]]"] by simp
qed

theorem process_log_file_last_write_wins_witness:
  "filter (\<lambda>x. u_user_id x = JStr ''15'')
     (users (snd (process_log_file [play_line (JStr ''free'') 1541999142796,
                                    play_line (JStr ''paid'') 1541999150000] empty_db))) =
   [user_row_of (play_line (JStr ''paid'') 1541999150000)]"
proof -
  let ?ls = "[play_line (JStr ''free'') 1541999142796, play_line (JStr ''paid'') 1541999150000]"
  have run: "fst (process_log_file ?ls empty_db) = None" by code_simp
  have last: "last_by u_user_id (map user_row_of (filter is_next_song ?ls)) (JStr ''15'') =
      Some (user_row_of (play_line (JStr ''paid'') 1541999150000))" by code_simp
  have eq: "process_log_file ?ls empty_db = (None, snd (process_log_file ?ls empty_db))"
    using run by (metis prod.collapse)
  show ?thesis
    using process_log_file_last_write_wins [OF db_wf_empty eq last] .
qed

theorem process_log_file_ignores_other_events_witness:
  "process_log_file ([log_line] @ home_line # []) = process_log_file ([log_line] @ [])"
proof -
  have h1: "\<not> is_next_song home_line" by code_simp
  have h2: "set (map fst home_line) \<subseteq> set (fcols (frame_of_lines ([log_line] @ [])))"
    by code_simp
  show ?thesis by (rule process_log_file_ignores_other_events [OF h1 h2])
qed

theorem process_log_file_no_song_plays_witness:
  "snd (process_log_file [home_line] empty_db) = empty_db"
proof -
  have h: "\<forall>r \<in> set [home_line]. \<not> is_next_song r" by code_simp
  show ?thesis by (rule process_log_file_no_song_plays [OF h])
qed

theorem insert_songplay_row_unmatched_witness:
  "insert_songplay_row (frame_of_lines [log_line]) log_line empty_db =
    (None, empty_db\<lparr>songplays := [(1, songplay_of_row log_line (Some 1541999142796) (JNull, JNull))],
      sp_seq := 1\<rparr>)"
proof -
  have h1: "set [''song'', ''artist'', ''length'', ''ts''] \<subseteq> set (fcols (frame_of_lines [log_line]))"
    by code_simp
  have h2: "set play_cols \<subseteq> set (fcols (frame_of_lines [log_line]))" by code_simp
  have h3: "to_datetime_ms (cell log_line ''ts'') = Inr (Some 1541999142796)" by code_simp
  have h4: "cell log_line ''userId'' \<noteq> JNull" and h5: "cell log_line ''sessionId'' \<noteq> JNull"
    by code_simp+
  have h6: "song_select empty_db (cell log_line ''song'') (cell log_line ''artist'') (cell log_line ''length'') = []"
    by (simp add: song_select_def empty_db_def)
  have h7: "sp_key (songplay_of_row log_line (Some 1541999142796) (JNull, JNull)) \<notin> keys sp_row_key (songplays empty_db)"
    by (simp add: empty_db_def)
  show ?thesis
    using insert_songplay_row_unmatched [OF h1 h2 h3 h4 h5 h6 h7] by (simp add: empty_db_def)
qed

theorem insert_songplay_row_matched_witness:
  "insert_songplay_row (frame_of_lines [log_line]) log_line catalog_db =
    (None, catalog_db\<lparr>songplays := [(1, songplay_of_row log_line (Some 1541999142796)
      (JStr ''SOAFBCP12A8C13CC7D'', JStr ''ARTC1LV1187B9A4858''))], sp_seq := 1\<rparr>)"
proof -
  have h1: "set [''song'', ''artist'', ''length'', ''ts''] \<subseteq> set (fcols (frame_of_lines [log_line]))"
    by code_simp
  have h2: "set play_cols \<subseteq> set (fcols (frame_of_lines [log_line]))" by code_simp
  have h3: "to_datetime_ms (cell log_line ''ts'') = Inr (Some 1541999142796)" by code_simp
  have h4: "cell log_line ''userId'' \<noteq> JNull" and h5: "cell log_line ''sessionId'' \<noteq> JNull"
    by code_simp+
  have h6: "song_select catalog_db (cell log_line ''song'') (cell log_line ''artist'') (cell log_line ''length'') =
      (JStr ''SOAFBCP12A8C13CC7D'', JStr ''ARTC1LV1187B9A4858'') # []"
    by code_simp
  have h7: "sp_key (songplay_of_row log_line (Some 1541999142796)
      (JStr ''SOAFBCP12A8C13CC7D'', JStr ''ARTC1LV1187B9A4858'')) \<notin> keys sp_row_key (songplays catalog_db)"
    by code_simp
  have h8: "songplays catalog_db = []" "sp_seq catalog_db = 0" by code_simp+
  show ?thesis
    using insert_songplay_row_matched [OF h1 h2 h3 h4 h5 h6 h7] h8 by simp
qed

theorem process_song_file_partial_write_witness:
  "process_song_file [no_artist_line] empty_db =
    (Some (KeyError [''artist_name'']), empty_db\<lparr>songs := ins_absent s_song_id (song_row_of no_artist_line) []\<rparr>)"
proof -
  have h1: "set_index ''num_songs'' (frame_of_lines [no_artist_line]) =
      Inr ((frame_of_lines [no_artist_line])\<lparr>fcols := removeAll ''num_songs'' (fcols (frame_of_lines [no_artist_line]))\<rparr>)"
    by code_simp
  have h2: "require_cols ((frame_of_lines [no_artist_line])
      \<lparr>fcols := removeAll ''num_songs'' (fcols (frame_of_lines [no_artist_line]))\<rparr>) song_cols = None"
    by code_simp
  have h3: "require_cols ((frame_of_lines [no_artist_line])
      \<lparr>fcols := removeAll ''num_songs'' (fcols (frame_of_lines [no_artist_line]))\<rparr>) artist_cols =
      Some (KeyError [''artist_name''])"
    by code_simp
  have h4: "[no_artist_line] \<noteq> []" by simp
  have h5: "cell (hd [no_artist_line]) ''song_id'' \<noteq> JNull" by code_simp
  show ?thesis
    using process_song_file_partial_write [OF h1 h2 h3 h4 h5, of empty_db] by (simp add: empty_db_def)
qed

theorem dw_main_songplays_from_staging_witness:
  "\<exists>ss\<in>set (staging_songs (snd (dw_main (s3 [log_line] [song_line]) empty_dw))).
   \<exists>se\<in>set (staging_events (snd (dw_main (s3 [log_line] [song_line]) empty_dw))).
     sql_eq (ss_artist_name ss) (se_artist se) \<and> sql_eq (ss_title ss) (se_song se) \<and> page_is_next se \<and>
     hd (dw_songplays (snd (dw_main (s3 [log_line] [song_line]) empty_dw))) = songplay_row ss se"
proof -
  have h: "fst (dw_main (s3 [log_line] [song_line]) empty_dw) = None" by code_simp
  then have c: "dw_main (s3 [log_line] [song_line]) empty_dw =
      (None, snd (dw_main (s3 [log_line] [song_line]) empty_dw))"
    by (metis prod.collapse)
  have m: "hd (dw_songplays (snd (dw_main (s3 [log_line] [song_line]) empty_dw))) \<in>
      set (dw_songplays (snd (dw_main (s3 [log_line] [song_line]) empty_dw)))" by code_simp
  have n: "hd (dw_songplays (snd (dw_main (s3 [log_line] [song_line]) empty_dw))) \<notin> set (dw_songplays empty_dw)"
    by (simp add: empty_dw_def)
  show ?thesis by (rule dw_main_songplays_from_staging [OF c m n])
qed

theorem process_data_progress_witness:
  "\<exists>k \<le> length [[song_line]].
     printed (snd (process_data process_song_file [[song_line]] start_state)) =
       printed start_state @ FilesFound (length [[song_line]]) #
         map (\<lambda>j. FilesProcessed j (length [[song_line]])) [1..<Suc k] \<and>
     (fst (process_data process_song_file [[song_line]] start_state) = None \<longleftrightarrow> k = length [[song_line]])"
  by (rule process_data_progress)

theorem dw_main_idempotent_witness:
  "fst (dw_main (s3 [log_line, home_line] [song_line]) (snd (dw_main (s3 [log_line, home_line] [song_line]) empty_dw))) = None \<and>
   star_tables (snd (dw_main (s3 [log_line, home_line] [song_line]) (snd (dw_main (s3 [log_line, home_line] [song_line]) empty_dw)))) =
     star_tables (snd (dw_main (s3 [log_line, home_line] [song_line]) empty_dw))"
  by (rule dw_main_idempotent [of "s3 [log_line, home_line] [song_line]" empty_dw]) code_simp+

theorem songplay_table_select_skips_session_witness:
  "songplay_row (song_of song_line) (event_of other_session_line) \<in> set (songplay_table_select two_session_dw) \<and>
   songplay_row (song_of song_line) (event_of log_line) \<in> set (dw_songplays two_session_dw) \<and>
   sp_start_time (songplay_row (song_of song_line) (event_of log_line)) \<noteq> None \<and>
   \<not> (sql_eq (sp_user_id (songplay_row (song_of song_line) (event_of log_line)))
          (sp_user_id (songplay_row (song_of song_line) (event_of other_session_line))) \<and>
       sql_eq (sp_session_id (songplay_row (song_of song_line) (event_of log_line)))
          (sp_session_id (songplay_row (song_of song_line) (event_of other_session_line))))"
  using songplay_table_select_skips_session [of "songplay_row (song_of song_line) (event_of other_session_line)"
      two_session_dw "songplay_row (song_of song_line) (event_of log_line)"]
  by code_simp

theorem dw_main_wf_witness:
  "dw_wf empty_dw \<and> dw_wf (snd (dw_main (s3 [log_line] [song_line]) empty_dw))"
proof -
  have h: "dw_wf empty_dw" by code_simp
  show ?thesis using h dw_main_wf [OF h] by simp
qed

theorem dw_main_time_distinct_witness:
  "distinct (map (map_option tm_start_time) (dw_time empty_dw)) \<and>
   distinct (map (map_option tm_start_time) (dw_time (snd (dw_main (s3 [log_line, log_line] [song_line]) empty_dw))))"
proof -
  have h: "distinct (map (map_option tm_start_time) (dw_time empty_dw))" by code_simp
  show ?thesis using h dw_main_time_distinct [OF h] by simp
qed

theorem dw_main_first_error_witness:
  "\<exists>pre q post. copy_table_queries @ insert_table_queries = pre @ q # post \<and>
     for_each (dw_execute (s3 [log_line] [filter (\<lambda>(k, v). k \<noteq> ''artist_name'') song_line])) pre empty_dw =
       (None, empty_dw\<lparr>staging_events := [event_of log_line]\<rparr>) \<and>
     run_query (s3 [log_line] [filter (\<lambda>(k, v). k \<noteq> ''artist_name'') song_line]) q
       (empty_dw\<lparr>staging_events := [event_of log_line]\<rparr>) = Inl (LoadError ''staging_songs'')"
  by (rule dw_main_first_error) code_simp

theorem dw_time_row_fits_smallint_witness:
  "0 \<le> (1541999142796::int) \<and> (1541999142796::int) < 900000000000000 \<and>
   time_row_fits (Some (dw_time_row_of_ms 1541999142796))"
  using dw_time_row_fits_smallint [of 1541999142796] by simp

theorem spark_main_overwrites_witness:
  "spark_main 0 [song_line] [log_line] (snd (spark_main 0 [song_line] [log_line] empty_lake)) =
   spark_main 0 [song_line] [log_line] empty_lake"
  by (rule spark_main_overwrites) code_simp

theorem process_log_data_time_rows_witness:
  "\<exists>ts. time_table (snd (process_log_data 0 [log_line, home_line] (snd (process_song_data [song_line] empty_lake)))) = Some ts \<and>
     length ts = length [log_line, home_line] \<and>
     (\<forall>i < length [log_line, home_line].
        udf_local_ms 0 (cell ([log_line, home_line] ! i) ''ts'') = Inr (tm_start_time (ts ! i)))"
  by (rule process_log_data_time_rows [where lk = "snd (process_song_data [song_line] empty_lake)"]) code_simp

theorem spark_main_songplays_from_catalog_witness:
  "\<exists>r\<in>set [log_line]. \<exists>s\<in>set [song_line].
     sql_eq (cell r ''song'') (cell s ''title'') \<and>
     sp_song_id (hd (the (songplays_table (snd (spark_main 0 [song_line] [log_line] empty_lake))))) = cell s ''song_id'' \<and>
     sp_artist_id (hd (the (songplays_table (snd (spark_main 0 [song_line] [log_line] empty_lake))))) = cell s ''artist_id'' \<and>
     lsp_year (hd (the (songplays_table (snd (spark_main 0 [song_line] [log_line] empty_lake))))) = cell s ''year'' \<and>
     sp_user_id (hd (the (songplays_table (snd (spark_main 0 [song_line] [log_line] empty_lake))))) = cell r ''userId'' \<and>
     sp_session_id (hd (the (songplays_table (snd (spark_main 0 [song_line] [log_line] empty_lake))))) = cell r ''sessionId''"
  by (rule spark_main_songplays_from_catalog
        [where tz = 0 and lk = empty_lake and lk' = "snd (spark_main 0 [song_line] [log_line] empty_lake)"
           and ps = "the (songplays_table (snd (spark_main 0 [song_line] [log_line] empty_lake)))"])
     code_simp+

theorem process_log_data_users_witness:
  "\<exists>us. users_table (snd (process_log_data 0 [log_line, home_line] empty_lake)) = Some us \<and> distinct us \<and>
     set us = user_row_of ` {r \<in> set [log_line, home_line]. is_next_song r}"
  by (rule process_log_data_users) code_simp

theorem os_walk_eq_walk_tree_witness:
  "os_walk workspace_os [''data'', ''log_data''] = Some (walk_tree [''data'', ''log_data''] log_tree)"
  by (rule os_walk_eq_walk_tree) code_simp+

theorem etl_main_fs_refines_witness:
  "etl_main_fs workspace_os start_state = Some (etl_main [[song_line]] [[log_line], [stale_line]] start_state)"
  by (rule etl_main_fs_refines
      [where sfs = "[[''home'', ''workspace'', ''data'', ''song_data'', ''A'', ''B'', ''C'', ''TRAABJL12903CDCF1A.json'']]"
         and lfs = "[[''home'', ''workspace'', ''data'', ''log_data'', ''2018'', ''11'', ''2018-11-12-events.json''],
                    [''home'', ''workspace'', ''data'', ''log_data'', ''2018'', ''11'', ''.ipynb_checkpoints'',
                     ''2018-11-12-events-checkpoint.json'']]"])
     code_simp+

theorem discover_json_files_witness:
  "discover workspace_os [''data'', ''log_data''] =
     Some [[''home'', ''workspace'', ''data'', ''log_data'', ''2018'', ''11'', ''2018-11-12-events.json''],
           [''home'', ''workspace'', ''data'', ''log_data'', ''2018'', ''11'', ''.ipynb_checkpoints'',
            ''2018-11-12-events-checkpoint.json'']]"
proof -
  have "discover workspace_os [''data'', ''log_data''] =
          Some (json_files (fs_cwd workspace_os @ [''data'', ''log_data'']) log_tree)"
    by (rule discover_json_files) code_simp+
  also have "json_files (fs_cwd workspace_os @ [''data'', ''log_data'']) log_tree =
      [[''home'', ''workspace'', ''data'', ''log_data'', ''2018'', ''11'', ''2018-11-12-events.json''],
       [''home'', ''workspace'', ''data'', ''log_data'', ''2018'', ''11'', ''.ipynb_checkpoints'',
        ''2018-11-12-events-checkpoint.json'']]"
    by code_simp
  finally show ?thesis .
qed

theorem etl_main_fs_wf_witness:
  "\<exists>r s'. etl_main_fs workspace_os start_state = Some (r, s') \<and> db_wf (rdb s')"
  by (rule etl_main_fs_wf) code_simp

theorem cluster_etl_refines_star_witness:
  "fst (cluster_main (s3 [log_line, home_line] [song_line]) (reset_main fresh_cluster)) = None \<and>
   abs_dw (cdw (snd (cluster_main (s3 [log_line, home_line] [song_line]) (reset_main fresh_cluster)))) =
     star_spec [song_line] [log_line, home_line]"
proof -
  have p: "present fresh_cluster = {}" by (simp add: fresh_cluster_def)
  have h: "fst (cluster_main (s3 [log_line, home_line] [song_line]) (reset_main fresh_cluster)) = None"
    by code_simp
  then have c: "cluster_main (s3 [log_line, home_line] [song_line]) (reset_main fresh_cluster) =
      (None, snd (cluster_main (s3 [log_line, home_line] [song_line]) (reset_main fresh_cluster)))"
    by (metis prod.collapse)
  show ?thesis using h cluster_etl_refines_star [OF p c] by (simp add: s3_def)
qed

theorem etl_main_refines_star_witness:
  "fst (etl_main [[song_line, second_song_line]] [[log_line, home_line]] start_state) = None \<and>
   abs_db (rdb (snd (etl_main [[song_line, second_song_line]] [[log_line, home_line]] start_state))) =
     star_spec [song_line] [log_line, home_line]"
proof -
  have h: "fst (etl_main [[song_line, second_song_line]] [[log_line, home_line]] start_state) = None"
    by code_simp
  then have c: "etl_main [[song_line, second_song_line]] [[log_line, home_line]] start_state =
      (None, snd (etl_main [[song_line, second_song_line]] [[log_line, home_line]] start_state))"
    by (metis prod.collapse)
  have e: "rdb start_state = empty_db" by (simp add: start_state_def)
  have t: "list_all (\<lambda>r. is_next_song r \<longrightarrow> ts_epoch_ms (cell r ''ts'') \<noteq> None)
      (concat [[log_line, home_line]])" by code_simp
  show ?thesis using h etl_main_refines_star [OF c e t] by simp
qed

theorem spark_main_star_witness:
  "fst (spark_main 0 [song_line] [log_line, home_line] empty_lake) = None \<and>
   star_songs (abs_lake (snd (spark_main 0 [song_line] [log_line, home_line] empty_lake))) =
     star_songs (star_spec [song_line] [log_line, home_line]) \<and>
   star_artists (abs_lake (snd (spark_main 0 [song_line] [log_line, home_line] empty_lake))) =
     star_artists (star_spec [song_line] [log_line, home_line]) \<and>
   star_users (abs_lake (snd (spark_main 0 [song_line] [log_line, home_line] empty_lake))) - {JNull} =
     star_users (star_spec [song_line] [log_line, home_line]) \<and>
   star_times (abs_lake (snd (spark_main 0 [song_line] [log_line, home_line] empty_lake))) =
     {1541999142796, 1541999100000}"
proof -
  have h: "fst (spark_main 0 [song_line] [log_line, home_line] empty_lake) = None" by code_simp
  then have c: "spark_main 0 [song_line] [log_line, home_line] empty_lake =
      (None, snd (spark_main 0 [song_line] [log_line, home_line] empty_lake))"
    by (metis prod.collapse)
  have t: "(\<lambda>r. projr (udf_local_ms 0 (cell r ''ts''))) ` set [log_line, home_line] =
      {1541999142796, 1541999100000}" by code_simp
  show ?thesis using h t spark_main_star [OF c] by simp
qed

theorem postgres_redshift_same_star_witness:
  "fst (etl_main [[song_line]] [[log_line, home_line]] start_state) = None \<and>
   fst (cluster_main (s3 [log_line, home_line] [song_line]) (reset_main fresh_cluster)) = None \<and>
   abs_db (rdb (snd (etl_main [[song_line]] [[log_line, home_line]] start_state))) =
     abs_dw (cdw (snd (cluster_main (s3 [log_line, home_line] [song_line]) (reset_main fresh_cluster))))"
proof -
  have h1: "fst (etl_main [[song_line]] [[log_line, home_line]] start_state) = None" by code_simp
  then have c1: "etl_main [[song_line]] [[log_line, home_line]] start_state =
      (None, snd (etl_main [[song_line]] [[log_line, home_line]] start_state))"
    by (metis prod.collapse)
  have h2: "fst (cluster_main (s3 [log_line, home_line] [song_line]) (reset_main fresh_cluster)) = None"
    by code_simp
  then have c2: "cluster_main (s3 [log_line, home_line] [song_line]) (reset_main fresh_cluster) =
      (None, snd (cluster_main (s3 [log_line, home_line] [song_line]) (reset_main fresh_cluster)))"
    by (metis prod.collapse)
  have e: "rdb start_state = empty_db" by (simp add: start_state_def)
  have p: "present fresh_cluster = {}" by (simp add: fresh_cluster_def)
  have b: "song_data (s3 [log_line, home_line] [song_line]) = concat [[song_line]]"
    "log_data (s3 [log_line, home_line] [song_line]) = concat [[log_line, home_line]]"
    by (simp_all add: s3_def)
  have o: "list_all (\<lambda>ls. length ls = 1) [[song_line]]" by simp
  show ?thesis using h1 h2 postgres_redshift_same_star [OF c1 e p c2 b o] by simp
qed

end
